(* ===== verification/Atom_Prelude.thy ===== *)
theory Atom_Prelude
  imports Complex_Main "HOL-Library.Word"
begin

text \<open>
  Shared vocabulary of the development: the type names of the model, the result type
  of a validation step that threads the interpreter state, and the sequencing
  combinators the C loops of \<open>validatebehavior.cpp\<close> are written with (one early return
  per failed element).  The lemmas here are generic: they know nothing of Python.
\<close>

named_theorems result_simps "evaluation rules of the result combinators"

type_synonym byte = "8 word"

type_synonym ustr = "nat list" \<comment> \<open>a Python str: its code points\<close>

type_synonym mid = nat         \<comment> \<open>identity of a Member object\<close>

definition ustr :: "string \<Rightarrow> ustr" where
  "ustr s = map of_char s"

text \<open>The position of the first occurrence of an element (the length if there is none).\<close>

fun list_index :: "'a list \<Rightarrow> 'a \<Rightarrow> nat" where
  "list_index [] a = 0"
| "list_index (x # xs) a = (if x = a then 0 else Suc (list_index xs a))"

text \<open>
  A step that may run arbitrary Python code takes the interpreter state \<open>'w\<close> and
  returns the new state with either the pending exception (\<open>Inl\<close>) or the returned
  object (\<open>Inr\<close>).  A step of the dispatcher may in addition run out of fuel: \<open>None\<close>.
\<close>

type_synonym ('w, 'e, 'a) step = "'w \<times> ('e + 'a)"

type_synonym ('w, 'e, 'a) fstep = "('w \<times> ('e + 'a)) option"

definition bindR :: "('w, 'e, 'a) fstep \<Rightarrow> ('w \<Rightarrow> 'a \<Rightarrow> ('w, 'e, 'b) fstep) \<Rightarrow> ('w, 'e, 'b) fstep" where
  "bindR r f = (case r of None \<Rightarrow> None
                | Some (w, Inl e) \<Rightarrow> Some (w, Inl e)
                | Some (w, Inr a) \<Rightarrow> f w a)"

text \<open>
  \<open>mapR f xs w\<close> is a C loop over \<open>xs\<close> that calls \<open>f\<close> on each element in order and
  returns at the first failure: the shape of the element loops of the tuple and list
  handlers.
\<close>

fun mapR :: "('a \<Rightarrow> 'w \<Rightarrow> ('w, 'e, 'b) fstep) \<Rightarrow> 'a list \<Rightarrow> 'w \<Rightarrow> ('w, 'e, 'b list) fstep" where
  "mapR f [] w = Some (w, Inr [])"
| "mapR f (x # xs) w =
     bindR (f x w) (\<lambda>w1 y. bindR (mapR f xs w1) (\<lambda>w2 ys. Some (w2, Inr (y # ys))))"

text \<open>\<open>foldR\<close> threads an accumulator instead: the dictionary loops.\<close>

fun foldR :: "('c \<Rightarrow> 'a \<Rightarrow> 'w \<Rightarrow> ('w, 'e, 'c) fstep) \<Rightarrow> 'c \<Rightarrow> 'a list \<Rightarrow> 'w \<Rightarrow> ('w, 'e, 'c) fstep" where
  "foldR f acc [] w = Some (w, Inr acc)"
| "foldR f acc (x # xs) w = bindR (f acc x w) (\<lambda>w1 acc1. foldR f acc1 xs w1)"

text \<open>
  Totality: \<open>returns r\<close> says that a step did not run out of fuel.  A loop whose body
  always returns returns.
\<close>

definition returns :: "('w, 'e, 'a) fstep \<Rightarrow> bool" where
  "returns r \<longleftrightarrow> r \<noteq> None"

section \<open>More fuel: extension of partial results\<close>

text \<open>
  \<open>fext r r'\<close>: \<open>r'\<close> agrees with \<open>r\<close> wherever \<open>r\<close> returned.  A run with more fuel
  extends a run with less; the combinators preserve extension.
\<close>

definition fext :: "('w, 'e, 'a) fstep \<Rightarrow> ('w, 'e, 'a) fstep \<Rightarrow> bool" where
  "fext r r' \<longleftrightarrow> (r \<noteq> None \<longrightarrow> r' = r)"

section \<open>Lemmas of the combinators\<close>

lemma bindR_None [simp, result_simps]: "bindR None f = None"
  and bindR_Inl [simp, result_simps]: "bindR (Some (w, Inl e)) f = Some (w, Inl e)"
  and bindR_Inr [simp, result_simps]: "bindR (Some (w, Inr a)) f = f w a"
  by (simp_all add: bindR_def)

lemma bindR_Some_cases:
  assumes "bindR r f = Some (w', x)"
  obtains (err) e where "r = Some (w', Inl e)" and "x = Inl e"
        | (ok) w a where "r = Some (w, Inr a)" and "f w a = Some (w', x)"
  using assms by (auto simp: bindR_def split: option.splits sum.splits)

lemma bindR_eq_None:
  "bindR r f = None \<longleftrightarrow> r = None \<or> (\<exists>w a. r = Some (w, Inr a) \<and> f w a = None)"
  by (auto simp: bindR_def split: option.splits sum.splits)

lemma mapR_length:
  "mapR f xs w = Some (w', Inr ys) \<Longrightarrow> length ys = length xs"
proof (induction xs arbitrary: w ys)
  case Nil
  then show ?case by simp
next
  case (Cons x xs)
  from Cons.prems obtain w1 y where "f x w = Some (w1, Inr y)"
      and "bindR (mapR f xs w1) (\<lambda>w2 ys. Some (w2, Inr (y # ys))) = Some (w', Inr ys)"
    by (auto elim: bindR_Some_cases)
  then obtain ys' where "mapR f xs w1 = Some (w', Inr ys')" and "ys = y # ys'"
    by (auto elim: bindR_Some_cases)
  with Cons.IH show ?case by simp
qed

lemma mapR_nth:
  "mapR f xs w = Some (w', Inr ys) \<Longrightarrow> i < length xs \<Longrightarrow>
     \<exists>wi wj. f (xs ! i) wi = Some (wj, Inr (ys ! i))"
proof (induction xs arbitrary: w ys i)
  case Nil
  then show ?case by simp
next
  case (Cons x xs)
  from Cons.prems(1) obtain w1 y where fx: "f x w = Some (w1, Inr y)"
      and "bindR (mapR f xs w1) (\<lambda>w2 ys. Some (w2, Inr (y # ys))) = Some (w', Inr ys)"
    by (auto elim: bindR_Some_cases)
  then obtain ys' where rest: "mapR f xs w1 = Some (w', Inr ys')" and ys: "ys = y # ys'"
    by (auto elim: bindR_Some_cases)
  show ?case
  proof (cases i)
    case 0
    with fx ys show ?thesis by auto
  next
    case (Suc j)
    with Cons.prems(2) have "j < length xs" by simp
    with Cons.IH [OF rest] Suc ys show ?thesis by simp
  qed
qed

text \<open>Running the loop on \<open>xs @ ys\<close> is running it on \<open>xs\<close> and then on \<open>ys\<close>.\<close>

lemma mapR_append:
  "mapR f (xs @ ys) w =
     bindR (mapR f xs w) (\<lambda>w1 as. bindR (mapR f ys w1) (\<lambda>w2 bs. Some (w2, Inr (as @ bs))))"
proof (induction xs arbitrary: w)
  case Nil
  show ?case by (cases "mapR f ys w") (auto simp: bindR_def split: sum.splits)
next
  case (Cons x xs)
  show ?case
    by (simp add: Cons.IH bindR_def split: option.splits sum.splits)
qed

lemma foldR_append:
  "foldR f acc (xs @ ys) w = bindR (foldR f acc xs w) (\<lambda>w1 acc1. foldR f acc1 ys w1)"
proof (induction xs arbitrary: acc w)
  case Nil
  show ?case by simp
next
  case (Cons x xs)
  show ?case
    by (simp add: Cons.IH bindR_def split: option.splits sum.splits)
qed

lemma returns_Some [simp, intro]: "returns (Some x)"
  and returns_None [simp]: "\<not> returns None"
  by (simp_all add: returns_def)

lemma returns_bindR [intro]:
  "returns r \<Longrightarrow> (\<And>w a. returns (f w a)) \<Longrightarrow> returns (bindR r f)"
  by (auto simp: returns_def bindR_def split: option.splits sum.splits)

lemma mapR_returns:
  "(\<And>x w. x \<in> set xs \<Longrightarrow> returns (f x w)) \<Longrightarrow> returns (mapR f xs w)"
  by (induction xs arbitrary: w) (auto intro!: returns_bindR)

lemma foldR_returns:
  "(\<And>acc x w. x \<in> set xs \<Longrightarrow> returns (f acc x w)) \<Longrightarrow> returns (foldR f acc xs w)"
  by (induction xs arbitrary: acc w) (auto intro!: returns_bindR)

text \<open>Congruence: the loops only look at the body on the elements of the list.\<close>

lemma mapR_cong:
  "(\<And>x w. x \<in> set xs \<Longrightarrow> f x w = g x w) \<Longrightarrow> mapR f xs w = mapR g xs w"
  by (induction xs arbitrary: w) (simp_all add: bindR_def)

lemma foldR_cong:
  "(\<And>acc x w. x \<in> set xs \<Longrightarrow> f acc x w = g acc x w) \<Longrightarrow> foldR f acc xs w = foldR g acc xs w"
  by (induction xs arbitrary: acc w) (simp_all add: bindR_def)

text \<open>An invariant of the accumulator that every successful body step keeps.\<close>

lemma foldR_invariant:
  assumes "foldR f acc xs w = Some (w', Inr acc')"
    and "P acc"
    and "\<And>acc x w w1 acc1. P acc \<Longrightarrow> f acc x w = Some (w1, Inr acc1) \<Longrightarrow> P acc1"
  shows "P acc'"
  using assms(1,2)
proof (induction xs arbitrary: acc w)
  case Nil
  then show ?case by simp
next
  case (Cons x xs)
  from Cons.prems(1) obtain w1 acc1 where s: "f acc x w = Some (w1, Inr acc1)"
      and r: "foldR f acc1 xs w1 = Some (w', Inr acc')"
    by (auto elim: bindR_Some_cases)
  from assms(3) [OF Cons.prems(2) s] have "P acc1" .
  with r show ?case by (rule Cons.IH)
qed

lemma fext_refl [simp, intro]: "fext r r"
  and fext_None [simp, intro]: "fext None r"
  and fext_Some [simp]: "fext (Some x) r' \<longleftrightarrow> r' = Some x"
  by (auto simp: fext_def)

lemma bindR_fext:
  "fext r r' \<Longrightarrow> (\<And>w a. fext (f w a) (g w a)) \<Longrightarrow> fext (bindR r f) (bindR r' g)"
  by (auto simp: fext_def bindR_def split: option.splits sum.splits)

lemma mapR_fext:
  "(\<And>x w. x \<in> set xs \<Longrightarrow> fext (f x w) (g x w)) \<Longrightarrow> fext (mapR f xs w) (mapR g xs w)"
proof (induction xs arbitrary: w)
  case Nil
  then show ?case by simp
next
  case (Cons x xs)
  have "fext (f x w) (g x w)" using Cons.prems by simp
  moreover have "\<And>w1. fext (mapR f xs w1) (mapR g xs w1)" using Cons by simp
  ultimately show ?case by (auto intro!: bindR_fext)
qed

lemma foldR_fext:
  "(\<And>acc x w. x \<in> set xs \<Longrightarrow> fext (f acc x w) (g acc x w)) \<Longrightarrow>
     fext (foldR f acc xs w) (foldR g acc xs w)"
proof (induction xs arbitrary: acc w)
  case Nil
  then show ?case by simp
next
  case (Cons x xs)
  then show ?case by (auto intro!: bindR_fext)
qed

lemma fext_trans: "fext r1 r2 \<Longrightarrow> fext r2 r3 \<Longrightarrow> fext r1 r3"
  by (auto simp: fext_def)

text \<open>Bytes as naturals, and a number as two base-\<open>b\<close> digits and the rest.\<close>

lemma unat_byte [simp]: "n < 256 \<Longrightarrow> unat (of_nat n :: byte) = n"
  by (simp add: unat_of_nat)

lemma byte_eq_0: "(b :: byte) = 0 \<longleftrightarrow> unat b = 0"
  by (simp add: unat_eq_zero)

lemma byte_of_nat_eq_0: "n < 256 \<Longrightarrow> (of_nat n :: byte) = 0 \<longleftrightarrow> n = 0"
  by (simp add: byte_eq_0)

lemma nat_digits2: "(c::nat) = b * b * (c div b div b) + b * (c div b mod b) + c mod b"
proof -
  have "b * b * (c div b div b) + b * (c div b mod b) = b * (b * (c div b div b) + c div b mod b)"
    by (simp only: distrib_left mult.assoc)
  also have "\<dots> = b * (c div b)" by (simp only: mult_div_mod_eq)
  finally show ?thesis by simp
qed

end
