(* ===== verification/PyObject.thy ===== *)
theory PyObject
  imports Atom_Prelude
begin

text \<open>
  The part of the CPython object model that \<open>validatebehavior.cpp\<close> and
  \<open>memberchange.cpp\<close> observe: the objects a validator receives and builds, their
  types and method-resolution orders, the exceptions it raises, and the C-API
  predicates and operations it calls (\<open>PyLong_Check\<close>, \<open>PyObject_IsInstance\<close>,
  \<open>PyObject_IsSubclass\<close>, \<open>PyCallable_Check\<close>, \<open>PySequence_Check\<close>,
  \<open>PySequence_Contains\<close>, \<open>PyObject_RichCompareBool\<close>, \<open>PyDict_SetItem\<close>).
  These are library code the sources only call; they are modelled from the
  CPython documentation.  A dict is an association list in insertion order, as
  CPython keeps it.
\<close>

section \<open>Objects and types\<close>

datatype tyname =
    TNoneType | TBool | TInt | TFloat | TBytes | TStr | TTuple | TList
  | TAtomList | TAtomCList | TDict | TType | TFunction | TMember | TObject
  | TUser string

text \<open>
  A C double: a finite value (the model does not round the values users create),
  the two infinities, or NaN.
\<close>

datatype pyfloat = Fin rat | PosInf | NegInf | NaN

text \<open>
  \<open>PList\<close> carries the kind of list: a plain list, an \<open>AtomList\<close> made by
  \<open>AtomList_New(size, atom, validator)\<close> or an \<open>AtomCList\<close> made by
  \<open>AtomCList_New(size, atom, validator, member)\<close>.  \<open>PObj t i\<close> is an instance of a
  class with identity \<open>i\<close>; \<open>PMember t i\<close> a Member object of class \<open>t\<close> in the
  member store.
\<close>

datatype pyval =
    PNone | PBool bool | PInt int | PFloat pyfloat | PBytes "byte list" | PStr ustr
  | PTuple "pyval list" | PList lkind "pyval list" | PDict "(pyval \<times> pyval) list"
  | PType tyname | PObj tyname nat | PMember tyname mid
and lkind = LPlain | LAtom pyval "mid option" | LAtomC pyval "mid option" mid

datatype exc_kind =
    TypeError | ValueError | OverflowError | UnicodeEncodeError | UnicodeDecodeError
  | AttributeError | SystemError | UserError string

text \<open>
  A raised exception, or \<open>Undefined\<close>: the C code has done something whose effect
  the language does not define (an unchecked cast of the wrong object, a read past
  the end of an array).  No well-configured member may reach it.
\<close>

datatype exc = PyExc exc_kind ustr | Undefined string

type_synonym 'a pyres = "exc + 'a"

text \<open>
  The class table.  An instance of a user class \<open>s\<close> used as the second argument of
  \<open>isinstance\<close> or \<open>issubclass\<close> (a \<open>types.UnionType\<close>, an object whose class defines
  \<open>__instancecheck__\<close> or \<open>__subclasscheck__\<close>, or one with a \<open>__bases__\<close> tuple)
  answers through \<open>ct_instancecheck\<close> and \<open>ct_subclasscheck\<close>: a bool, or the Python
  exception it raises.
\<close>

record classtab =
  ct_mro :: "string \<Rightarrow> tyname list"      \<comment> \<open>\<open>tp_mro\<close> of a user class\<close>
  ct_callable :: "string \<Rightarrow> bool"       \<comment> \<open>the class defines \<open>__call__\<close>\<close>
  ct_sequence :: "string \<Rightarrow> bool"       \<comment> \<open>the class defines \<open>__getitem__\<close>\<close>
  ct_instancecheck :: "string \<Rightarrow> pyval \<Rightarrow> (exc_kind \<times> ustr) + bool"
  ct_subclasscheck :: "string \<Rightarrow> pyval \<Rightarrow> (exc_kind \<times> ustr) + bool"

fun tp_name :: "tyname \<Rightarrow> ustr" where
  "tp_name TNoneType = ustr ''NoneType''"
| "tp_name TBool = ustr ''bool''"
| "tp_name TInt = ustr ''int''"
| "tp_name TFloat = ustr ''float''"
| "tp_name TBytes = ustr ''bytes''"
| "tp_name TStr = ustr ''str''"
| "tp_name TTuple = ustr ''tuple''"
| "tp_name TList = ustr ''list''"
| "tp_name TAtomList = ustr ''atomlist''"
| "tp_name TAtomCList = ustr ''atomclist''"
| "tp_name TDict = ustr ''dict''"
| "tp_name TType = ustr ''type''"
| "tp_name TFunction = ustr ''function''"
| "tp_name TMember = ustr ''Member''"
| "tp_name TObject = ustr ''object''"
| "tp_name (TUser s) = ustr s"

fun type_of :: "pyval \<Rightarrow> tyname" where
  "type_of PNone = TNoneType"
| "type_of (PBool _) = TBool"
| "type_of (PInt _) = TInt"
| "type_of (PFloat _) = TFloat"
| "type_of (PBytes _) = TBytes"
| "type_of (PStr _) = TStr"
| "type_of (PTuple _) = TTuple"
| "type_of (PList LPlain _) = TList"
| "type_of (PList (LAtom _ _) _) = TAtomList"
| "type_of (PList (LAtomC _ _ _) _) = TAtomCList"
| "type_of (PDict _) = TDict"
| "type_of (PType _) = TType"
| "type_of (PObj t _) = t"
| "type_of (PMember t _) = t"

text \<open>The method-resolution order of a type, \<open>tp_mro\<close>: the type first.\<close>

fun mro :: "classtab \<Rightarrow> tyname \<Rightarrow> tyname list" where
  "mro ct TObject = [TObject]"
| "mro ct TBool = [TBool, TInt, TObject]"
| "mro ct TAtomList = [TAtomList, TList, TObject]"
| "mro ct TAtomCList = [TAtomCList, TAtomList, TList, TObject]"
| "mro ct (TUser s) = ct_mro ct s"
| "mro ct t = [t, TObject]"

text \<open>\<open>PyType_IsSubtype(a, b)\<close>: \<open>b\<close> is on the MRO of \<open>a\<close>.\<close>

definition is_subtype :: "classtab \<Rightarrow> tyname \<Rightarrow> tyname \<Rightarrow> bool" where
  "is_subtype ct a b \<longleftrightarrow> b \<in> set (mro ct a)"

section \<open>Type predicates of the C API\<close>

fun PyLong_Check :: "pyval \<Rightarrow> bool" where
  "PyLong_Check (PInt _) = True"
| "PyLong_Check (PBool _) = True"
| "PyLong_Check _ = False"

fun PyFloat_Check :: "pyval \<Rightarrow> bool" where
  "PyFloat_Check (PFloat _) = True"
| "PyFloat_Check _ = False"

fun PyBytes_Check :: "pyval \<Rightarrow> bool" where
  "PyBytes_Check (PBytes _) = True"
| "PyBytes_Check _ = False"

fun PyUnicode_Check :: "pyval \<Rightarrow> bool" where
  "PyUnicode_Check (PStr _) = True"
| "PyUnicode_Check _ = False"

fun PyTuple_Check :: "pyval \<Rightarrow> bool" where
  "PyTuple_Check (PTuple _) = True"
| "PyTuple_Check _ = False"

fun PyList_Check :: "pyval \<Rightarrow> bool" where
  "PyList_Check (PList _ _) = True"
| "PyList_Check _ = False"

fun PyDict_Check :: "pyval \<Rightarrow> bool" where
  "PyDict_Check (PDict _) = True"
| "PyDict_Check _ = False"

fun PyType_Check :: "pyval \<Rightarrow> bool" where
  "PyType_Check (PType _) = True"
| "PyType_Check _ = False"

text \<open>\<open>Member::TypeCheck\<close>: an instance of Member or of a subclass.\<close>

fun Member_TypeCheck :: "pyval \<Rightarrow> bool" where
  "Member_TypeCheck (PMember _ _) = True"
| "Member_TypeCheck _ = False"

fun PyCallable_Check :: "classtab \<Rightarrow> pyval \<Rightarrow> bool" where
  "PyCallable_Check ct (PType _) = True"
| "PyCallable_Check ct (PObj TFunction _) = True"
| "PyCallable_Check ct (PObj (TUser s) _) = ct_callable ct s"
| "PyCallable_Check ct _ = False"

fun PySequence_Check :: "classtab \<Rightarrow> pyval \<Rightarrow> bool" where
  "PySequence_Check ct (PTuple _) = True"
| "PySequence_Check ct (PList _ _) = True"
| "PySequence_Check ct (PStr _) = True"
| "PySequence_Check ct (PBytes _) = True"
| "PySequence_Check ct (PObj (TUser s) _) = ct_sequence ct s"
| "PySequence_Check ct _ = False"

section \<open>isinstance and issubclass\<close>

text \<open>
  \<open>PyObject_IsInstance(v, cls)\<close> and \<open>PyObject_IsSubclass(v, cls)\<close>, after
  \<open>object_recursive_isinstance\<close> and \<open>object_issubclass\<close> of CPython: a type is
  tested through the MRO, the items of a tuple are tried in order until one gives
  true or raises, an instance of a user class answers through the class table, and
  any other object (it has neither \<open>__instancecheck__\<close> nor \<open>__bases__\<close>) raises
  \<open>TypeError\<close>.  \<open>issubclass\<close> tests its first argument only where it reaches a
  type or a non-class: \<open>issubclass(None, ())\<close> is false.  The C result \<open>-1\<close> is the
  \<open>Inl\<close> of the model.
\<close>

definition isinstance_arg_error :: exc where
  "isinstance_arg_error =
     PyExc TypeError (ustr ''isinstance() arg 2 must be a type, a tuple of types, or a union'')"

definition issubclass_arg1_error :: exc where
  "issubclass_arg1_error = PyExc TypeError (ustr ''issubclass() arg 1 must be a class'')"

definition issubclass_arg2_error :: exc where
  "issubclass_arg2_error =
     PyExc TypeError (ustr ''issubclass() arg 2 must be a class, a tuple of classes, or a union'')"

definition user_check :: "(exc_kind \<times> ustr) + bool \<Rightarrow> bool pyres" where
  "user_check r = (case r of Inl (k, msg) \<Rightarrow> Inl (PyExc k msg) | Inr b \<Rightarrow> Inr b)"

fun isinstance_in :: "classtab \<Rightarrow> pyval \<Rightarrow> pyval \<Rightarrow> bool pyres"
and isinstance_any :: "classtab \<Rightarrow> pyval \<Rightarrow> pyval list \<Rightarrow> bool pyres" where
  "isinstance_in ct v (PType c) = Inr (is_subtype ct (type_of v) c)"
| "isinstance_in ct v (PTuple cs) = isinstance_any ct v cs"
| "isinstance_in ct v (PObj (TUser s) k) = user_check (ct_instancecheck ct s v)"
| "isinstance_in ct v _ = Inl isinstance_arg_error"
| "isinstance_any ct v [] = Inr False"
| "isinstance_any ct v (c # cs) =
     (case isinstance_in ct v c of
        Inl e \<Rightarrow> Inl e
      | Inr True \<Rightarrow> Inr True
      | Inr False \<Rightarrow> isinstance_any ct v cs)"

fun issubclass_in :: "classtab \<Rightarrow> pyval \<Rightarrow> pyval \<Rightarrow> bool pyres"
and issubclass_any :: "classtab \<Rightarrow> pyval \<Rightarrow> pyval list \<Rightarrow> bool pyres" where
  "issubclass_in ct v (PType c) =
     (case v of PType t \<Rightarrow> Inr (is_subtype ct t c) | _ \<Rightarrow> Inl issubclass_arg1_error)"
| "issubclass_in ct v (PTuple cs) = issubclass_any ct v cs"
| "issubclass_in ct v (PObj (TUser s) k) = user_check (ct_subclasscheck ct s v)"
| "issubclass_in ct v _ =
     (case v of PType _ \<Rightarrow> Inl issubclass_arg2_error | _ \<Rightarrow> Inl issubclass_arg1_error)"
| "issubclass_any ct v [] = Inr False"
| "issubclass_any ct v (c # cs) =
     (case issubclass_in ct v c of
        Inl e \<Rightarrow> Inl e
      | Inr True \<Rightarrow> Inr True
      | Inr False \<Rightarrow> issubclass_any ct v cs)"

definition PyObject_IsInstance :: "classtab \<Rightarrow> pyval \<Rightarrow> pyval \<Rightarrow> bool pyres" where
  "PyObject_IsInstance ct v cls = isinstance_in ct v cls"

definition PyObject_IsSubclass :: "classtab \<Rightarrow> pyval \<Rightarrow> pyval \<Rightarrow> bool pyres" where
  "PyObject_IsSubclass ct v cls = issubclass_in ct v cls"

text \<open>\<open>PyObject_TypeCheck(v, t)\<close>: exact type or a subtype.\<close>

definition PyObject_TypeCheck :: "classtab \<Rightarrow> pyval \<Rightarrow> tyname \<Rightarrow> bool" where
  "PyObject_TypeCheck ct v t \<longleftrightarrow> type_of v = t \<or> is_subtype ct (type_of v) t"

section \<open>Numbers, equality and ordering\<close>

text \<open>The numeric value of a bool, an int or a float, exact as CPython compares them.\<close>

fun numval :: "pyval \<Rightarrow> pyfloat option" where
  "numval (PBool b) = Some (Fin (if b then 1 else 0))"
| "numval (PInt n) = Some (Fin (of_int n))"
| "numval (PFloat f) = Some f"
| "numval _ = None"

fun float_eq :: "pyfloat \<Rightarrow> pyfloat \<Rightarrow> bool" where
  "float_eq NaN _ = False"
| "float_eq _ NaN = False"
| "float_eq x y = (x = y)"

text \<open>IEEE \<open><\<close>: every comparison with NaN is false.\<close>

fun float_lt :: "pyfloat \<Rightarrow> pyfloat \<Rightarrow> bool" where
  "float_lt NaN _ = False"
| "float_lt _ NaN = False"
| "float_lt (Fin a) (Fin b) = (a < b)"
| "float_lt NegInf y = (y \<noteq> NegInf)"
| "float_lt x PosInf = (x \<noteq> PosInf)"
| "float_lt _ _ = False"

text \<open>
  Python \<open>==\<close> on the objects of the model: numbers by value across bool, int and
  float; containers element-wise (a dict by its items, in any order); classes,
  instances and members by identity.
\<close>

fun py_eq :: "pyval \<Rightarrow> pyval \<Rightarrow> bool" where
  "py_eq a b =
    (case numval a of
       Some x \<Rightarrow> (case numval b of Some y \<Rightarrow> float_eq x y | None \<Rightarrow> False)
     | None \<Rightarrow>
    (case a of
       PNone \<Rightarrow> b = PNone
     | PStr s \<Rightarrow> b = PStr s
     | PBytes s \<Rightarrow> b = PBytes s
     | PTuple xs \<Rightarrow> (case b of PTuple ys \<Rightarrow> list_all2 py_eq xs ys | _ \<Rightarrow> False)
     | PList _ xs \<Rightarrow> (case b of PList _ ys \<Rightarrow> list_all2 py_eq xs ys | _ \<Rightarrow> False)
     | PDict d \<Rightarrow> (case b of PDict e \<Rightarrow> length d = length e \<and>
          list_all (\<lambda>(k, v). list_ex (\<lambda>(k', v'). py_eq k k' \<and> py_eq v v') e) d
        | _ \<Rightarrow> False)
     | PType t \<Rightarrow> b = PType t
     | PObj t i \<Rightarrow> b = PObj t i
     | PMember t i \<Rightarrow> b = PMember t i
     | _ \<Rightarrow> False))"

declare py_eq.simps [simp del]

definition squote :: ustr where
  "squote = [39]"

definition compare_error :: "string \<Rightarrow> pyval \<Rightarrow> pyval \<Rightarrow> exc" where
  "compare_error op a b = PyExc TypeError
     (squote @ ustr op @ squote @ ustr '' not supported between instances of '' @
      squote @ tp_name (type_of a) @ squote @ ustr '' and '' @
      squote @ tp_name (type_of b) @ squote)"

text \<open>
  \<open>PyObject_RichCompareBool(a, b, Py_GT)\<close> and \<open>Py_LT\<close> on numbers; any other pair
  raises.  The C result is \<open>1\<close>, \<open>0\<close> or \<open>-1\<close>: \<open>Inr True\<close>, \<open>Inr False\<close>, \<open>Inl\<close>.
\<close>

definition rich_gt :: "pyval \<Rightarrow> pyval \<Rightarrow> bool pyres" where
  "rich_gt a b = (case (numval a, numval b) of
                    (Some x, Some y) \<Rightarrow> Inr (float_lt y x)
                  | _ \<Rightarrow> Inl (compare_error ''>'' a b))"

definition rich_lt :: "pyval \<Rightarrow> pyval \<Rightarrow> bool pyres" where
  "rich_lt a b = (case (numval a, numval b) of
                    (Some x, Some y) \<Rightarrow> Inr (float_lt x y)
                  | _ \<Rightarrow> Inl (compare_error ''<'' a b))"

section \<open>Containment\<close>

definition is_substr :: "'a list \<Rightarrow> 'a list \<Rightarrow> bool" where
  "is_substr t s = list_ex (\<lambda>i. take (length t) (drop i s) = t) [0..<Suc (length s)]"

fun index_of :: "pyval \<Rightarrow> int option" where
  "index_of (PInt n) = Some n"
| "index_of (PBool b) = Some (if b then 1 else 0)"
| "index_of _ = None"

text \<open>The first unhashable object inside a key, if any (a list, a dict, or one inside a tuple).\<close>

fun unhashable :: "pyval \<Rightarrow> tyname option" where
  "unhashable v =
    (case v of
       PList k xs \<Rightarrow> Some (type_of v)
     | PDict _ \<Rightarrow> Some TDict
     | PTuple xs \<Rightarrow> (case filter (\<lambda>t. t \<noteq> None) (map unhashable xs) of [] \<Rightarrow> None | t # _ \<Rightarrow> t)
     | _ \<Rightarrow> None)"

declare unhashable.simps [simp del]

definition unhashable_error :: "tyname \<Rightarrow> exc" where
  "unhashable_error t = PyExc TypeError (ustr ''unhashable type: '' @ squote @ tp_name t @ squote)"

text \<open>
  \<open>PySequence_Contains(seq, v)\<close> for the built-in containers: element equality for
  tuples and lists, substring search for str and bytes, key lookup for dicts.
  Containment in an instance of a user class runs user code and is left to the
  interpreter hook of the validators.
\<close>

definition seq_contains :: "pyval \<Rightarrow> pyval \<Rightarrow> bool pyres" where
  "seq_contains seq v =
    (case seq of
       PTuple xs \<Rightarrow> Inr (list_ex (\<lambda>x. py_eq x v) xs)
     | PList _ xs \<Rightarrow> Inr (list_ex (\<lambda>x. py_eq x v) xs)
     | PStr s \<Rightarrow>
         (case v of PStr t \<Rightarrow> Inr (is_substr t s)
          | _ \<Rightarrow> Inl (PyExc TypeError (squote @ ustr ''in <string>'' @ squote @
                  ustr '' requires string as left operand, not '' @ tp_name (type_of v))))
     | PBytes bs \<Rightarrow>
         (case v of PBytes t \<Rightarrow> Inr (is_substr t bs)
          | _ \<Rightarrow> (case index_of v of
                   Some n \<Rightarrow> if 0 \<le> n \<and> n < 256 then Inr (word_of_int n \<in> set bs)
                             else Inl (PyExc ValueError (ustr ''byte must be in range(0, 256)''))
                 | None \<Rightarrow> Inl (PyExc TypeError (ustr ''a bytes-like object is required, not '' @
                             squote @ tp_name (type_of v) @ squote))))
     | PDict d \<Rightarrow>
         (case unhashable v of Some t \<Rightarrow> Inl (unhashable_error t)
          | None \<Rightarrow> Inr (list_ex (\<lambda>(k, _). py_eq k v) d))
     | _ \<Rightarrow> Inl (PyExc TypeError (ustr ''argument of type '' @ squote @ tp_name (type_of seq) @
              squote @ ustr '' is not iterable'')))"

section \<open>Dictionaries\<close>

text \<open>
  \<open>PyDict_SetItem(d, k, v)\<close>: the key is hashed first (an unhashable key raises);
  an entry whose key compares equal (\<open>stored == k\<close>) keeps its key and position and
  takes the new value; otherwise the pair is appended.
\<close>

fun dict_assign :: "pyval \<Rightarrow> pyval \<Rightarrow> (pyval \<times> pyval) list \<Rightarrow> (pyval \<times> pyval) list" where
  "dict_assign k v [] = [(k, v)]"
| "dict_assign k v ((k', v') # d) =
     (if py_eq k' k then (k', v) # d else (k', v') # dict_assign k v d)"

definition PyDict_SetItem :: "(pyval \<times> pyval) list \<Rightarrow> pyval \<Rightarrow> pyval \<Rightarrow> (pyval \<times> pyval) list pyres" where
  "PyDict_SetItem d k v =
     (case unhashable k of Some t \<Rightarrow> Inl (unhashable_error t) | None \<Rightarrow> Inr (dict_assign k v d))"

text \<open>
  The invariant of a dict: every key is hashable and no key compares equal to a key
  stored after it.
\<close>

fun dict_wf :: "(pyval \<times> pyval) list \<Rightarrow> bool" where
  "dict_wf [] = True"
| "dict_wf ((k, v) # d) =
     (unhashable k = None \<and> list_all (\<lambda>(k', _). \<not> py_eq k k') d \<and> dict_wf d)"

section \<open>Lemmas\<close>

text \<open>\<open>PyLong_AsLong\<close> succeeds exactly on the objects \<open>PyLong_Check\<close> accepts, and agrees
  with the numeric value comparisons read.\<close>

lemma index_of_numval: "index_of v = Some x \<Longrightarrow> numval v = Some (Fin (of_int x))"
  by (cases v) (auto split: if_splits)

lemma index_of_Some_iff: "(\<exists>x. index_of v = Some x) \<longleftrightarrow> PyLong_Check v"
  by (cases v) simp_all

lemma index_of_not_None: "index_of l = Some a \<Longrightarrow> l \<noteq> PNone"
  by (cases l) simp_all

lemma float_lt_NaN [simp]: "\<not> float_lt NaN x" "\<not> float_lt x NaN"
  by (cases x; simp)+

text \<open>A str compares equal only to the same str.\<close>

lemma py_eq_PStr [simp]: "py_eq (PStr a) b \<longleftrightarrow> b = PStr a"
  by (simp add: py_eq.simps)

lemma py_eq_PStr_right [simp]: "py_eq b (PStr a) \<longleftrightarrow> b = PStr a"
  by (cases b) (auto simp: py_eq.simps)

end
