(* ===== verification/Member.thy ===== *)
theory Member
  imports PyObject
begin

text \<open>
  The Member side of the validation engine: the fields of a \<open>Member\<close> that
  validation reads, the interpreter environment the validators run in (the class
  table, the store of Member objects, and the hooks through which user code runs),
  the mode catalog \<open>Validate::Mode\<close>, the handler table \<open>handlers[]\<close>
  (\<open>validatebehavior.cpp\<close> lines 657--689), the table lookup of \<open>Member::validate\<close>
  (lines 692--698) and the declaration-time check \<open>Member::check_context\<close>
  (lines 14--164).
\<close>

section \<open>Members and the interpreter environment\<close>

text \<open>
  A Member object: its name, its class (\<open>Member\<close> or a subclass), the validate mode as the byte \<open>get_validate_mode()\<close>
  returns, \<open>validate_context\<close>, and the post-validate mode that \<open>full_validate\<close>
  consults.
\<close>

record member =
  m_name :: ustr
  m_class :: tyname
  validate_mode :: byte
  validate_context :: pyval
  post_validate_mode :: byte

text \<open>
  The environment: \<open>'w\<close> is the state of the interpreter that user code may change.
  \<open>py_call\<close> is \<open>PyObject_Call\<close>, \<open>py_getattr\<close> is \<open>PyObject_GetAttr\<close> (both may run
  arbitrary Python, and so may re-enter the validators), \<open>py_contains\<close> is
  \<open>__contains__\<close> of a user sequence and \<open>post_validate\<close> is
  \<open>Member::post_validate\<close>.
\<close>

record 'w pyenv =
  classes :: classtab
  members :: "(mid \<times> member) list"
  py_call :: "'w \<Rightarrow> pyval \<Rightarrow> pyval list \<Rightarrow> ('w, exc, pyval) step"
  py_getattr :: "'w \<Rightarrow> pyval \<Rightarrow> ustr \<Rightarrow> ('w, exc, pyval) step"
  py_contains :: "'w \<Rightarrow> pyval \<Rightarrow> pyval \<Rightarrow> ('w, exc, bool) step"
  post_validate :: "'w \<Rightarrow> mid \<Rightarrow> pyval \<Rightarrow> pyval \<Rightarrow> pyval \<Rightarrow> ('w, exc, pyval) step"

definition member_of :: "'w pyenv \<Rightarrow> mid \<Rightarrow> member option" where
  "member_of env i = map_of (members env) i"

text \<open>The Member object itself, as user code sees it.\<close>

definition member_obj :: "member \<Rightarrow> mid \<Rightarrow> pyval" where
  "member_obj m i = PMember (m_class m) i"

section \<open>The mode catalog and the handler table\<close>

datatype vmode =
    VNoOp | VBool | VInt | VIntPromote | VLong | VLongPromote | VFloat | VFloatPromote
  | VBytes | VBytesPromote | VStr | VStrPromote | VUnicode | VUnicodePromote
  | VTuple | VList | VContainerList | VDict | VInstance | VTyped | VSubclass | VEnum
  | VCallable | VFloatRange | VRange | VCoerced | VDelegate
  | VObjectMethod_OldNew | VObjectMethod_NameOldNew | VMemberMethod_ObjectOldNew

text \<open>\<open>Validate::Mode\<close> in declaration order: the value of a mode is its index.\<close>

definition modes :: "vmode list" where
  "modes = [VNoOp, VBool, VInt, VIntPromote, VLong, VLongPromote, VFloat, VFloatPromote,
            VBytes, VBytesPromote, VStr, VStrPromote, VUnicode, VUnicodePromote,
            VTuple, VList, VContainerList, VDict, VInstance, VTyped, VSubclass, VEnum,
            VCallable, VFloatRange, VRange, VCoerced, VDelegate,
            VObjectMethod_OldNew, VObjectMethod_NameOldNew, VMemberMethod_ObjectOldNew]"

definition mode_of :: "byte \<Rightarrow> vmode option" where
  "mode_of b = (if unat b < length modes then Some (modes ! unat b) else None)"

definition mode_byte :: "vmode \<Rightarrow> byte" where
  "mode_byte v = of_nat (list_index modes v)"

text \<open>
  The handlers of \<open>validatebehavior.cpp\<close>, one constructor per C function, and the
  table \<open>handlers[]\<close> that \<open>Member::validate\<close> indexes by the mode.
\<close>

datatype handler =
    HNoOp | HBool | HLong | HLongPromote | HFloat | HFloatPromote | HBytes | HBytesPromote
  | HStr | HStrPromote | HTuple | HList | HContainerList | HDict | HInstance | HTyped
  | HSubclass | HEnum | HCallable | HFloatRange | HRange | HCoerced | HDelegate
  | HObjectMethodOldNew | HObjectMethodNameOldNew | HMemberMethodObjectOldNew

definition handlers :: "handler list" where
  "handlers = [HNoOp, HBool, HLong, HLongPromote, HLong, HLongPromote, HFloat, HFloatPromote,
               HBytes, HBytesPromote, HStr, HStrPromote, HStr, HStrPromote,
               HTuple, HList, HContainerList, HDict, HInstance, HTyped, HSubclass, HEnum,
               HCallable, HFloatRange, HRange, HCoerced, HDelegate,
               HObjectMethodOldNew, HObjectMethodNameOldNew, HMemberMethodObjectOldNew]"

text \<open>
  \<open>sizeof( handlers )\<close> is the size of the array in bytes: thirty function pointers
  of eight bytes each on an LP64 target.
\<close>

definition sizeof_handlers :: nat where
  "sizeof_handlers = length handlers * 8"

text \<open>
  \<open>Member::validate\<close> picks its handler: the guard sends a mode of at least
  \<open>sizeof( handlers )\<close> to \<open>no_op_handler\<close>; any other mode indexes the table, and an
  index past its thirty entries reads past the array (\<open>None\<close>).
\<close>

definition select_handler :: "byte \<Rightarrow> handler option" where
  "select_handler mode =
     (if sizeof_handlers \<le> unat mode then Some HNoOp
      else if unat mode < length handlers then Some (handlers ! unat mode)
      else None)"

section \<open>The declaration-time check of the context\<close>

text \<open>\<open>cppy::type_error( ob, expected )\<close>: names the expected shape and the type of \<open>ob\<close>.\<close>

definition ctx_type_error :: "pyval \<Rightarrow> string \<Rightarrow> exc" where
  "ctx_type_error ctx expected =
     PyExc TypeError (ustr ''Expected object of type `'' @ ustr expected @
                      ustr ''`. Got object of type `'' @ tp_name (type_of ctx) @
                      ustr ''` instead.'')"

definition member_or_none :: "pyval \<Rightarrow> bool" where
  "member_or_none v \<longleftrightarrow> v = PNone \<or> Member_TypeCheck v"

text \<open>The items of a tuple of two, as \<open>PyTuple_Check\<close> and \<open>PyTuple_GET_SIZE( ctx ) != 2\<close> test it.\<close>

fun tuple2 :: "pyval \<Rightarrow> (pyval \<times> pyval) option" where
  "tuple2 (PTuple [a, b]) = Some (a, b)"
| "tuple2 _ = None"

definition check_pair :: "pyval \<Rightarrow> string \<Rightarrow> (pyval \<Rightarrow> pyval \<Rightarrow> bool) \<Rightarrow> unit pyres" where
  "check_pair ctx expected ok =
     (case tuple2 ctx of
        None \<Rightarrow> Inl (ctx_type_error ctx expected)
      | Some (a, b) \<Rightarrow> if ok a b then Inr () else Inl (ctx_type_error ctx expected))"

definition check_if :: "bool \<Rightarrow> pyval \<Rightarrow> string \<Rightarrow> unit pyres" where
  "check_if ok ctx expected = (if ok then Inr () else Inl (ctx_type_error ctx expected))"

text \<open>
  \<open>Member::check_context\<close>: the \<open>switch\<close> on the mode.  Instance, Subclass and every
  mode without a \<open>case\<close> (and every byte outside the catalog) fall to \<open>default\<close> and
  accept any context.
\<close>

definition check_context :: "classtab \<Rightarrow> byte \<Rightarrow> pyval \<Rightarrow> unit pyres" where
  "check_context ct mode ctx =
     (case mode_of mode of
        Some VTuple \<Rightarrow> check_if (member_or_none ctx) ctx ''Member or None''
      | Some VList \<Rightarrow> check_if (member_or_none ctx) ctx ''Member or None''
      | Some VContainerList \<Rightarrow> check_if (member_or_none ctx) ctx ''Member or None''
      | Some VDict \<Rightarrow>
          check_pair ctx ''2-tuple of Member or None'' (\<lambda>k v. member_or_none k \<and> member_or_none v)
      | Some VTyped \<Rightarrow> check_if (PyType_Check ctx) ctx ''type''
      | Some VEnum \<Rightarrow> check_if (PySequence_Check ct ctx) ctx ''sequence''
      | Some VFloatRange \<Rightarrow>
          check_pair ctx ''2-tuple of float or None''
            (\<lambda>s e. (s = PNone \<or> PyFloat_Check s) \<and> (e = PNone \<or> PyFloat_Check e))
      | Some VRange \<Rightarrow>
          check_pair ctx ''2-tuple of int or None''
            (\<lambda>s e. (s = PNone \<or> PyLong_Check s) \<and> (e = PNone \<or> PyLong_Check e))
      | Some VCoerced \<Rightarrow>
          check_pair ctx ''2-tuple of (type, callable)'' (\<lambda>t c. PyCallable_Check ct c)
      | Some VDelegate \<Rightarrow> check_if (Member_TypeCheck ctx) ctx ''Member''
      | Some VObjectMethod_OldNew \<Rightarrow> check_if (PyUnicode_Check ctx) ctx ''str''
      | Some VObjectMethod_NameOldNew \<Rightarrow> check_if (PyUnicode_Check ctx) ctx ''str''
      | Some VMemberMethod_ObjectOldNew \<Rightarrow> check_if (PyUnicode_Check ctx) ctx ''str''
      | _ \<Rightarrow> Inr ())"

text \<open>
  What each mode of the catalog names, as the mode names and the spec describe them:
  \<open>Int\<close> and \<open>Long\<close> are both Python ints, \<open>Str\<close> and \<open>Unicode\<close> both Python strs, and
  every other mode has its own handler.
\<close>

fun mode_handler :: "vmode \<Rightarrow> handler" where
  "mode_handler VNoOp = HNoOp"
| "mode_handler VBool = HBool"
| "mode_handler VInt = HLong"
| "mode_handler VIntPromote = HLongPromote"
| "mode_handler VLong = HLong"
| "mode_handler VLongPromote = HLongPromote"
| "mode_handler VFloat = HFloat"
| "mode_handler VFloatPromote = HFloatPromote"
| "mode_handler VBytes = HBytes"
| "mode_handler VBytesPromote = HBytesPromote"
| "mode_handler VStr = HStr"
| "mode_handler VStrPromote = HStrPromote"
| "mode_handler VUnicode = HStr"
| "mode_handler VUnicodePromote = HStrPromote"
| "mode_handler VTuple = HTuple"
| "mode_handler VList = HList"
| "mode_handler VContainerList = HContainerList"
| "mode_handler VDict = HDict"
| "mode_handler VInstance = HInstance"
| "mode_handler VTyped = HTyped"
| "mode_handler VSubclass = HSubclass"
| "mode_handler VEnum = HEnum"
| "mode_handler VCallable = HCallable"
| "mode_handler VFloatRange = HFloatRange"
| "mode_handler VRange = HRange"
| "mode_handler VCoerced = HCoerced"
| "mode_handler VDelegate = HDelegate"
| "mode_handler VObjectMethod_OldNew = HObjectMethodOldNew"
| "mode_handler VObjectMethod_NameOldNew = HObjectMethodNameOldNew"
| "mode_handler VMemberMethod_ObjectOldNew = HMemberMethodObjectOldNew"

section \<open>Lemmas\<close>

lemma mode_of_mode_byte [simp]: "mode_of (mode_byte v) = Some v"
  by (cases v) (simp_all add: mode_of_def mode_byte_def modes_def)

text \<open>Below the end of the table the guard lets the mode index it.\<close>

lemma select_handler_at:
  "unat b < length handlers \<Longrightarrow> select_handler b = Some (handlers ! unat b)"
  by (simp add: select_handler_def sizeof_handlers_def)


text \<open>The table lists the handlers of the modes in the order of the catalog.\<close>

lemma handlers_modes: "handlers = map mode_handler modes"
  by (simp add: handlers_def modes_def)

lemma select_handler_mode_of: "mode_of b = Some v \<Longrightarrow> select_handler b = Some (mode_handler v)"
  by (auto simp: mode_of_def select_handler_at handlers_modes split: if_splits)

text \<open>
  C4.  The guard of \<open>Member::validate\<close> compares the mode with \<open>sizeof( handlers )\<close>,
  the size of the table in bytes (240), not its thirty entries: exactly the mode
  bytes from 30 to 239 index past the end of the table, and only the bytes from 240
  on reach the no-op fallback.
\<close>

theorem select_handler_past_end:
  "select_handler b = None \<longleftrightarrow> 30 \<le> unat b \<and> unat b < 240"
  by (auto simp: select_handler_def sizeof_handlers_def handlers_def)

text \<open>When \<open>check_context\<close> accepts a context of a catalog mode.\<close>

lemma check_pair_iff:
  "check_pair ctx expected ok = Inr () \<longleftrightarrow> (case ctx of PTuple [a, b] \<Rightarrow> ok a b | _ \<Rightarrow> False)"
  by (cases ctx rule: tuple2.cases) (simp_all add: check_pair_def)

lemma check_if_iff: "check_if ok ctx expected = Inr () \<longleftrightarrow> ok"
  by (simp add: check_if_def)

lemma check_context_Inr:
  "check_context ct (mode_byte md) ctx = Inr () \<longleftrightarrow>
     (case md of
        VTuple \<Rightarrow> member_or_none ctx
      | VList \<Rightarrow> member_or_none ctx
      | VContainerList \<Rightarrow> member_or_none ctx
      | VDict \<Rightarrow> (case ctx of PTuple [k, v] \<Rightarrow> member_or_none k \<and> member_or_none v | _ \<Rightarrow> False)
      | VTyped \<Rightarrow> PyType_Check ctx
      | VEnum \<Rightarrow> PySequence_Check ct ctx
      | VFloatRange \<Rightarrow>
          (case ctx of PTuple [l, h] \<Rightarrow> (l = PNone \<or> PyFloat_Check l) \<and> (h = PNone \<or> PyFloat_Check h)
           | _ \<Rightarrow> False)
      | VRange \<Rightarrow>
          (case ctx of PTuple [l, h] \<Rightarrow> (l = PNone \<or> PyLong_Check l) \<and> (h = PNone \<or> PyLong_Check h)
           | _ \<Rightarrow> False)
      | VCoerced \<Rightarrow> (case ctx of PTuple [t, c] \<Rightarrow> PyCallable_Check ct c | _ \<Rightarrow> False)
      | VDelegate \<Rightarrow> Member_TypeCheck ctx
      | VObjectMethod_OldNew \<Rightarrow> PyUnicode_Check ctx
      | VObjectMethod_NameOldNew \<Rightarrow> PyUnicode_Check ctx
      | VMemberMethod_ObjectOldNew \<Rightarrow> PyUnicode_Check ctx
      | _ \<Rightarrow> True)"
  by (cases md) (simp_all add: check_context_def check_pair_iff check_if_iff)

end
