(* ===== verification/Conversions.thy ===== *)
theory Conversions
  imports PyObject
begin

text \<open>
  The CPython conversions the promote handlers call: \<open>PyLong_FromDouble\<close>
  (\<open>long_promote_handler\<close>), \<open>PyLong_AsDouble\<close> and \<open>PyFloat_FromDouble\<close>
  (\<open>float_promote_handler\<close>), \<open>PyUnicode_AsUTF8String\<close> (\<open>bytes_promote_handler\<close>)
  and \<open>PyUnicode_FromString(PyBytes_AS_STRING(b))\<close> (\<open>str_promote_handler\<close>).
  They are library code; the model follows their documented behaviour: truncation
  towards zero, correctly rounded conversion to a 53-bit significand with overflow
  past \<open>DBL_MAX\<close>, strict UTF-8, and the C string that ends at the first zero byte.
\<close>

section \<open>Float to int\<close>

definition trunc_rat :: "rat \<Rightarrow> int" where
  "trunc_rat r = (if 0 \<le> r then \<lfloor>r\<rfloor> else \<lceil>r\<rceil>)"

definition PyLong_FromDouble :: "pyfloat \<Rightarrow> pyval pyres" where
  "PyLong_FromDouble d =
     (case d of
        Fin r \<Rightarrow> Inr (PInt (trunc_rat r))
      | NaN \<Rightarrow> Inl (PyExc ValueError (ustr ''cannot convert float NaN to integer''))
      | _ \<Rightarrow> Inl (PyExc OverflowError (ustr ''cannot convert float infinity to integer'')))"

section \<open>Int to float\<close>

fun bitlen :: "nat \<Rightarrow> nat" where
  "bitlen n = (if n = 0 then 0 else Suc (bitlen (n div 2)))"

declare bitlen.simps [simp del]

text \<open>
  The magnitude rounded to 53 significant bits, halfway cases to even: the double
  nearest to the integer.
\<close>

definition round_mag :: "nat \<Rightarrow> nat" where
  "round_mag m =
     (let k = bitlen m in
      if k \<le> 53 then m
      else let s = k - 53; q = m div 2 ^ s; r = m mod 2 ^ s; h = 2 ^ (s - 1) in
           (if h < r \<or> (r = h \<and> odd q) then q + 1 else q) * 2 ^ s)"

text \<open>
  \<open>PyLong_AsDouble(n)\<close>: the rounded value, or \<open>OverflowError\<close> when it does not fit
  below \<open>2 ^ 1024\<close> (the exponent of the rounded value exceeds \<open>DBL_MAX_EXP\<close>).
\<close>

definition PyLong_AsDouble :: "int \<Rightarrow> pyfloat pyres" where
  "PyLong_AsDouble n =
     (let m = round_mag (nat \<bar>n\<bar>) in
      if 2 ^ 1024 \<le> m
      then Inl (PyExc OverflowError (ustr ''int too large to convert to float''))
      else Inr (Fin (of_int (sgn n * int m))))"

section \<open>UTF-8\<close>

definition cont_byte :: "nat \<Rightarrow> byte" where
  "cont_byte x = of_nat (128 + x mod 64)"

text \<open>One code point; \<open>None\<close> for a surrogate, which strict UTF-8 cannot encode.\<close>

definition utf8_encode_cp :: "nat \<Rightarrow> byte list option" where
  "utf8_encode_cp c =
     (if c < 0x80 then Some [of_nat c]
      else if c < 0x800 then Some [of_nat (0xC0 + c div 64), cont_byte c]
      else if c < 0x10000 then
        (if 0xD800 \<le> c \<and> c < 0xE000 then None
         else Some [of_nat (0xE0 + c div 4096), cont_byte (c div 64), cont_byte c])
      else if c < 0x110000 then
        Some [of_nat (0xF0 + c div 262144), cont_byte (c div 4096), cont_byte (c div 64), cont_byte c]
      else None)"

fun utf8_encode :: "ustr \<Rightarrow> byte list option" where
  "utf8_encode [] = Some []"
| "utf8_encode (c # cs) =
     (case utf8_encode_cp c of None \<Rightarrow> None
      | Some bs \<Rightarrow> map_option (\<lambda>rest. bs @ rest) (utf8_encode cs))"

definition is_cont :: "byte \<Rightarrow> bool" where
  "is_cont b \<longleftrightarrow> 128 \<le> unat b \<and> unat b < 192"

text \<open>
  The strict decoder of CPython: no overlong forms, no surrogates, nothing above
  \<open>U+10FFFF\<close>.
\<close>

fun utf8_decode :: "byte list \<Rightarrow> ustr option" where
  "utf8_decode [] = Some []"
| "utf8_decode (b # bs) =
     (let x = unat b in
      if x < 0x80 then map_option (Cons x) (utf8_decode bs)
      else if 0xC2 \<le> x \<and> x \<le> 0xDF then
        (case bs of
           b1 # r \<Rightarrow>
             if is_cont b1
             then map_option (Cons ((x - 0xC0) * 64 + (unat b1 - 128))) (utf8_decode r)
             else None
         | _ \<Rightarrow> None)
      else if 0xE0 \<le> x \<and> x \<le> 0xEF then
        (case bs of
           b1 # b2 # r \<Rightarrow>
             if is_cont b1 \<and> is_cont b2 \<and> (x = 0xE0 \<longrightarrow> 0xA0 \<le> unat b1)
                \<and> (x = 0xED \<longrightarrow> unat b1 \<le> 0x9F)
             then map_option (Cons ((x - 0xE0) * 4096 + (unat b1 - 128) * 64 + (unat b2 - 128)))
                    (utf8_decode r)
             else None
         | _ \<Rightarrow> None)
      else if 0xF0 \<le> x \<and> x \<le> 0xF4 then
        (case bs of
           b1 # b2 # b3 # r \<Rightarrow>
             if is_cont b1 \<and> is_cont b2 \<and> is_cont b3 \<and> (x = 0xF0 \<longrightarrow> 0x90 \<le> unat b1)
                \<and> (x = 0xF4 \<longrightarrow> unat b1 \<le> 0x8F)
             then map_option (Cons ((x - 0xF0) * 262144 + (unat b1 - 128) * 4096
                                    + (unat b2 - 128) * 64 + (unat b3 - 128)))
                    (utf8_decode r)
             else None
         | _ \<Rightarrow> None)
      else None)"

definition PyUnicode_AsUTF8String :: "ustr \<Rightarrow> pyval pyres" where
  "PyUnicode_AsUTF8String s =
     (case utf8_encode s of
        Some bs \<Rightarrow> Inr (PBytes bs)
      | None \<Rightarrow> Inl (PyExc UnicodeEncodeError (ustr ''surrogates not allowed'')))"

text \<open>\<open>PyBytes_AS_STRING\<close> read as a C string: up to the first zero byte.\<close>

definition c_string :: "byte list \<Rightarrow> byte list" where
  "c_string bs = takeWhile (\<lambda>b. b \<noteq> 0) bs"

definition PyUnicode_FromString :: "byte list \<Rightarrow> pyval pyres" where
  "PyUnicode_FromString bs =
     (case utf8_decode (c_string bs) of
        Some s \<Rightarrow> Inr (PStr s)
      | None \<Rightarrow> Inl (PyExc UnicodeDecodeError (ustr ''invalid utf-8'')))"

text \<open>A surrogate code point: a str may hold one, UTF-8 cannot encode it.\<close>

definition surrogate :: "nat \<Rightarrow> bool" where
  "surrogate c \<longleftrightarrow> 0xD800 \<le> c \<and> c < 0xE000"

section \<open>Lemmas\<close>

text \<open>Rounding to 53 bits.\<close>

lemma bitlen_le_iff: "bitlen m \<le> k \<longleftrightarrow> m < 2 ^ k"
proof (induction m arbitrary: k rule: bitlen.induct)
  case (1 n)
  show ?case
  proof (cases "n = 0")
    case True
    then show ?thesis by (simp add: bitlen.simps)
  next
    case False
    then have b: "bitlen n = Suc (bitlen (n div 2))" by (simp add: bitlen.simps)
    show ?thesis
    proof (cases k)
      case 0
      with False b show ?thesis by simp
    next
      case (Suc j)
      have "n div 2 < 2 ^ j \<longleftrightarrow> n < 2 ^ Suc j" by auto
      with "1.IH" [OF False, of j] b Suc show ?thesis by simp
    qed
  qed
qed

lemma round_mag_small: "m < 2 ^ 53 \<Longrightarrow> round_mag m = m"
  by (simp add: round_mag_def Let_def bitlen_le_iff)

lemma round_mag_lower: "m div 2 ^ (bitlen m - 53) * 2 ^ (bitlen m - 53) \<le> round_mag m"
  by (auto simp: round_mag_def Let_def) 

lemma bitlen_pos_lower: "0 < m \<Longrightarrow> 2 ^ (bitlen m - 1) \<le> m"
  using bitlen_le_iff [of m "bitlen m - 1"]
  by (cases "bitlen m") (auto simp: bitlen.simps split: if_splits)

lemma round_mag_big:
  assumes "2 ^ 1024 \<le> m"
  shows "2 ^ 1024 \<le> round_mag m"
proof -
  define k where "k = bitlen m"
  define j where "j = k - 53"
  have k: "1025 \<le> k" using assms bitlen_le_iff [of m 1024] by (simp add: k_def)
  have lo: "2 ^ (k - 1) \<le> m" using bitlen_pos_lower [of m] assms by (simp add: k_def)
  have kj: "k - 1 = 52 + j" using k by (simp add: j_def)
  have A: "(2::nat) ^ 1024 \<le> 2 ^ 52 * 2 ^ j"
  proof -
    have "(2::nat) ^ 1024 \<le> 2 ^ (52 + j)"
      using kj k by (intro power_increasing) simp_all
    then show ?thesis by (simp only: power_add)
  qed
  have "(2::nat) ^ 52 * 2 ^ j \<le> m"
    using lo kj by (simp only: power_add)
  then have "(2::nat) ^ 52 \<le> m div 2 ^ j"
    by (simp only: less_eq_div_iff_mult_less_eq zero_less_power zero_less_numeral)
  then have B: "(2::nat) ^ 52 * 2 ^ j \<le> m div 2 ^ j * 2 ^ j"
    by (rule mult_right_mono) simp
  have C: "m div 2 ^ j * 2 ^ j \<le> round_mag m"
    using round_mag_lower [of m] by (simp only: k_def j_def)
  show ?thesis
    using order_trans [OF order_trans [OF A B] C] .
qed

text \<open>\<open>trunc_rat\<close> is truncation toward zero, characterised without floor or ceiling.\<close>

lemma trunc_rat_iff:
  "trunc_rat r = t \<longleftrightarrow> \<bar>of_int t\<bar> \<le> \<bar>r\<bar> \<and> \<bar>r - of_int t\<bar> < 1 \<and> 0 \<le> of_int t * r"
proof (cases "0 \<le> r")
  case True
  have "trunc_rat r = t \<longleftrightarrow> of_int t \<le> r \<and> r < of_int t + 1"
    using True by (simp add: trunc_rat_def floor_eq_iff)
  also have "\<dots> \<longleftrightarrow> \<bar>of_int t\<bar> \<le> \<bar>r\<bar> \<and> \<bar>r - of_int t\<bar> < 1 \<and> 0 \<le> of_int t * r"
  proof
    assume a: "of_int t \<le> r \<and> r < of_int t + 1"
    then have "0 \<le> t" using True by linarith
    with a True show "\<bar>of_int t\<bar> \<le> \<bar>r\<bar> \<and> \<bar>r - of_int t\<bar> < 1 \<and> 0 \<le> of_int t * r"
      by auto
  next
    assume a: "\<bar>of_int t\<bar> \<le> \<bar>r\<bar> \<and> \<bar>r - of_int t\<bar> < 1 \<and> 0 \<le> of_int t * r"
    have "0 \<le> (of_int t :: rat)"
    proof (cases "r = 0")
      case True
      with a show ?thesis by simp
    next
      case False
      with \<open>0 \<le> r\<close> have "0 < r" by simp
      with a show ?thesis by (simp add: zero_le_mult_iff)
    qed
    with a True show "of_int t \<le> r \<and> r < of_int t + 1" by auto
  qed
  finally show ?thesis .
next
  case False
  have "trunc_rat r = t \<longleftrightarrow> r \<le> of_int t \<and> of_int t - 1 < r"
    using False by (auto simp: trunc_rat_def ceiling_eq_iff)
  also have "\<dots> \<longleftrightarrow> \<bar>of_int t\<bar> \<le> \<bar>r\<bar> \<and> \<bar>r - of_int t\<bar> < 1 \<and> 0 \<le> of_int t * r"
  proof
    assume a: "r \<le> of_int t \<and> of_int t - 1 < r"
    then have "t \<le> 0" using False by linarith
    with a False show "\<bar>of_int t\<bar> \<le> \<bar>r\<bar> \<and> \<bar>r - of_int t\<bar> < 1 \<and> 0 \<le> of_int t * r"
      by (auto simp: mult_nonpos_nonpos)
  next
    assume a: "\<bar>of_int t\<bar> \<le> \<bar>r\<bar> \<and> \<bar>r - of_int t\<bar> < 1 \<and> 0 \<le> of_int t * r"
    from False have "r < 0" by simp
    with a have "(of_int t :: rat) \<le> 0" by (simp add: zero_le_mult_iff)
    with a False show "r \<le> of_int t \<and> of_int t - 1 < r" by auto
  qed
  finally show ?thesis .
qed

text \<open>UTF-8: decoding undoes encoding, one code point at a time.\<close>

lemma unat_cont_byte [simp]: "unat (cont_byte x) = 128 + x mod 64"
  unfolding cont_byte_def by (subst unat_byte) simp_all

lemma is_cont_cont_byte [simp]: "is_cont (cont_byte x)"
  by (simp add: is_cont_def)

lemma decode_1:
  "c < 0x80 \<Longrightarrow> utf8_decode (of_nat c # rest) = map_option (Cons c) (utf8_decode rest)"
  by simp

lemma decode_2:
  assumes "0x80 \<le> c" "c < 0x800"
  shows "utf8_decode (of_nat (0xC0 + c div 64) # cont_byte c # rest) =
           map_option (Cons c) (utf8_decode rest)"
proof -
  have "2 \<le> c div 64" "c div 64 < 32" using assms by auto
  moreover have "c div 64 * 64 + c mod 64 = c" by simp
  ultimately show ?thesis by (simp add: Let_def del: of_nat_add)
qed

lemma decode_3:
  assumes "0x800 \<le> c" "c < 0x10000" "\<not> (0xD800 \<le> c \<and> c < 0xE000)"
  shows "utf8_decode (of_nat (0xE0 + c div 4096) # cont_byte (c div 64) # cont_byte c # rest) =
           map_option (Cons c) (utf8_decode rest)"
proof -
  have c: "c = 4096 * (c div 4096) + 64 * (c div 64 mod 64) + c mod 64"
    using nat_digits2 [of c 64] by (simp add: div_mult2_eq [symmetric])
  have d0: "c mod 64 < 64" and d1: "c div 64 mod 64 < 64" by simp_all
  have sur: "c < 0xD800 \<or> 0xE000 \<le> c" using assms(3) by auto
  have "c div 4096 < 16" using assms(2) c by linarith
  moreover have "c div 4096 = 0 \<Longrightarrow> 32 \<le> c div 64 mod 64" using assms(1) c d0 by linarith
  moreover have "c div 4096 = 13 \<Longrightarrow> c div 64 mod 64 \<le> 31" using sur c d0 d1 by linarith
  ultimately show ?thesis
    using c [symmetric] by (simp add: Let_def ac_simps del: of_nat_add)
qed

lemma decode_4:
  assumes "0x10000 \<le> c" "c < 0x110000"
  shows "utf8_decode (of_nat (0xF0 + c div 262144) # cont_byte (c div 4096) # cont_byte (c div 64)
                      # cont_byte c # rest) =
           map_option (Cons c) (utf8_decode rest)"
proof -
  have c64: "c = 64 * (c div 64) + c mod 64" by simp
  have "c div 64 = 4096 * (c div 262144) + 64 * (c div 4096 mod 64) + c div 64 mod 64"
    using nat_digits2 [of "c div 64" 64] by (simp add: div_mult2_eq [symmetric])
  with c64 have c: "c = 262144 * (c div 262144) + 4096 * (c div 4096 mod 64)
                        + 64 * (c div 64 mod 64) + c mod 64"
    by linarith
  have d0: "c mod 64 < 64" and d1: "c div 64 mod 64 < 64" and d2: "c div 4096 mod 64 < 64"
    by simp_all
  have "c div 262144 \<le> 4" using assms(2) c by linarith
  moreover have "c div 262144 = 0 \<Longrightarrow> 16 \<le> c div 4096 mod 64" using assms(1) c d0 d1 by linarith
  moreover have "c div 262144 = 4 \<Longrightarrow> c div 4096 mod 64 \<le> 15" using assms(2) c d0 d1 by linarith
  ultimately show ?thesis
    using c [symmetric] by (simp add: Let_def ac_simps del: of_nat_add)
qed

lemma utf8_decode_cp:
  assumes "utf8_encode_cp c = Some bs"
  shows "utf8_decode (bs @ rest) = map_option (Cons c) (utf8_decode rest)"
proof -
  consider "c < 0x80" | "0x80 \<le> c" "c < 0x800" | "0x800 \<le> c" "c < 0x10000"
    | "0x10000 \<le> c" "c < 0x110000" | "0x110000 \<le> c"
    by linarith
  then show ?thesis
  proof cases
    case 1
    with assms have "bs = [of_nat c]" by (simp add: utf8_encode_cp_def)
    with 1 show ?thesis by (simp add: decode_1)
  next
    case 2
    with assms have bs: "bs = [of_nat (0xC0 + c div 64), cont_byte c]"
      by (simp add: utf8_encode_cp_def del: of_nat_add)
    show ?thesis by (simp only: bs append_Cons append_Nil decode_2 [OF 2])
  next
    case 3
    with assms have bs: "bs = [of_nat (0xE0 + c div 4096), cont_byte (c div 64), cont_byte c]"
      and sur: "\<not> (0xD800 \<le> c \<and> c < 0xE000)"
      by (auto simp: utf8_encode_cp_def split: if_splits simp del: of_nat_add)
    show ?thesis by (simp only: bs append_Cons append_Nil decode_3 [OF 3 sur])
  next
    case 4
    with assms have bs: "bs = [of_nat (0xF0 + c div 262144), cont_byte (c div 4096),
                           cont_byte (c div 64), cont_byte c]"
      by (simp add: utf8_encode_cp_def del: of_nat_add)
    show ?thesis by (simp only: bs append_Cons append_Nil decode_4 [OF 4])
  next
    case 5
    with assms show ?thesis by (simp add: utf8_encode_cp_def)
  qed
qed

lemma utf8_roundtrip: "utf8_encode s = Some bs \<Longrightarrow> utf8_decode bs = Some s"
proof (induction s arbitrary: bs)
  case Nil
  then show ?case by simp
next
  case (Cons c cs)
  then obtain b1 rest where "utf8_encode_cp c = Some b1" "utf8_encode cs = Some rest"
    "bs = b1 @ rest"
    by (auto split: option.splits)
  with Cons.IH show ?case by (simp add: utf8_decode_cp)
qed

text \<open>A zero byte appears in the encoding exactly where the string has a NUL.\<close>

lemma utf8_encode_cp_zero:
  assumes "utf8_encode_cp c = Some bs"
  shows "0 \<in> set bs \<longleftrightarrow> c = 0"
proof -
  have cont: "cont_byte x \<noteq> 0" for x by (simp add: byte_eq_0)
  show ?thesis
    using assms
    by (auto simp: utf8_encode_cp_def cont byte_of_nat_eq_0 div_less_iff_less_mult
             split: if_splits simp del: of_nat_add)
qed

lemma utf8_encode_zero: "utf8_encode s = Some bs \<Longrightarrow> 0 \<in> set bs \<longleftrightarrow> 0 \<in> set s"
proof (induction s arbitrary: bs)
  case Nil
  then show ?case by simp
next
  case (Cons c cs)
  then obtain b1 rest where "utf8_encode_cp c = Some b1" "utf8_encode cs = Some rest"
    "bs = b1 @ rest"
    by (auto split: option.splits)
  with Cons.IH utf8_encode_cp_zero show ?case by auto
qed

lemma c_string_no_nul: "0 \<notin> set bs \<Longrightarrow> c_string bs = bs"
  by (auto simp: c_string_def takeWhile_eq_all_conv)

lemma c_string_nul: "0 \<notin> set bs1 \<Longrightarrow> c_string (bs1 @ 0 # bs2) = bs1"
  unfolding c_string_def by (induction bs1) auto

text \<open>Below \<open>U+110000\<close>, encoding fails exactly on a surrogate.\<close>

lemma utf8_encode_cp_None: "utf8_encode_cp c = None \<longleftrightarrow> surrogate c \<or> 0x110000 \<le> c"
  by (simp add: utf8_encode_cp_def surrogate_def)

lemma utf8_encode_None:
  assumes "\<forall>c\<in>set s. c < 0x110000"
  shows "utf8_encode s = None \<longleftrightarrow> (\<exists>c\<in>set s. surrogate c)"
  using assms
proof (induction s)
  case Nil
  then show ?case by simp
next
  case (Cons c cs)
  have "utf8_encode_cp c = None \<longleftrightarrow> surrogate c" using Cons.prems by (simp add: utf8_encode_cp_None)
  with Cons show ?case by (auto split: option.split)
qed

section \<open>Rounding error and overflow\<close>

text \<open>One rounding step: \<open>q\<close> units of \<open>2 * h\<close> and a remainder \<open>r\<close>, rounded to the nearest unit, ties to even.\<close>

lemma round_step_error:
  assumes "r < 2 * (h::nat)"
  shows "\<bar>int ((if h < r \<or> (r = h \<and> odd q) then q + 1 else q) * (2 * h)) - int (q * (2 * h) + r)\<bar> \<le> int h"
  using assms by (auto simp: algebra_simps)

lemma round_step_up_iff:
  assumes r: "r < 2 * h" and q: "q < (P::nat)" and P: "even P"
  shows "(P * (2 * h) \<le> (if h < r \<or> (r = h \<and> odd q) then q + 1 else q) * (2 * h)) \<longleftrightarrow>
           P * (2 * h) - h \<le> q * (2 * h) + r"
proof (cases "Suc q = P")
  case True
  then have "odd q" using P by auto
  moreover have "P * (2 * h) = q * (2 * h) + 2 * h" using True [symmetric] by (simp add: algebra_simps)
  ultimately show ?thesis using r by auto
next
  case False
  with q have "Suc q \<le> P - 1" by simp
  then have "Suc q * (2 * h) \<le> (P - 1) * (2 * h)" by (rule mult_le_mono1)
  moreover have "(P - 1) * (2 * h) + 2 * h = P * (2 * h)"
    using q by (cases P) (simp_all add: algebra_simps)
  ultimately have B: "(q + 1) * (2 * h) + 2 * h \<le> P * (2 * h)" by simp
  have E: "(q + 1) * (2 * h) = q * (2 * h) + 2 * h" by simp
  have A: "(if h < r \<or> (r = h \<and> odd q) then q + 1 else q) * (2 * h) \<le> (q + 1) * (2 * h)"
    by simp
  have "0 < h" using r by simp
  with A B E r show ?thesis by linarith
qed

lemma bitlen_bounds: "bitlen m = Suc k \<Longrightarrow> 2 ^ k \<le> m \<and> m < 2 ^ Suc k"
  using bitlen_le_iff [of m "Suc k"] bitlen_pos_lower [of m] by (cases "m = 0") (simp_all add: bitlen.simps)

text \<open>The parts of \<open>round_mag\<close> above 53 bits, with \<open>2 ^ s = 2 * h\<close>.\<close>

lemma round_mag_parts:
  assumes "bitlen m = 54 + t"
  shows "round_mag m =
           (let q = m div (2 * 2 ^ t); r = m mod (2 * 2 ^ t); h = 2 ^ t in
            (if h < r \<or> (r = h \<and> odd q) then q + 1 else q) * (2 * h))"
    and "m div (2 * 2 ^ t) < 2 ^ 53" and "m = m div (2 * 2 ^ t) * (2 * 2 ^ t) + m mod (2 * 2 ^ t)"
proof -
  have s: "bitlen m - 53 = Suc t" using assms by simp
  show "round_mag m =
           (let q = m div (2 * 2 ^ t); r = m mod (2 * 2 ^ t); h = 2 ^ t in
            (if h < r \<or> (r = h \<and> odd q) then q + 1 else q) * (2 * h))"
    using assms by (simp add: round_mag_def Let_def s)
  have "m < 2 ^ 53 * (2 * 2 ^ t)"
    using bitlen_bounds [of m "53 + t"] assms by (simp add: power_add)
  then show "m div (2 * 2 ^ t) < 2 ^ 53" by (simp add: div_less_iff_less_mult)
  show "m = m div (2 * 2 ^ t) * (2 * 2 ^ t) + m mod (2 * 2 ^ t)" by (rule div_mult_mod_eq [symmetric])
qed

lemma bitlen_eq: "2 ^ k \<le> m \<Longrightarrow> m < 2 ^ Suc k \<Longrightarrow> bitlen m = Suc k"
  using bitlen_le_iff [of m "Suc k"] bitlen_le_iff [of m k] by simp

lemma round_mag_low: "bitlen m \<le> 53 \<Longrightarrow> round_mag m = m"
  by (simp add: round_mag_def)

lemma bitlen_above:
  assumes "\<not> bitlen m \<le> 53"
  obtains t where "bitlen m = 54 + t" and "(2::nat) ^ (bitlen m - 53) = 2 * 2 ^ t"
proof -
  have "bitlen m = 54 + (bitlen m - 54)" using assms by simp
  then show ?thesis using that by simp
qed

lemma round_mag_le_pow: "round_mag m \<le> 2 ^ bitlen m"
proof (cases "bitlen m \<le> 53")
  case True
  then show ?thesis using bitlen_le_iff [of m "bitlen m"] by (simp add: round_mag_low)
next
  case False
  then obtain t where t: "bitlen m = 54 + t" "(2::nat) ^ (bitlen m - 53) = 2 * 2 ^ t" by (rule bitlen_above)
  define q where "q = m div (2 * 2 ^ t)"
  define r where "r = m mod (2 * 2 ^ t)"
  have rm: "round_mag m = (if 2 ^ t < r \<or> (r = 2 ^ t \<and> odd q) then q + 1 else q) * (2 * 2 ^ t)"
    using round_mag_parts(1) [OF t(1)] by (simp add: q_def r_def Let_def)
  have "q < 2 ^ 53" using round_mag_parts(2) [OF t(1)] by (simp add: q_def)
  then have "(if 2 ^ t < r \<or> (r = 2 ^ t \<and> odd q) then q + 1 else q) \<le> 2 ^ 53" by simp
  then have "round_mag m \<le> 2 ^ 53 * (2 * 2 ^ t)" unfolding rm by (rule mult_le_mono1)
  then show ?thesis using t(1) by (simp add: power_add)
qed

lemma round_mag_ge_half:
  assumes "0 < m"
  shows "2 ^ (bitlen m - 1) \<le> round_mag m"
proof (cases "bitlen m \<le> 53")
  case True
  then show ?thesis using bitlen_pos_lower [OF assms] by (simp add: round_mag_low)
next
  case False
  then obtain t where t: "bitlen m = 54 + t" "(2::nat) ^ (bitlen m - 53) = 2 * 2 ^ t" by (rule bitlen_above)
  define q where "q = m div (2 * 2 ^ t)"
  have "2 ^ 52 * (2 * 2 ^ t) \<le> m"
    using bitlen_bounds [of m "53 + t"] t(1) by (simp add: power_add)
  then have "2 ^ 52 \<le> q" by (simp add: q_def less_eq_div_iff_mult_less_eq)
  then have A: "2 ^ 52 * (2 * 2 ^ t) \<le> q * (2 * 2 ^ t)" by (rule mult_le_mono1)
  have B: "q * (2 * 2 ^ t) \<le> round_mag m" using round_mag_lower [of m] t(2) by (simp add: q_def)
  have "(2::nat) ^ (bitlen m - 1) = 2 ^ 52 * (2 * 2 ^ t)" using t(1) by (simp add: power_add)
  then show ?thesis using order_trans [OF A B] by simp
qed

text \<open>
  The rounded magnitude is a multiple of the unit in the last place of a 53-bit
  significand, \<open>2 ^ (bitlen m - 53)\<close>, and lies within half a unit of the integer.
\<close>

lemma round_mag_nearest:
  "round_mag m mod 2 ^ (bitlen m - 53) = 0 \<and>
   \<bar>int (round_mag m) - int m\<bar> \<le> int (2 ^ (bitlen m - 53) div 2)"
proof (cases "bitlen m \<le> 53")
  case True
  then show ?thesis by (simp add: round_mag_low)
next
  case False
  then obtain t where t: "bitlen m = 54 + t" "(2::nat) ^ (bitlen m - 53) = 2 * 2 ^ t" by (rule bitlen_above)
  define q where "q = m div (2 * 2 ^ t)"
  define r where "r = m mod (2 * 2 ^ t)"
  have rm: "round_mag m = (if 2 ^ t < r \<or> (r = 2 ^ t \<and> odd q) then q + 1 else q) * (2 * 2 ^ t)"
    using round_mag_parts(1) [OF t(1)] by (simp add: q_def r_def Let_def)
  have "m = q * (2 * 2 ^ t) + r" using round_mag_parts(3) [OF t(1)] by (simp add: q_def r_def)
  moreover have "r < 2 * 2 ^ t" by (simp add: r_def)
  ultimately have "\<bar>int (round_mag m) - int m\<bar> \<le> int (2 ^ t)"
    using round_step_error [of r "2 ^ t" q] rm by simp
  then show ?thesis using rm t(2) by simp
qed

text \<open>Rounding reaches \<open>2 ^ k\<close> exactly from half a unit below it.\<close>

lemma round_mag_reaches:
  assumes k: "54 \<le> k"
  shows "2 ^ k \<le> round_mag m \<longleftrightarrow> 2 ^ k - 2 ^ (k - 54) \<le> m"
proof (cases "bitlen m" k rule: linorder_cases)
  case less
  have "(2::nat) ^ bitlen m < 2 ^ k" using less by (rule power_strict_increasing) simp
  then have "round_mag m < 2 ^ k" using round_mag_le_pow [of m] by (rule le_less_trans [rotated])
  moreover have "m < 2 ^ k - 2 ^ (k - 54)"
  proof -
    have "bitlen m \<le> k - 1" using less by simp
    then have "m < 2 ^ (k - 1)" by (simp only: bitlen_le_iff)
    moreover have "(2::nat) ^ (k - 54) \<le> 2 ^ (k - 1)" by (rule power_increasing) simp_all
    moreover have "(2::nat) ^ k = 2 ^ (k - 1) + 2 ^ (k - 1)"
      using k by (cases k) simp_all
    ultimately show ?thesis by linarith
  qed
  ultimately show ?thesis by simp
next
  case equal
  define t where "t = k - 54"
  have t: "bitlen m = 54 + t" using equal k by (simp add: t_def)
  define q where "q = m div (2 * 2 ^ t)"
  define r where "r = m mod (2 * 2 ^ t)"
  have rm: "round_mag m = (if 2 ^ t < r \<or> (r = 2 ^ t \<and> odd q) then q + 1 else q) * (2 * 2 ^ t)"
    using round_mag_parts(1) [OF t] by (simp add: q_def r_def Let_def)
  have mq: "m = q * (2 * 2 ^ t) + r" using round_mag_parts(3) [OF t] by (simp add: q_def r_def)
  have q: "q < 2 ^ 53" using round_mag_parts(2) [OF t] by (simp add: q_def)
  have "k = 53 + Suc t" using k by (simp add: t_def)
  then have pk: "(2::nat) ^ k = 2 ^ 53 * (2 * 2 ^ t)" by (simp only: power_add power_Suc)
  have r: "r < 2 * 2 ^ t" by (simp add: r_def)
  have ev: "even ((2::nat) ^ 53)" by simp
  have A: "2 ^ k \<le> round_mag m \<longleftrightarrow>
             2 ^ 53 * (2 * 2 ^ t) \<le> (if 2 ^ t < r \<or> (r = 2 ^ t \<and> odd q) then q + 1 else q) * (2 * 2 ^ t)"
    by (simp only: rm pk)
  have B: "2 ^ k - 2 ^ (k - 54) \<le> m \<longleftrightarrow> 2 ^ 53 * (2 * 2 ^ t) - 2 ^ t \<le> q * (2 * 2 ^ t) + r"
    by (simp only: pk t_def [symmetric] mq)
  show ?thesis using round_step_up_iff [OF r q ev] by (simp only: A B)
next
  case greater
  then have m: "0 < m" by (cases m) (simp_all add: bitlen.simps)
  have p: "(2::nat) ^ k \<le> 2 ^ (bitlen m - 1)" using greater by (intro power_increasing) simp_all
  have "2 ^ k \<le> round_mag m" using order_trans [OF p round_mag_ge_half [OF m]] .
  moreover have "2 ^ k \<le> m" using order_trans [OF p bitlen_pos_lower [OF m]] .
  ultimately show ?thesis by simp
qed

text \<open>
  The overflow threshold of \<open>PyLong_AsDouble\<close> is \<open>2 ^ 1024 - 2 ^ 970\<close>, half a unit
  below \<open>2 ^ 1024\<close>.
\<close>

lemma PyLong_AsDouble_overflow:
  "PyLong_AsDouble n =
     (if 2 ^ 1024 - 2 ^ 970 \<le> \<bar>n\<bar>
      then Inl (PyExc OverflowError (ustr ''int too large to convert to float''))
      else Inr (Fin (of_int (sgn n * int (round_mag (nat \<bar>n\<bar>))))))"
proof -
  have e: "(1024::nat) - 54 = 970" by simp
  have le: "(2::nat) ^ 970 \<le> 2 ^ 1024" by (rule power_increasing) simp_all
  have "int (2 ^ 1024 - 2 ^ 970) = (2::int) ^ 1024 - 2 ^ 970"
    using le by (simp only: of_nat_diff of_nat_power of_nat_numeral)
  then have "(2 ^ 1024 - 2 ^ 970 \<le> nat \<bar>n\<bar>) \<longleftrightarrow> ((2::int) ^ 1024 - 2 ^ 970 \<le> \<bar>n\<bar>)"
    by linarith
  then have "(2 ^ 1024 \<le> round_mag (nat \<bar>n\<bar>)) \<longleftrightarrow> ((2::int) ^ 1024 - 2 ^ 970 \<le> \<bar>n\<bar>)"
    using round_mag_reaches [of 1024 "nat \<bar>n\<bar>"] by (simp only: e)
  then show ?thesis by (simp only: PyLong_AsDouble_def Let_def)
qed

end
