(* ===== verification/Handlers.thy ===== *)
theory Handlers
  imports Member Conversions
begin

text \<open>
  The handlers of \<open>validatebehavior.cpp\<close> that do not re-enter the dispatcher, in
  the order of the file: the scalar and promotion handlers (lines 167--283), the
  constraint handlers (lines 464--565), the coercion handler (lines 568--592) and
  the three callback handlers (lines 603--650).  A handler whose C body reads only
  its arguments is a function into \<open>pyval pyres\<close>; one that calls Python code takes
  and returns the interpreter state.  The container handlers and the delegate,
  which re-enter the dispatcher, are in \<open>Dispatch\<close>.
\<close>

section \<open>The type-mismatch error\<close>

definition validate_type_fail :: "member \<Rightarrow> pyval \<Rightarrow> pyval \<Rightarrow> ustr \<Rightarrow> exc" where
  "validate_type_fail m atom new ty =
     PyExc TypeError (ustr ''The '' @ squote @ m_name m @ squote @ ustr '' member on the '' @
       squote @ tp_name (type_of atom) @ squote @ ustr '' object must be of type '' @
       squote @ ty @ squote @ ustr ''. Got object of type '' @
       squote @ tp_name (type_of new) @ squote @ ustr '' instead.'')"

section \<open>Scalar and promotion handlers\<close>

definition no_op_handler :: "pyval \<Rightarrow> pyval pyres" where
  "no_op_handler new = Inr new"

definition bool_handler :: "member \<Rightarrow> pyval \<Rightarrow> pyval \<Rightarrow> pyval pyres" where
  "bool_handler m atom new =
     (case new of PBool _ \<Rightarrow> Inr new | _ \<Rightarrow> Inl (validate_type_fail m atom new (ustr ''bool'')))"

definition long_handler :: "member \<Rightarrow> pyval \<Rightarrow> pyval \<Rightarrow> pyval pyres" where
  "long_handler m atom new =
     (if PyLong_Check new then Inr new else Inl (validate_type_fail m atom new (ustr ''int'')))"

definition long_promote_handler :: "member \<Rightarrow> pyval \<Rightarrow> pyval \<Rightarrow> pyval pyres" where
  "long_promote_handler m atom new =
     (if PyLong_Check new then Inr new
      else case new of
             PFloat d \<Rightarrow> PyLong_FromDouble d
           | _ \<Rightarrow> Inl (validate_type_fail m atom new (ustr ''int'')))"

definition float_handler :: "member \<Rightarrow> pyval \<Rightarrow> pyval \<Rightarrow> pyval pyres" where
  "float_handler m atom new =
     (if PyFloat_Check new then Inr new else Inl (validate_type_fail m atom new (ustr ''float'')))"

text \<open>\<open>PyLong_AsDouble\<close> reads an int or a bool (a bool is an int to \<open>PyLong_Check\<close>).\<close>

definition float_promote_handler :: "member \<Rightarrow> pyval \<Rightarrow> pyval \<Rightarrow> pyval pyres" where
  "float_promote_handler m atom new =
     (if PyFloat_Check new then Inr new
      else case index_of new of
             Some n \<Rightarrow> (case PyLong_AsDouble n of Inl e \<Rightarrow> Inl e | Inr d \<Rightarrow> Inr (PFloat d))
           | None \<Rightarrow> Inl (validate_type_fail m atom new (ustr ''float'')))"

definition bytes_handler :: "member \<Rightarrow> pyval \<Rightarrow> pyval \<Rightarrow> pyval pyres" where
  "bytes_handler m atom new =
     (if PyBytes_Check new then Inr new else Inl (validate_type_fail m atom new (ustr ''bytes'')))"

definition bytes_promote_handler :: "member \<Rightarrow> pyval \<Rightarrow> pyval \<Rightarrow> pyval pyres" where
  "bytes_promote_handler m atom new =
     (if PyBytes_Check new then Inr new
      else case new of
             PStr s \<Rightarrow> PyUnicode_AsUTF8String s
           | _ \<Rightarrow> Inl (validate_type_fail m atom new (ustr ''bytes'')))"

definition str_handler :: "member \<Rightarrow> pyval \<Rightarrow> pyval \<Rightarrow> pyval pyres" where
  "str_handler m atom new =
     (if PyUnicode_Check new then Inr new else Inl (validate_type_fail m atom new (ustr ''str'')))"

definition str_promote_handler :: "member \<Rightarrow> pyval \<Rightarrow> pyval \<Rightarrow> pyval pyres" where
  "str_promote_handler m atom new =
     (if PyUnicode_Check new then Inr new
      else case new of
             PBytes bs \<Rightarrow> PyUnicode_FromString bs
           | _ \<Rightarrow> Inl (validate_type_fail m atom new (ustr ''str'')))"

section \<open>Constraint handlers\<close>

definition instance_handler :: "classtab \<Rightarrow> member \<Rightarrow> pyval \<Rightarrow> pyval pyres" where
  "instance_handler ct m new =
     (if new = PNone then Inr new
      else case PyObject_IsInstance ct new (validate_context m) of
             Inl e \<Rightarrow> Inl e
           | Inr True \<Rightarrow> Inr new
           | Inr False \<Rightarrow> Inl (PyExc TypeError (ustr ''invalid instance type'')))"

text \<open>\<open>pytype_cast\<close> does not check that the context is a type.\<close>

definition typed_handler :: "classtab \<Rightarrow> member \<Rightarrow> pyval \<Rightarrow> pyval \<Rightarrow> pyval pyres" where
  "typed_handler ct m atom new =
     (if new = PNone then Inr new
      else case validate_context m of
             PType t \<Rightarrow> if PyObject_TypeCheck ct new t then Inr new
                        else Inl (validate_type_fail m atom new (tp_name t))
           | _ \<Rightarrow> Inl (Undefined ''pytype_cast of a non-type''))"

definition subclass_handler :: "classtab \<Rightarrow> member \<Rightarrow> pyval \<Rightarrow> pyval pyres" where
  "subclass_handler ct m new =
     (case PyObject_IsSubclass ct new (validate_context m) of
        Inl e \<Rightarrow> Inl e
      | Inr True \<Rightarrow> Inr new
      | Inr False \<Rightarrow> Inl (PyExc TypeError (ustr ''invalid subclass type'')))"

text \<open>
  \<open>PySequence_Contains\<close>: the built-in containers in \<open>PyObject\<close>; an instance of a
  user class runs its \<open>__contains__\<close> (or iteration) through the interpreter.
\<close>

definition PySequence_Contains :: "'w pyenv \<Rightarrow> 'w \<Rightarrow> pyval \<Rightarrow> pyval \<Rightarrow> ('w, exc, bool) step" where
  "PySequence_Contains env w seq v =
     (case seq of PObj (TUser _) _ \<Rightarrow> py_contains env w seq v | _ \<Rightarrow> (w, seq_contains seq v))"

definition enum_handler :: "'w pyenv \<Rightarrow> member \<Rightarrow> pyval \<Rightarrow> 'w \<Rightarrow> ('w, exc, pyval) step" where
  "enum_handler env m new w =
     (case PySequence_Contains env w (validate_context m) new of
        (w', Inl e) \<Rightarrow> (w', Inl e)
      | (w', Inr True) \<Rightarrow> (w', Inr new)
      | (w', Inr False) \<Rightarrow> (w', Inl (PyExc ValueError (ustr ''invalid enum value''))))"

definition callable_handler :: "classtab \<Rightarrow> member \<Rightarrow> pyval \<Rightarrow> pyval \<Rightarrow> pyval pyres" where
  "callable_handler ct m atom new =
     (if new = PNone then Inr new
      else if PyCallable_Check ct new then Inr new
      else Inl (validate_type_fail m atom new (ustr ''callable'')))"

text \<open>
  \<open>PyTuple_GET_ITEM\<close> and \<open>PyFloat_AS_DOUBLE\<close> are unchecked macros: on an object
  of another type, or past the end of the tuple, they read memory that is not
  theirs.
\<close>

fun tuple_get :: "pyval \<Rightarrow> nat \<Rightarrow> pyval option" where
  "tuple_get (PTuple xs) i = (if i < length xs then Some (xs ! i) else None)"
| "tuple_get _ i = None"

definition unchecked_item :: exc where
  "unchecked_item = Undefined ''PyTuple_GET_ITEM outside a tuple''"

definition too_small :: exc where
  "too_small = PyExc TypeError (ustr ''range value too small'')"

definition too_large :: exc where
  "too_large = PyExc TypeError (ustr ''range value too large'')"

text \<open>One side of \<open>float_range_handler\<close>: \<open>viol\<close> tells whether the bound is violated.\<close>

definition float_bound :: "pyval \<Rightarrow> (pyfloat \<Rightarrow> bool) \<Rightarrow> exc \<Rightarrow> unit pyres" where
  "float_bound b viol err =
     (if b = PNone then Inr ()
      else case b of
             PFloat x \<Rightarrow> if viol x then Inl err else Inr ()
           | _ \<Rightarrow> Inl (Undefined ''PyFloat_AS_DOUBLE of a non-float''))"

definition float_range_handler :: "member \<Rightarrow> pyval \<Rightarrow> pyval \<Rightarrow> pyval pyres" where
  "float_range_handler m atom new =
     (case new of
        PFloat value \<Rightarrow>
          (case (tuple_get (validate_context m) 0, tuple_get (validate_context m) 1) of
             (Some low, Some high) \<Rightarrow>
               (case float_bound low (\<lambda>l. float_lt value l) too_small of
                  Inl e \<Rightarrow> Inl e
                | Inr _ \<Rightarrow>
                    (case float_bound high (\<lambda>h. float_lt h value) too_large of
                       Inl e \<Rightarrow> Inl e
                     | Inr _ \<Rightarrow> Inr new))
           | _ \<Rightarrow> Inl unchecked_item)
      | _ \<Rightarrow> Inl (validate_type_fail m atom new (ustr ''float'')))"

text \<open>
  One side of \<open>range_handler\<close>: \<open>if( PyObject_RichCompareBool( ... ) )\<close> treats the
  error result \<open>-1\<close> as true, and \<open>cppy::type_error\<close> then replaces the pending
  exception.
\<close>

definition int_bound :: "pyval \<Rightarrow> (pyval \<Rightarrow> bool pyres) \<Rightarrow> exc \<Rightarrow> unit pyres" where
  "int_bound b cmp err =
     (if b = PNone then Inr ()
      else case cmp b of
             Inr False \<Rightarrow> Inr ()
           | _ \<Rightarrow> Inl err)"

definition range_handler :: "member \<Rightarrow> pyval \<Rightarrow> pyval \<Rightarrow> pyval pyres" where
  "range_handler m atom new =
     (if \<not> PyLong_Check new then Inl (validate_type_fail m atom new (ustr ''int''))
      else case (tuple_get (validate_context m) 0, tuple_get (validate_context m) 1) of
             (Some low, Some high) \<Rightarrow>
               (case int_bound low (\<lambda>l. rich_gt l new) too_small of
                  Inl e \<Rightarrow> Inl e
                | Inr _ \<Rightarrow>
                    (case int_bound high (\<lambda>h. rich_lt h new) too_large of
                       Inl e \<Rightarrow> Inl e
                     | Inr _ \<Rightarrow> Inr new))
           | _ \<Rightarrow> Inl unchecked_item)"

section \<open>Coercion and callbacks\<close>

definition coerced_handler :: "'w pyenv \<Rightarrow> member \<Rightarrow> pyval \<Rightarrow> 'w \<Rightarrow> ('w, exc, pyval) step" where
  "coerced_handler env m new w =
     (case tuple_get (validate_context m) 0 of
        None \<Rightarrow> (w, Inl unchecked_item)
      | Some ty \<Rightarrow>
          (case PyObject_IsInstance (classes env) new ty of
             Inr True \<Rightarrow> (w, Inr new)
           | Inl e \<Rightarrow> (w, Inl e)
           | Inr False \<Rightarrow>
               (case tuple_get (validate_context m) 1 of
                  None \<Rightarrow> (w, Inl unchecked_item)
                | Some coercer \<Rightarrow>
                    (case py_call env w coercer [new] of
                       (w1, Inl e) \<Rightarrow> (w1, Inl e)
                     | (w1, Inr c) \<Rightarrow>
                         (case PyObject_IsInstance (classes env) c ty of
                            Inr True \<Rightarrow> (w1, Inr c)
                          | Inl e \<Rightarrow> (w1, Inl e)
                          | Inr False \<Rightarrow>
                              (w1, Inl (PyExc TypeError
                                  (ustr ''could not coerce value to an appropriate type''))))))))"

text \<open>\<open>PyObject_GetAttr( obj, member->validate_context )\<close>: the name must be a str.\<close>

definition get_method :: "'w pyenv \<Rightarrow> 'w \<Rightarrow> pyval \<Rightarrow> pyval \<Rightarrow> ('w, exc, pyval) step" where
  "get_method env w obj name =
     (case name of
        PStr s \<Rightarrow> py_getattr env w obj s
      | _ \<Rightarrow> (w, Inl (PyExc TypeError (ustr ''attribute name must be string, not '' @
                                        squote @ tp_name (type_of name) @ squote))))"

definition call_method :: "'w pyenv \<Rightarrow> 'w \<Rightarrow> pyval \<Rightarrow> pyval \<Rightarrow> pyval list \<Rightarrow> ('w, exc, pyval) step" where
  "call_method env w obj name args =
     (case get_method env w obj name of
        (w1, Inl e) \<Rightarrow> (w1, Inl e)
      | (w1, Inr f) \<Rightarrow> py_call env w1 f args)"

definition object_method_old_new_handler ::
  "'w pyenv \<Rightarrow> member \<Rightarrow> pyval \<Rightarrow> pyval \<Rightarrow> pyval \<Rightarrow> 'w \<Rightarrow> ('w, exc, pyval) step" where
  "object_method_old_new_handler env m atom old new w =
     call_method env w atom (validate_context m) [old, new]"

definition object_method_name_old_new_handler ::
  "'w pyenv \<Rightarrow> member \<Rightarrow> pyval \<Rightarrow> pyval \<Rightarrow> pyval \<Rightarrow> 'w \<Rightarrow> ('w, exc, pyval) step" where
  "object_method_name_old_new_handler env m atom old new w =
     call_method env w atom (validate_context m) [PStr (m_name m), old, new]"

definition member_method_object_old_new_handler ::
  "'w pyenv \<Rightarrow> mid \<Rightarrow> member \<Rightarrow> pyval \<Rightarrow> pyval \<Rightarrow> pyval \<Rightarrow> 'w \<Rightarrow> ('w, exc, pyval) step" where
  "member_method_object_old_new_handler env i m atom old new w =
     call_method env w (member_obj m i) (validate_context m) [atom, old, new]"

section \<open>Lemmas\<close>

lemma int_bound_PNone [simp]: "int_bound PNone cmp err = Inr ()"
  and float_bound_PNone [simp]: "float_bound PNone viol err = Inr ()"
  by (simp_all add: int_bound_def float_bound_def)

lemma int_bound_low:
  assumes "index_of l = Some a" and "index_of v = Some x"
  shows "int_bound l (\<lambda>l. rich_gt l v) err = (if x < a then Inl err else Inr ())"
proof -
  have "rich_gt l v = Inr (x < a)"
    using assms by (simp add: rich_gt_def index_of_numval)
  with index_of_not_None [OF assms(1)] show ?thesis by (simp add: int_bound_def)
qed

lemma int_bound_high:
  assumes "index_of h = Some b" and "index_of v = Some x"
  shows "int_bound h (\<lambda>h. rich_lt h v) err = (if b < x then Inl err else Inr ())"
proof -
  have "rich_lt h v = Inr (b < x)"
    using assms by (simp add: rich_lt_def index_of_numval)
  with index_of_not_None [OF assms(1)] show ?thesis by (simp add: int_bound_def)
qed

lemma float_bound_never:
  "(\<And>x. \<not> viol x) \<Longrightarrow> b = PNone \<or> PyFloat_Check b \<Longrightarrow> float_bound b viol e = Inr ()"
  by (auto simp: float_bound_def elim: PyFloat_Check.elims)

text \<open>
  C5.  Range: with the context \<open>check_context\<close> accepts, an int (or a bool) is accepted
  exactly when it lies within the configured bounds; the low bound is tested first.
\<close>

theorem range_handler_bounds:
  assumes ctx: "validate_context m = PTuple [lo, hi]"
    and lo: "lo = PNone \<or> index_of lo = Some a"
    and hi: "hi = PNone \<or> index_of hi = Some b"
    and v: "index_of v = Some x"
  shows "range_handler m atom v =
           (if lo \<noteq> PNone \<and> x < a then Inl too_small
            else if hi \<noteq> PNone \<and> b < x then Inl too_large
            else Inr v)"
proof -
  have pl: "PyLong_Check v" using v index_of_Some_iff by blast
  show ?thesis
    using lo hi
    by (auto simp: range_handler_def ctx pl int_bound_low [OF _ v] int_bound_high [OF _ v])
qed

text \<open>
  C8.  Typed (the exact-type check of the spec) accepts every instance of a subclass of
  the configured type, not only instances of the type itself: \<open>PyObject_TypeCheck\<close>
  is the subtype test.
\<close>

theorem typed_handler_subtype:
  assumes "validate_context m = PType t" and "v \<noteq> PNone"
  shows "typed_handler ct m atom v =
           (if type_of v = t \<or> is_subtype ct (type_of v) t then Inr v
            else Inl (validate_type_fail m atom v (tp_name t)))"
  using assms by (simp add: typed_handler_def PyObject_TypeCheck_def)

text \<open>
  C9.  FloatRange accepts NaN whatever the bounds: both comparisons with NaN are false,
  so neither "too small" nor "too large" is raised.
\<close>

theorem float_range_accepts_nan:
  assumes "validate_context m = PTuple [lo, hi]"
    and "lo = PNone \<or> PyFloat_Check lo" and "hi = PNone \<or> PyFloat_Check hi"
  shows "float_range_handler m atom (PFloat NaN) = Inr (PFloat NaN)"
  using assms by (simp add: float_range_handler_def float_bound_never)

text \<open>
  An object that is neither a type, nor a tuple, nor an instance of a user class (so
  it has no \<open>__instancecheck__\<close>, no \<open>__subclasscheck__\<close> and no \<open>__bases__\<close>:
  \<open>None\<close>, a bool, an int, a float, a str, bytes, a list, a dict, a function, a
  Member) is refused as the class argument.
\<close>

lemma isinstance_non_class:
  assumes "\<not> PyType_Check c" and "\<not> PyTuple_Check c" and "\<forall>s k. c \<noteq> PObj (TUser s) k"
  shows "PyObject_IsInstance ct v c = Inl isinstance_arg_error"
proof (cases c)
  case (PObj t k)
  with assms(3) show ?thesis by (cases t) (simp_all add: PyObject_IsInstance_def)
qed (use assms in \<open>simp_all add: PyObject_IsInstance_def\<close>)

text \<open>
  C10.  \<open>check_context\<close> does not look at the context of an Instance member: a context
  that is neither a type, nor a tuple, nor an object of a user class that could answer
  \<open>isinstance\<close> (an int, a str, \<open>None\<close>, ...) passes at declaration, and every later
  write of a value other than None then fails inside \<open>PyObject_IsInstance\<close>.
\<close>

theorem instance_context_unchecked:
  assumes "validate_context m = c" and "\<not> PyType_Check c" and "\<not> PyTuple_Check c"
    and "\<forall>s k. c \<noteq> PObj (TUser s) k"
  shows "check_context ct (mode_byte VInstance) c = Inr () \<and>
         (v \<noteq> PNone \<longrightarrow> instance_handler ct m v = Inl isinstance_arg_error)"
  using assms isinstance_non_class [OF assms(2-4), of ct v]
  by (simp add: check_context_def instance_handler_def)

text \<open>
  C16.  FloatPromote returns a float unchanged (the spec's idempotence), converts an int
  below \<open>2 ^ 53\<close> in magnitude exactly, and fails with \<open>OverflowError\<close> from
  \<open>2 ^ 1024\<close> on, where the rounded value no longer fits a double.
\<close>

theorem float_promote_int:
  "float_promote_handler m atom (PFloat x) = Inr (PFloat x) \<and>
   (\<bar>n\<bar> < 2 ^ 53 \<longrightarrow> float_promote_handler m atom (PInt n) = Inr (PFloat (Fin (of_int n)))) \<and>
   (2 ^ 1024 \<le> \<bar>n\<bar> \<longrightarrow>
      float_promote_handler m atom (PInt n) =
        Inl (PyExc OverflowError (ustr ''int too large to convert to float'')))"
proof (intro conjI impI)
  show "float_promote_handler m atom (PFloat x) = Inr (PFloat x)"
    by (simp add: float_promote_handler_def)
next
  assume "\<bar>n\<bar> < 2 ^ 53"
  then have "nat \<bar>n\<bar> < 2 ^ 53" by (simp add: nat_less_iff)
  then show "float_promote_handler m atom (PInt n) = Inr (PFloat (Fin (of_int n)))"
    by (simp add: float_promote_handler_def PyLong_AsDouble_def round_mag_small sgn_mult_abs)
next
  assume "2 ^ 1024 \<le> \<bar>n\<bar>"
  then have "2 ^ 1024 \<le> nat \<bar>n\<bar>" by (simp add: le_nat_iff)
  then have "2 ^ 1024 \<le> round_mag (nat \<bar>n\<bar>)" by (rule round_mag_big)
  then show "float_promote_handler m atom (PInt n) =
               Inl (PyExc OverflowError (ustr ''int too large to convert to float''))"
    by (simp add: float_promote_handler_def PyLong_AsDouble_def)
qed

text \<open>
  C17.  IntPromote turns a finite float into the int obtained by truncation toward
  zero: the one int no larger in magnitude, less than one away, and of the same sign;
  NaN raises \<open>ValueError\<close> and infinity \<open>OverflowError\<close>.
\<close>

theorem long_promote_float:
  "(long_promote_handler m atom (PFloat (Fin r)) = Inr (PInt t) \<longleftrightarrow>
      \<bar>of_int t\<bar> \<le> \<bar>r\<bar> \<and> \<bar>r - of_int t\<bar> < 1 \<and> 0 \<le> of_int t * r) \<and>
   long_promote_handler m atom (PFloat NaN) =
     Inl (PyExc ValueError (ustr ''cannot convert float NaN to integer'')) \<and>
   long_promote_handler m atom (PFloat PosInf) =
     Inl (PyExc OverflowError (ustr ''cannot convert float infinity to integer''))"
  by (simp add: long_promote_handler_def PyLong_FromDouble_def trunc_rat_iff)

text \<open>
  C18.  BytesPromote followed by StrPromote gives back the string, for every string
  without a NUL that UTF-8 can encode.
\<close>

theorem str_promote_roundtrip:
  assumes "bytes_promote_handler m atom (PStr s) = Inr (PBytes bs)" and "0 \<notin> set s"
  shows "str_promote_handler m atom (PBytes bs) = Inr (PStr s)"
proof -
  from assms(1) have e: "utf8_encode s = Some bs"
    by (auto simp: bytes_promote_handler_def PyUnicode_AsUTF8String_def split: option.splits)
  then have "0 \<notin> set bs" using assms(2) utf8_encode_zero by blast
  with e show ?thesis
    by (simp add: str_promote_handler_def PyUnicode_FromString_def c_string_no_nul utf8_roundtrip)
qed

text \<open>
  C19.  StrPromote reads the bytes as a C string: everything from the first zero byte
  on is dropped, as the spec's design note warns.
\<close>

theorem str_promote_truncates:
  "0 \<notin> set bs1 \<Longrightarrow>
     str_promote_handler m atom (PBytes (bs1 @ 0 # bs2)) = str_promote_handler m atom (PBytes bs1)"
  by (simp add: str_promote_handler_def PyUnicode_FromString_def c_string_nul c_string_no_nul)

lemma float_promote_PInt:
  "float_promote_handler m atom (PInt n) =
     (case PyLong_AsDouble n of Inl e \<Rightarrow> Inl e | Inr d \<Rightarrow> Inr (PFloat d))"
  by (simp add: float_promote_handler_def)

text \<open>
  C30.  FloatPromote rounds an int correctly: the float it returns is a multiple of the
  unit in the last place of a 53-bit significand, \<open>2 ^ (bitlen \<bar>n\<bar> - 53)\<close>, and lies
  within half a unit of the int.
\<close>

theorem float_promote_nearest:
  assumes "float_promote_handler m atom (PInt n) = Inr v"
  shows "\<exists>q. v = PFloat (Fin (of_int q * 2 ^ (bitlen (nat \<bar>n\<bar>) - 53))) \<and>
             \<bar>of_int q * 2 ^ (bitlen (nat \<bar>n\<bar>) - 53) - of_int n\<bar> \<le> (2 ^ (bitlen (nat \<bar>n\<bar>) - 53) / 2 :: rat)"
proof -
  define s where "s = bitlen (nat \<bar>n\<bar>) - 53"
  define R where "R = round_mag (nat \<bar>n\<bar>)"
  have v: "v = PFloat (Fin (of_int (sgn n * int R)))"
    using assms by (simp add: float_promote_PInt PyLong_AsDouble_def Let_def R_def split: if_splits)
  have near: "R mod 2 ^ s = 0" "\<bar>int R - int (nat \<bar>n\<bar>)\<bar> \<le> int (2 ^ s div 2)"
    using round_mag_nearest [of "nat \<bar>n\<bar>"] by (simp_all add: R_def s_def)
  obtain c where c: "R = c * 2 ^ s" using near(1) by auto
  have "n = 0 \<Longrightarrow> R = 0" by (simp add: R_def round_mag_def bitlen.simps)
  then have "\<bar>sgn n * int R - n\<bar> = \<bar>int R - \<bar>n\<bar>\<bar>"
    by (cases "0 \<le> n") (auto simp: sgn_if abs_if algebra_simps)
  then have "\<bar>sgn n * int R - n\<bar> \<le> int (2 ^ s div 2)" using near(2) by simp
  then have "\<bar>of_int (sgn n * int R - n)\<bar> \<le> (of_int (int (2 ^ s div 2)) :: rat)"
    by (simp only: of_int_abs [symmetric] of_int_le_iff)
  moreover have "(of_int (int (2 ^ s div 2)) :: rat) \<le> 2 ^ s / 2"
  proof -
    have "2 * (2 ^ s div 2) \<le> (2::nat) ^ s" by simp
    then have "(of_nat (2 * (2 ^ s div 2)) :: rat) \<le> of_nat (2 ^ s)" by (simp only: of_nat_le_iff)
    then have "(2::rat) * of_nat (2 ^ s div 2) \<le> 2 ^ s" by (simp only: of_nat_mult of_nat_power of_nat_numeral)
    then show ?thesis by simp
  qed
  ultimately have b: "\<bar>of_int (sgn n * int R) - of_int n\<bar> \<le> (2 ^ s / 2 :: rat)" by simp
  have e: "of_int (sgn n * int R) = (of_int (sgn n * int c) * 2 ^ s :: rat)" by (simp add: c)
  show ?thesis unfolding s_def [symmetric]
  proof (intro exI conjI)
    show "v = PFloat (Fin (of_int (sgn n * int c) * 2 ^ s))" using v unfolding e .
    show "\<bar>of_int (sgn n * int c) * 2 ^ s - of_int n\<bar> \<le> (2 ^ s / 2 :: rat)" using b unfolding e .
  qed
qed

text \<open>
  C31.  The overflow threshold of FloatPromote is \<open>2 ^ 1024 - 2 ^ 970\<close>, half a unit
  below \<open>2 ^ 1024\<close>: an int of at least that magnitude rounds (the tie to even) to
  \<open>2 ^ 1024\<close> and fails with \<open>OverflowError\<close>; every smaller one becomes the float
  of its rounded magnitude with its sign.
\<close>

theorem float_promote_overflow:
  "float_promote_handler m atom (PInt n) =
     (if 2 ^ 1024 - 2 ^ 970 \<le> \<bar>n\<bar>
      then Inl (PyExc OverflowError (ustr ''int too large to convert to float''))
      else Inr (PFloat (Fin (of_int (sgn n * int (round_mag (nat \<bar>n\<bar>)))))))"
  by (simp only: float_promote_PInt PyLong_AsDouble_overflow) simp

text \<open>
  C38.  BytesPromote of a str fails exactly when the str holds a surrogate code
  point, with \<open>UnicodeEncodeError\<close>, and otherwise returns its UTF-8 encoding.
\<close>

theorem bytes_promote_surrogates:
  assumes "\<forall>c\<in>set s. c < 0x110000"
  shows "bytes_promote_handler m atom (PStr s) =
           (if \<exists>c\<in>set s. 0xD800 \<le> c \<and> c < 0xE000
            then Inl (PyExc UnicodeEncodeError (ustr ''surrogates not allowed''))
            else Inr (PBytes (the (utf8_encode s))))"
  using utf8_encode_None [OF assms]
  by (auto simp: bytes_promote_handler_def PyUnicode_AsUTF8String_def surrogate_def split: option.split)

end
