(* ===== verification/Dispatch.thy ===== *)
theory Dispatch
  imports Handlers
begin

text \<open>
  The part of the engine that re-enters the dispatcher: the container handlers
  \<open>tuple_handler\<close> (lines 286--310), \<open>common_list_handler\<close> with its two factories
  (lines 313--376), the dict helpers and \<open>dict_handler\<close> (lines 379--461) and
  \<open>delegate_handler\<close> (lines 595--600); \<open>Member::full_validate\<close> (in \<open>member.cpp\<close>,
  outside \<open>src/\<close>), and the dispatcher \<open>Member::validate\<close> (lines 692--698) with the
  table routing of \<open>Member\<close>.

  A container handler is written over the validator it calls for its items, so that
  the dispatcher can hand it itself.  The dispatcher carries fuel: each entry into
  \<open>validate\<close> spends one unit and \<open>None\<close> is the depth at which the C stack would
  overflow.  Member contexts may form cycles (a member delegating to itself), so no
  fuel is enough in general; \<open>validate_enough_fuel\<close> says how much is enough when the
  member graph is ranked.
\<close>

type_synonym 'w validator = "mid \<Rightarrow> pyval \<Rightarrow> pyval \<Rightarrow> pyval \<Rightarrow> 'w \<Rightarrow> ('w, exc, pyval) fstep"

text \<open>\<open>member_cast\<close> is a C cast: only a Member object is one.\<close>

fun member_cast :: "pyval \<Rightarrow> mid option" where
  "member_cast (PMember _ j) = Some j"
| "member_cast _ = None"

definition bad_cast :: exc where
  "bad_cast = Undefined ''member_cast of an object that is not a Member''"

definition dangling_member :: exc where
  "dangling_member = Undefined ''Member object outside the member store''"

definition past_end :: exc where
  "past_end = Undefined ''read past the end of handlers[]''"

section \<open>Container handlers\<close>

text \<open>The loop of \<open>tuple_handler\<close> and \<open>common_list_handler\<close>: every item through \<open>full_validate\<close>.\<close>

definition validate_items :: "'w validator \<Rightarrow> mid \<Rightarrow> pyval \<Rightarrow> pyval list \<Rightarrow> 'w \<Rightarrow> ('w, exc, pyval list) fstep" where
  "validate_items fv j atom items w = mapR (\<lambda>x w. fv j atom PNone x w) items w"

definition tuple_handler :: "'w validator \<Rightarrow> member \<Rightarrow> pyval \<Rightarrow> pyval \<Rightarrow> 'w \<Rightarrow> ('w, exc, pyval) fstep" where
  "tuple_handler fv m atom new w =
     (case new of
        PTuple items \<Rightarrow>
          (if validate_context m \<noteq> PNone then
             (case member_cast (validate_context m) of
                None \<Rightarrow> Some (w, Inl bad_cast)
              | Some j \<Rightarrow> bindR (validate_items fv j atom items w)
                            (\<lambda>w' ys. Some (w', Inr (PTuple ys))))
           else Some (w, Inr new))
      | _ \<Rightarrow> Some (w, Inl (validate_type_fail m atom new (ustr ''tuple''))))"

datatype list_factory = AtomListFactory | AtomCListFactory

text \<open>\<open>AtomList_New( size, atom, validator )\<close> and \<open>AtomCList_New( size, atom, validator, member )\<close>, filled.\<close>

definition make_list :: "list_factory \<Rightarrow> mid \<Rightarrow> pyval \<Rightarrow> mid option \<Rightarrow> pyval list \<Rightarrow> pyval" where
  "make_list f i atom validator items =
     (case f of
        AtomListFactory \<Rightarrow> PList (LAtom atom validator) items
      | AtomCListFactory \<Rightarrow> PList (LAtomC atom validator i) items)"

definition common_list_handler ::
  "list_factory \<Rightarrow> 'w validator \<Rightarrow> mid \<Rightarrow> member \<Rightarrow> pyval \<Rightarrow> pyval \<Rightarrow> 'w \<Rightarrow> ('w, exc, pyval) fstep" where
  "common_list_handler f fv i m atom new w =
     (case new of
        PList _ items \<Rightarrow>
          (if validate_context m \<noteq> PNone then
             (case member_cast (validate_context m) of
                None \<Rightarrow> Some (w, Inl bad_cast)
              | Some j \<Rightarrow> bindR (validate_items fv j atom items w)
                            (\<lambda>w' ys. Some (w', Inr (make_list f i atom (Some j) ys))))
           else Some (w, Inr (make_list f i atom None items)))
      | _ \<Rightarrow> Some (w, Inl (validate_type_fail m atom new (ustr ''list''))))"

text \<open>\<open>list_handler\<close> and \<open>container_list_handler\<close>: the two instances of the template.\<close>

definition list_handler ::
  "'w validator \<Rightarrow> mid \<Rightarrow> member \<Rightarrow> pyval \<Rightarrow> pyval \<Rightarrow> 'w \<Rightarrow> ('w, exc, pyval) fstep" where
  "list_handler fv i m atom new w = common_list_handler AtomListFactory fv i m atom new w"

definition container_list_handler ::
  "'w validator \<Rightarrow> mid \<Rightarrow> member \<Rightarrow> pyval \<Rightarrow> pyval \<Rightarrow> 'w \<Rightarrow> ('w, exc, pyval) fstep" where
  "container_list_handler fv i m atom new w = common_list_handler AtomCListFactory fv i m atom new w"

text \<open>
  The three dict loops: \<open>PyDict_Next\<close> over the input in order, each item validated
  (key first, then value) and stored with \<open>PyDict_SetItem\<close> into a new dict.
\<close>

definition set_item :: "'w \<Rightarrow> (pyval \<times> pyval) list \<Rightarrow> pyval \<Rightarrow> pyval \<Rightarrow> ('w, exc, (pyval \<times> pyval) list) fstep" where
  "set_item w acc k v = Some (w, PyDict_SetItem acc k v)"

definition as_dict :: "('w, exc, (pyval \<times> pyval) list) fstep \<Rightarrow> ('w, exc, pyval) fstep" where
  "as_dict r = bindR r (\<lambda>w' acc. Some (w', Inr (PDict acc)))"

definition validate_dict_key_value ::
  "'w validator \<Rightarrow> mid \<Rightarrow> mid \<Rightarrow> pyval \<Rightarrow> (pyval \<times> pyval) list \<Rightarrow> 'w \<Rightarrow> ('w, exc, pyval) fstep" where
  "validate_dict_key_value fv km vm atom d w =
     as_dict (foldR (\<lambda>acc (k, v) w.
                      bindR (fv km atom PNone k w) (\<lambda>w1 k'.
                      bindR (fv vm atom PNone v w1) (\<lambda>w2 v'. set_item w2 acc k' v'))) [] d w)"

definition validate_dict_value ::
  "'w validator \<Rightarrow> mid \<Rightarrow> pyval \<Rightarrow> (pyval \<times> pyval) list \<Rightarrow> 'w \<Rightarrow> ('w, exc, pyval) fstep" where
  "validate_dict_value fv vm atom d w =
     as_dict (foldR (\<lambda>acc (k, v) w.
                      bindR (fv vm atom PNone v w) (\<lambda>w1 v'. set_item w1 acc k v')) [] d w)"

definition validate_dict_key ::
  "'w validator \<Rightarrow> mid \<Rightarrow> pyval \<Rightarrow> (pyval \<times> pyval) list \<Rightarrow> 'w \<Rightarrow> ('w, exc, pyval) fstep" where
  "validate_dict_key fv km atom d w =
     as_dict (foldR (\<lambda>acc (k, v) w.
                      bindR (fv km atom PNone k w) (\<lambda>w1 k'. set_item w1 acc k' v)) [] d w)"

definition dict_handler :: "'w validator \<Rightarrow> member \<Rightarrow> pyval \<Rightarrow> pyval \<Rightarrow> 'w \<Rightarrow> ('w, exc, pyval) fstep" where
  "dict_handler fv m atom new w =
     (case new of
        PDict d \<Rightarrow>
          (case (tuple_get (validate_context m) 0, tuple_get (validate_context m) 1) of
             (Some k, Some v) \<Rightarrow>
               (if k \<noteq> PNone \<and> v \<noteq> PNone then
                  (case (member_cast k, member_cast v) of
                     (Some km, Some vm) \<Rightarrow> validate_dict_key_value fv km vm atom d w
                   | _ \<Rightarrow> Some (w, Inl bad_cast))
                else if v \<noteq> PNone then
                  (case member_cast v of
                     Some vm \<Rightarrow> validate_dict_value fv vm atom d w
                   | None \<Rightarrow> Some (w, Inl bad_cast))
                else if k \<noteq> PNone then
                  (case member_cast k of
                     Some km \<Rightarrow> validate_dict_key fv km atom d w
                   | None \<Rightarrow> Some (w, Inl bad_cast))
                else Some (w, Inr (PDict d)))
           | _ \<Rightarrow> Some (w, Inl unchecked_item))
      | _ \<Rightarrow> Some (w, Inl (validate_type_fail m atom new (ustr ''dict''))))"

definition delegate_handler :: "'w validator \<Rightarrow> member \<Rightarrow> pyval \<Rightarrow> pyval \<Rightarrow> pyval \<Rightarrow> 'w \<Rightarrow> ('w, exc, pyval) fstep" where
  "delegate_handler vd m atom old new w =
     (case member_cast (validate_context m) of
        Some j \<Rightarrow> vd j atom old new w
      | None \<Rightarrow> Some (w, Inl bad_cast))"

section \<open>full_validate and the dispatcher\<close>

text \<open>
  \<open>Member::full_validate\<close>: \<open>validate\<close> when the validate mode is not \<open>NoOp\<close>, then
  \<open>post_validate\<close> when the post-validate mode is not \<open>NoOp\<close>.
\<close>

definition full_validate_with :: "'w validator \<Rightarrow> 'w pyenv \<Rightarrow> 'w validator" where
  "full_validate_with vd env j atom old new w =
     (case member_of env j of
        None \<Rightarrow> Some (w, Inl dangling_member)
      | Some m \<Rightarrow>
          bindR (if validate_mode m \<noteq> 0 then vd j atom old new w else Some (w, Inr new))
            (\<lambda>w1 r. if post_validate_mode m \<noteq> 0 then Some (post_validate env w1 j atom old r)
                    else Some (w1, Inr r)))"

text \<open>The body of \<open>handlers[ mode ]( this, atom, oldvalue, newvalue )\<close>.\<close>

definition run_handler ::
  "'w validator \<Rightarrow> 'w pyenv \<Rightarrow> mid \<Rightarrow> member \<Rightarrow> handler \<Rightarrow> pyval \<Rightarrow> pyval \<Rightarrow> pyval \<Rightarrow> 'w
     \<Rightarrow> ('w, exc, pyval) fstep" where
  "run_handler vd env i m h atom old new w =
     (let fv = full_validate_with vd env; ct = classes env in
      case h of
        HNoOp \<Rightarrow> Some (w, no_op_handler new)
      | HBool \<Rightarrow> Some (w, bool_handler m atom new)
      | HLong \<Rightarrow> Some (w, long_handler m atom new)
      | HLongPromote \<Rightarrow> Some (w, long_promote_handler m atom new)
      | HFloat \<Rightarrow> Some (w, float_handler m atom new)
      | HFloatPromote \<Rightarrow> Some (w, float_promote_handler m atom new)
      | HBytes \<Rightarrow> Some (w, bytes_handler m atom new)
      | HBytesPromote \<Rightarrow> Some (w, bytes_promote_handler m atom new)
      | HStr \<Rightarrow> Some (w, str_handler m atom new)
      | HStrPromote \<Rightarrow> Some (w, str_promote_handler m atom new)
      | HTuple \<Rightarrow> tuple_handler fv m atom new w
      | HList \<Rightarrow> list_handler fv i m atom new w
      | HContainerList \<Rightarrow> container_list_handler fv i m atom new w
      | HDict \<Rightarrow> dict_handler fv m atom new w
      | HInstance \<Rightarrow> Some (w, instance_handler ct m new)
      | HTyped \<Rightarrow> Some (w, typed_handler ct m atom new)
      | HSubclass \<Rightarrow> Some (w, subclass_handler ct m new)
      | HEnum \<Rightarrow> Some (enum_handler env m new w)
      | HCallable \<Rightarrow> Some (w, callable_handler ct m atom new)
      | HFloatRange \<Rightarrow> Some (w, float_range_handler m atom new)
      | HRange \<Rightarrow> Some (w, range_handler m atom new)
      | HCoerced \<Rightarrow> Some (coerced_handler env m new w)
      | HDelegate \<Rightarrow> delegate_handler vd m atom old new w
      | HObjectMethodOldNew \<Rightarrow> Some (object_method_old_new_handler env m atom old new w)
      | HObjectMethodNameOldNew \<Rightarrow> Some (object_method_name_old_new_handler env m atom old new w)
      | HMemberMethodObjectOldNew \<Rightarrow>
          Some (member_method_object_old_new_handler env i m atom old new w))"

text \<open>\<open>Member::validate\<close>, with the fuel of the C stack.\<close>

fun validate :: "'w pyenv \<Rightarrow> nat \<Rightarrow> 'w validator" where
  "validate env 0 i atom old new w = None"
| "validate env (Suc n) i atom old new w =
     (case member_of env i of
        None \<Rightarrow> Some (w, Inl dangling_member)
      | Some m \<Rightarrow>
          (case select_handler (validate_mode m) of
             None \<Rightarrow> Some (w, Inl past_end)
           | Some h \<Rightarrow> run_handler (validate env n) env i m h atom old new w))"

definition full_validate :: "'w pyenv \<Rightarrow> nat \<Rightarrow> 'w validator" where
  "full_validate env n = full_validate_with (validate env n) env"


section \<open>The member graph and the fuel\<close>

text \<open>
  The members a context names: the Member itself, or the Members among the items
  of a tuple.  A member graph is ranked when every member names only members of
  lower rank; a cycle (a member delegating, directly or not, to itself) has no
  ranking.
\<close>

fun ctx_refs :: "pyval \<Rightarrow> mid list" where
  "ctx_refs (PMember _ j) = [j]"
| "ctx_refs (PTuple xs) = List.map_filter member_cast xs"
| "ctx_refs _ = []"

definition ranked :: "'w pyenv \<Rightarrow> (mid \<Rightarrow> nat) \<Rightarrow> bool" where
  "ranked env rank \<longleftrightarrow>
     list_all (\<lambda>(i, m). list_all (\<lambda>j. rank j < rank i) (ctx_refs (validate_context m))) (members env)"

text \<open>\<open>vext vd vd'\<close>: the validator \<open>vd'\<close> extends \<open>vd\<close>; \<open>vtotal vd S\<close>: \<open>vd\<close> returns for every member of \<open>S\<close>.\<close>

definition vext :: "'w validator \<Rightarrow> 'w validator \<Rightarrow> bool" where
  "vext vd vd' \<longleftrightarrow> (\<forall>j a ov nv w. fext (vd j a ov nv w) (vd' j a ov nv w))"

definition vtotal :: "'w validator \<Rightarrow> mid set \<Rightarrow> bool" where
  "vtotal vd S \<longleftrightarrow> (\<forall>j\<in>S. \<forall>a ov nv w. returns (vd j a ov nv w))"


section \<open>More fuel never changes a result\<close>

lemma vextD: "vext vd vd' \<Longrightarrow> fext (vd j a ov nv w) (vd' j a ov nv w)"
  by (simp add: vext_def)

lemma full_validate_with_fext:
  "vext vd vd' \<Longrightarrow> vext (full_validate_with vd env) (full_validate_with vd' env)"
  unfolding vext_def full_validate_with_def
  by (auto split: option.split intro!: bindR_fext)

lemma validate_items_fext:
  assumes "vext fv fv'"
  shows "fext (validate_items fv j atom items w) (validate_items fv' j atom items w)"
  unfolding validate_items_def by (auto intro!: mapR_fext vextD [OF assms])

lemma tuple_handler_fext:
  "vext fv fv' \<Longrightarrow> fext (tuple_handler fv m atom new w) (tuple_handler fv' m atom new w)"
  unfolding tuple_handler_def
  by (cases new) (auto split: option.split intro!: bindR_fext validate_items_fext)

lemma common_list_handler_fext:
  "vext fv fv' \<Longrightarrow> fext (common_list_handler f fv i m atom new w) (common_list_handler f fv' i m atom new w)"
  unfolding common_list_handler_def
  by (cases new) (auto split: option.split intro!: bindR_fext validate_items_fext)

lemma dict_loops_fext:
  assumes v: "vext fv fv'"
  shows "fext (validate_dict_key_value fv km vm atom d w) (validate_dict_key_value fv' km vm atom d w)"
    and "fext (validate_dict_value fv vm atom d w) (validate_dict_value fv' vm atom d w)"
    and "fext (validate_dict_key fv km atom d w) (validate_dict_key fv' km atom d w)"
  unfolding validate_dict_key_value_def validate_dict_value_def validate_dict_key_def as_dict_def
  subgoal by (rule bindR_fext, rule foldR_fext) (auto split: prod.split intro!: bindR_fext vextD [OF v])
  subgoal by (rule bindR_fext, rule foldR_fext) (auto split: prod.split intro!: bindR_fext vextD [OF v])
  subgoal by (rule bindR_fext, rule foldR_fext) (auto split: prod.split intro!: bindR_fext vextD [OF v])
  done

lemma dict_handler_fext:
  assumes "vext fv fv'"
  shows "fext (dict_handler fv m atom new w) (dict_handler fv' m atom new w)"
proof (cases new)
  case (PDict d)
  show ?thesis
    unfolding dict_handler_def PDict
    by (simp add: dict_loops_fext [OF assms] split: option.split)
qed (simp_all add: dict_handler_def)

lemma delegate_handler_fext:
  "vext vd vd' \<Longrightarrow> fext (delegate_handler vd m atom old new w) (delegate_handler vd' m atom old new w)"
  unfolding delegate_handler_def by (simp add: vextD split: option.split)

lemma run_handler_fext:
  assumes v: "vext vd vd'"
  shows "fext (run_handler vd env i m h atom old new w) (run_handler vd' env i m h atom old new w)"
proof -
  have fv: "vext (full_validate_with vd env) (full_validate_with vd' env)"
    using v by (rule full_validate_with_fext)
  show ?thesis
    by (cases h) (simp_all add: run_handler_def list_handler_def container_list_handler_def Let_def
        tuple_handler_fext [OF fv]
        common_list_handler_fext [OF fv] dict_handler_fext [OF fv] delegate_handler_fext [OF v]
        vextD [OF v])
qed

lemma validate_fext_Suc: "vext (validate env n) (validate env (Suc n))"
proof (induction n)
  case 0
  show ?case by (simp add: vext_def)
next
  case (Suc n)
  show ?case
    unfolding vext_def
  proof (intro allI)
    fix j a ov nv w
    have step: "\<And>m h. fext (run_handler (validate env n) env j m h a ov nv w)
                          (run_handler (validate env (Suc n)) env j m h a ov nv w)"
      by (rule run_handler_fext [OF Suc.IH])
    show "fext (validate env (Suc n) j a ov nv w) (validate env (Suc (Suc n)) j a ov nv w)"
      unfolding validate.simps(2) [of env n j a ov nv w] validate.simps(2) [of env "Suc n" j a ov nv w]
      using step by (simp split: option.split)
  qed
qed

text \<open>
  More fuel never changes a result: a validation that returns with some fuel returns
  the same state and the same value or exception with any larger fuel, so the fuel
  of \<open>validate_enough_fuel\<close> is as good as any larger one.
\<close>

lemma validate_mono:
  assumes "validate env n i atom old new w = Some r" and "n \<le> n'"
  shows "validate env n' i atom old new w = Some r"
  using assms(2,1)
proof (induction n' rule: dec_induct)
  case base
  then show ?case by simp
next
  case (step k)
  with vextD [OF validate_fext_Suc, of env k i atom old new w] show ?case by simp
qed


section \<open>Enough fuel for a ranked member graph\<close>

lemma rankedD:
  "ranked env rank \<Longrightarrow> member_of env i = Some m \<Longrightarrow> j \<in> set (ctx_refs (validate_context m)) \<Longrightarrow> rank j < rank i"
  unfolding ranked_def member_of_def
  by (drule map_of_SomeD) (fastforce simp: list_all_iff)

lemma vtotalD: "vtotal vd S \<Longrightarrow> j \<in> S \<Longrightarrow> returns (vd j a ov nv w)"
  by (simp add: vtotal_def)

lemma member_cast_refs: "member_cast v = Some j \<Longrightarrow> j \<in> set (ctx_refs v)"
  by (cases v) simp_all

lemma tuple_get_refs:
  "tuple_get ctx i = Some k \<Longrightarrow> member_cast k = Some j \<Longrightarrow> j \<in> set (ctx_refs ctx)"
  by (cases ctx) (auto simp: map_filter_def split: if_splits intro!: image_eqI [of _ _ k])

lemma full_validate_with_total:
  "vtotal vd S \<Longrightarrow> vtotal (full_validate_with vd env) S"
  unfolding vtotal_def full_validate_with_def
  by (auto split: option.split intro!: returns_bindR)

lemma validate_items_total:
  "vtotal fv S \<Longrightarrow> j \<in> S \<Longrightarrow> returns (validate_items fv j atom items w)"
  unfolding validate_items_def by (auto intro!: mapR_returns vtotalD)

lemma tuple_handler_total:
  "vtotal fv (set (ctx_refs (validate_context m))) \<Longrightarrow> returns (tuple_handler fv m atom new w)"
  unfolding tuple_handler_def
  by (cases new) (auto split: option.split intro!: returns_bindR validate_items_total member_cast_refs)

lemma common_list_handler_total:
  "vtotal fv (set (ctx_refs (validate_context m))) \<Longrightarrow> returns (common_list_handler f fv i m atom new w)"
  unfolding common_list_handler_def
  by (cases new) (auto split: option.split intro!: returns_bindR validate_items_total member_cast_refs)

lemma dict_loops_total:
  assumes "vtotal fv S"
  shows "km \<in> S \<Longrightarrow> vm \<in> S \<Longrightarrow> returns (validate_dict_key_value fv km vm atom d w)"
    and "vm \<in> S \<Longrightarrow> returns (validate_dict_value fv vm atom d w)"
    and "km \<in> S \<Longrightarrow> returns (validate_dict_key fv km atom d w)"
  unfolding validate_dict_key_value_def validate_dict_value_def validate_dict_key_def as_dict_def
  subgoal by (rule returns_bindR, rule foldR_returns)
                (auto simp: set_item_def split: prod.split intro!: returns_bindR vtotalD [OF assms])
  subgoal by (rule returns_bindR, rule foldR_returns)
                (auto simp: set_item_def split: prod.split intro!: returns_bindR vtotalD [OF assms])
  subgoal by (rule returns_bindR, rule foldR_returns)
                (auto simp: set_item_def split: prod.split intro!: returns_bindR vtotalD [OF assms])
  done

lemma dict_handler_total:
  assumes t: "vtotal fv (set (ctx_refs (validate_context m)))"
  shows "returns (dict_handler fv m atom new w)"
proof (cases new)
  case (PDict d)
  show ?thesis
    unfolding dict_handler_def PDict
    by (auto split: option.split intro!: dict_loops_total [OF t] dest: tuple_get_refs)
qed (simp_all add: dict_handler_def)

lemma run_handler_total:
  assumes t: "vtotal vd (set (ctx_refs (validate_context m)))"
  shows "returns (run_handler vd env i m h atom old new w)"
proof -
  have ft: "vtotal (full_validate_with vd env) (set (ctx_refs (validate_context m)))"
    using t by (rule full_validate_with_total)
  have dt: "returns (delegate_handler vd m atom old new w)"
    unfolding delegate_handler_def
    by (auto split: option.split intro: vtotalD [OF t] member_cast_refs)
  show ?thesis
    by (cases h) (simp_all add: run_handler_def list_handler_def container_list_handler_def Let_def
        tuple_handler_total [OF ft]
        common_list_handler_total [OF ft] dict_handler_total [OF ft] dt)
qed

text \<open>
  C1.  Termination of the dispatcher: when the member graph is ranked (every member
  names only members of lower rank), \<open>validate\<close> returns on every input, for every
  interpreter state, once its fuel exceeds the rank of the member.
\<close>

theorem validate_enough_fuel:
  assumes "ranked env rank" and "rank i < n"
  shows "returns (validate env n i atom old new w)"
  using assms(2)
proof (induction n arbitrary: i atom old new w)
  case 0
  then show ?case by simp
next
  case (Suc n)
  show ?case
  proof (cases "member_of env i")
    case None
    then show ?thesis by simp
  next
    case (Some m)
    have "vtotal (validate env n) (set (ctx_refs (validate_context m)))"
      unfolding vtotal_def
    proof (intro ballI allI)
      fix j a ov nv w
      assume "j \<in> set (ctx_refs (validate_context m))"
      with rankedD [OF assms(1) Some] Suc.prems have "rank j < n" by fastforce
      then show "returns (validate env n j a ov nv w)" by (rule Suc.IH)
    qed
    then have "returns (run_handler (validate env n) env i m h atom old new w)" for h
      by (rule run_handler_total)
    with Some show ?thesis by (simp split: option.split)
  qed
qed

text \<open>The dispatcher on a member whose mode selects a handler of the table.\<close>

lemma validate_Suc_handler:
  assumes "member_of env i = Some m" and "select_handler (validate_mode m) = Some h"
  shows "validate env (Suc n) i atom old new w = run_handler (validate env n) env i m h atom old new w"
  using assms by simp

text \<open>
  C7.  An Int (or Long) member accepts a bool unchanged: the handler tests
  \<open>PyLong_Check\<close>, which is true of bools, where the spec asks for the exact kind.
\<close>

theorem validate_int_accepts_bool:
  assumes "member_of env i = Some m" and "validate_mode m = mode_byte VInt"
  shows "validate env (Suc n) i atom old (PBool b) w = Some (w, Inr (PBool b))"
proof -
  have "select_handler (validate_mode m) = Some HLong"
    using assms(2) by (simp add: select_handler_at mode_byte_def modes_def handlers_def)
  with assms(1) show ?thesis
    by (simp add: validate_Suc_handler run_handler_def long_handler_def)
qed

text \<open>
  C6.  A Delegate member forwards the whole call to the member its context names: with
  one more unit of fuel it returns exactly what that member's validator returns, the
  same value, error and interpreter state.
\<close>

theorem validate_delegate:
  assumes "member_of env i = Some m" and "validate_mode m = mode_byte VDelegate"
    and "validate_context m = PMember c j"
  shows "validate env (Suc n) i atom old new w = validate env n j atom old new w"
proof -
  have "select_handler (validate_mode m) = Some HDelegate"
    using assms(2) by (simp add: select_handler_at mode_byte_def modes_def handlers_def)
  with assms(1,3) show ?thesis
    by (simp add: validate_Suc_handler run_handler_def delegate_handler_def)
qed

lemma select_mode_byte: "select_handler (mode_byte v) = Some (mode_handler v)"
  using mode_of_mode_byte [of v]
  by (auto simp: mode_of_def select_handler_at handlers_modes split: if_splits)

text \<open>
  C3.  Section 4.6's defensive default, where the code has it: a mode byte of 240 or
  more, at or past \<open>sizeof( handlers )\<close>, runs \<open>no_op_handler\<close>, which accepts the value
  unchanged (the bytes 30 to 239 read past the table instead, C4).
\<close>

theorem validate_unknown_mode_noop:
  assumes "member_of env i = Some m" and "240 \<le> unat (validate_mode m)"
  shows "validate env (Suc n) i atom old new w = Some (w, Inr new)"
proof -
  have "select_handler (validate_mode m) = Some HNoOp"
    using assms(2) by (simp add: select_handler_def sizeof_handlers_def handlers_def)
  with assms(1) show ?thesis by (simp add: run_handler_def no_op_handler_def)
qed

end
