(* ===== verification/Safety.thy ===== *)
theory Safety
  imports Dispatch
begin

text \<open>
  Absence of undefined behaviour.  The C code of \<open>validatebehavior.cpp\<close> relies on
  \<open>Member::check_context\<close> having checked the shape of every context at declaration:
  the handlers then cast and index the context with unchecked macros
  (\<open>PyTuple_GET_ITEM\<close>, \<open>PyFloat_AS_DOUBLE\<close>, \<open>pytype_cast\<close>, \<open>member_cast\<close>), which the
  model marks with the exception \<open>Undefined\<close>.  This theory shows that no validation
  reaches one of them when every member of the store has a mode of the catalog and a
  context \<open>check_context\<close> accepts, names only members of the store, and user code
  raises only Python exceptions.
\<close>

section \<open>Defined outcomes\<close>

definition safe_exc :: "exc \<Rightarrow> bool" where
  "safe_exc e \<longleftrightarrow> (case e of PyExc _ _ \<Rightarrow> True | Undefined _ \<Rightarrow> False)"

definition safe_res :: "'a pyres \<Rightarrow> bool" where
  "safe_res r \<longleftrightarrow> (case r of Inl e \<Rightarrow> safe_exc e | Inr _ \<Rightarrow> True)"

text \<open>Running out of fuel is not undefined behaviour of the handlers: \<open>validate_enough_fuel\<close> rules it out separately.\<close>

definition safe :: "('w, exc, 'a) fstep \<Rightarrow> bool" where
  "safe r \<longleftrightarrow> (case r of None \<Rightarrow> True | Some (_, x) \<Rightarrow> safe_res x)"

definition hooks_safe :: "'w pyenv \<Rightarrow> bool" where
  "hooks_safe env \<longleftrightarrow>
     (\<forall>w f args. safe_res (snd (py_call env w f args))) \<and>
     (\<forall>w obj s. safe_res (snd (py_getattr env w obj s))) \<and>
     (\<forall>w s v. safe_res (snd (py_contains env w s v))) \<and>
     (\<forall>w j a old new. safe_res (snd (post_validate env w j a old new)))"

text \<open>A member as \<open>Member\<close> objects are declared: a mode of the catalog, a context the
  checker accepts, and only members of the store named in it.\<close>

definition member_ok :: "'w pyenv \<Rightarrow> member \<Rightarrow> bool" where
  "member_ok env m \<longleftrightarrow>
     mode_of (validate_mode m) \<noteq> None \<and>
     check_context (classes env) (validate_mode m) (validate_context m) = Inr () \<and>
     list_all (\<lambda>j. member_of env j \<noteq> None) (ctx_refs (validate_context m))"

definition wf_env :: "'w pyenv \<Rightarrow> bool" where
  "wf_env env \<longleftrightarrow> list_all (\<lambda>(i, m). member_ok env m) (members env)"

definition vsafe :: "'w validator \<Rightarrow> mid set \<Rightarrow> bool" where
  "vsafe vd S \<longleftrightarrow> (\<forall>j\<in>S. \<forall>a ov nv w. safe (vd j a ov nv w))"

section \<open>Lemmas\<close>

named_theorems safe_simps "handlers whose errors are all Python exceptions"

lemma safe_exc_simps [simp]: "safe_exc (PyExc k s)" "\<not> safe_exc (Undefined u)"
  by (simp_all add: safe_exc_def)

lemma safe_res_simps [simp]: "safe_res (Inr x)" "safe_res (Inl e) \<longleftrightarrow> safe_exc e"
  by (simp_all add: safe_res_def)

lemma safe_simps_opt [simp]: "safe None" "safe (Some (w, x)) \<longleftrightarrow> safe_res x"
  by (simp_all add: safe_def)

lemma safe_Some: "safe (Some s) \<longleftrightarrow> safe_res (snd s)"
  by (cases s) simp

lemma safe_bindR:
  assumes "safe r" and "\<And>w a. safe (f w a)"
  shows "safe (bindR r f)"
proof (cases r)
  case (Some s)
  with assms show ?thesis
    by (cases s) (auto simp: bindR_def safe_res_def split: sum.splits)
qed simp

lemma safe_mapR: "(\<And>x w. x \<in> set xs \<Longrightarrow> safe (f x w)) \<Longrightarrow> safe (mapR f xs w)"
  by (induction xs arbitrary: w) (auto intro!: safe_bindR)

lemma safe_foldR: "(\<And>acc x w. x \<in> set xs \<Longrightarrow> safe (f acc x w)) \<Longrightarrow> safe (foldR f acc xs w)"
  by (induction xs arbitrary: acc w) (auto intro!: safe_bindR)

lemma vsafeD: "vsafe vd S \<Longrightarrow> j \<in> S \<Longrightarrow> safe (vd j a ov nv w)"
  by (simp add: vsafe_def)

lemma hooks_safeD:
  assumes "hooks_safe env"
  shows "safe_res (snd (py_call env w f args))" "safe_res (snd (py_getattr env w obj s))"
    "safe_res (snd (py_contains env w sq v))" "safe_res (snd (post_validate env w j a old new))"
  using assms by (simp_all add: hooks_safe_def)

lemma hooks_InlD:
  assumes "hooks_safe env"
  shows "py_call env w f args = (w', Inl e) \<Longrightarrow> safe_exc e"
    and "py_getattr env w obj s = (w', Inl e) \<Longrightarrow> safe_exc e"
    and "py_contains env w sq v = (w', Inl e) \<Longrightarrow> safe_exc e"
    and "post_validate env w j a old new = (w', Inl e) \<Longrightarrow> safe_exc e"
proof -
  show "py_call env w f args = (w', Inl e) \<Longrightarrow> safe_exc e"
    using hooks_safeD(1) [OF assms, of w f args] by simp
  show "py_getattr env w obj s = (w', Inl e) \<Longrightarrow> safe_exc e"
    using hooks_safeD(2) [OF assms, of w obj s] by simp
  show "py_contains env w sq v = (w', Inl e) \<Longrightarrow> safe_exc e"
    using hooks_safeD(3) [OF assms, of w sq v] by simp
  show "post_validate env w j a old new = (w', Inl e) \<Longrightarrow> safe_exc e"
    using hooks_safeD(4) [OF assms, of w j a old new] by simp
qed

lemma user_check_safe [safe_simps]: "safe_res (user_check r)"
  by (simp add: user_check_def split: sum.split prod.split)

lemma isinstance_in_safe:
  "safe_res (isinstance_in ct v c)" "safe_res (isinstance_any ct v cs)"
  by (induction ct v c and ct v cs rule: isinstance_in_isinstance_any.induct)
     (auto simp: isinstance_arg_error_def user_check_safe split: sum.split bool.split)

lemma issubclass_in_safe:
  "safe_res (issubclass_in ct v c)" "safe_res (issubclass_any ct v cs)"
  by (induction ct v c and ct v cs rule: issubclass_in_issubclass_any.induct)
     (auto simp: issubclass_arg1_error_def issubclass_arg2_error_def user_check_safe
           split: sum.split bool.split pyval.split)

lemma isinstance_safe [safe_simps]: "safe_res (PyObject_IsInstance ct v c)"
  by (simp add: PyObject_IsInstance_def isinstance_in_safe)

lemma issubclass_safe [safe_simps]: "safe_res (PyObject_IsSubclass ct v c)"
  by (simp add: PyObject_IsSubclass_def issubclass_in_safe)

lemma conversions_safe [safe_simps]:
  "safe_res (PyLong_FromDouble d)" "safe_res (PyLong_AsDouble n)"
  "safe_res (PyUnicode_AsUTF8String u)" "safe_res (PyUnicode_FromString bs)"
  by (simp_all add: PyLong_FromDouble_def PyLong_AsDouble_def PyUnicode_AsUTF8String_def
                    PyUnicode_FromString_def Let_def split: pyfloat.split option.split)

lemma safe_res_InlD: "safe_res r \<Longrightarrow> r = Inl e \<Longrightarrow> safe_exc e"
  by simp

lemma scalar_handlers_safe [safe_simps]:
  "safe_res (no_op_handler new)" "safe_res (bool_handler m atom new)"
  "safe_res (long_handler m atom new)" "safe_res (long_promote_handler m atom new)"
  "safe_res (float_handler m atom new)" "safe_res (float_promote_handler m atom new)"
  "safe_res (bytes_handler m atom new)" "safe_res (bytes_promote_handler m atom new)"
  "safe_res (str_handler m atom new)" "safe_res (str_promote_handler m atom new)"
  by (simp_all add: no_op_handler_def bool_handler_def long_handler_def long_promote_handler_def
                    float_handler_def float_promote_handler_def bytes_handler_def
                    bytes_promote_handler_def str_handler_def str_promote_handler_def
                    validate_type_fail_def conversions_safe
               split: pyval.split option.split sum.split
               add: safe_res_InlD [OF conversions_safe(2)])

lemma constraint_handlers_safe [safe_simps]:
  "safe_res (instance_handler ct m new)" "safe_res (subclass_handler ct m new)"
  "safe_res (callable_handler ct m atom new)"
proof -
  show "safe_res (instance_handler ct m new)"
    using isinstance_safe [of ct new "validate_context m"]
    by (auto simp: instance_handler_def split: sum.split bool.split)
  show "safe_res (subclass_handler ct m new)"
    using issubclass_safe [of ct new "validate_context m"]
    by (auto simp: subclass_handler_def split: sum.split bool.split)
  show "safe_res (callable_handler ct m atom new)"
    by (simp add: callable_handler_def validate_type_fail_def)
qed

lemma check_pairE:
  assumes "check_pair ctx s ok = Inr ()"
  obtains a b where "ctx = PTuple [a, b]" and "ok a b"
  using assms by (auto simp: check_pair_def split: option.splits if_splits elim: tuple2.elims)

lemma typed_handler_safe:
  "PyType_Check (validate_context m) \<Longrightarrow> safe_res (typed_handler ct m atom new)"
  by (auto simp: typed_handler_def validate_type_fail_def elim: PyType_Check.elims)

lemma int_bound_err: "int_bound x cmp e = Inl e' \<Longrightarrow> e' = e"
  by (auto simp: int_bound_def split: if_splits sum.splits bool.splits)

lemma float_bound_err:
  "float_bound x viol e = Inl e' \<Longrightarrow> x = PNone \<or> PyFloat_Check x \<Longrightarrow> e' = e"
  by (auto simp: float_bound_def split: if_splits elim: PyFloat_Check.elims)

lemma float_range_handler_safe:
  assumes "check_pair (validate_context m) s
             (\<lambda>a b. (a = PNone \<or> PyFloat_Check a) \<and> (b = PNone \<or> PyFloat_Check b)) = Inr ()"
  shows "safe_res (float_range_handler m atom new)"
proof -
  from assms obtain a b where ctx: "validate_context m = PTuple [a, b]"
    and ab: "a = PNone \<or> PyFloat_Check a" "b = PNone \<or> PyFloat_Check b"
    by (rule check_pairE) blast
  show ?thesis
    using ab
    by (auto simp: float_range_handler_def ctx validate_type_fail_def too_small_def too_large_def
             split: pyval.split sum.split dest: float_bound_err)
qed

lemma range_handler_safe:
  assumes "check_pair (validate_context m) s ok = Inr ()"
  shows "safe_res (range_handler m atom new)"
proof -
  from assms obtain a b where ctx: "validate_context m = PTuple [a, b]"
    by (rule check_pairE)
  show ?thesis
    by (auto simp: range_handler_def ctx validate_type_fail_def too_small_def too_large_def
             split: sum.split dest: int_bound_err)
qed

lemma seq_contains_safe [safe_simps]: "safe_res (seq_contains sq v)"
  by (auto simp: seq_contains_def unhashable_error_def split: pyval.split option.split)

lemma enum_handler_safe:
  assumes "hooks_safe env"
  shows "safe_res (snd (enum_handler env m new w))"
proof -
  have "safe_res (snd (PySequence_Contains env w (validate_context m) new))"
    using hooks_safeD(3) [OF assms]
    by (simp add: PySequence_Contains_def seq_contains_safe split: pyval.split tyname.split)
  then show ?thesis
    by (auto simp: enum_handler_def split: prod.split sum.split bool.split)
qed

lemma call_method_safe:
  assumes "hooks_safe env"
  shows "safe_res (snd (call_method env w obj name args))"
  using hooks_safeD(1) [OF assms]
  by (auto simp: call_method_def get_method_def split: prod.split sum.split pyval.split
           dest: hooks_InlD(2) [OF assms])

lemma isinstance_InlD: "PyObject_IsInstance ct v c = Inl e \<Longrightarrow> safe_exc e"
  using isinstance_safe [of ct v c] by simp

lemma coerced_handler_safe:
  assumes "hooks_safe env" and "check_pair (validate_context m) s ok = Inr ()"
  shows "safe_res (snd (coerced_handler env m new w))"
proof -
  from assms(2) obtain ty co where ctx: "validate_context m = PTuple [ty, co]"
    by (rule check_pairE)
  show ?thesis
    by (auto simp: coerced_handler_def ctx split: prod.split sum.split bool.split
             dest: isinstance_InlD hooks_InlD(1) [OF assms(1)])
qed

lemma member_or_none_cast:
  "member_or_none v \<Longrightarrow> v \<noteq> PNone \<Longrightarrow> \<exists>j. member_cast v = Some j"
  by (auto simp: member_or_none_def elim: Member_TypeCheck.elims)

lemma validate_items_safe:
  "vsafe fv S \<Longrightarrow> j \<in> S \<Longrightarrow> safe (validate_items fv j atom items w)"
  unfolding validate_items_def by (auto intro!: safe_mapR vsafeD)

lemma items_safe_ctx:
  assumes "member_or_none (validate_context m)" and "vsafe fv (set (ctx_refs (validate_context m)))"
    and "validate_context m \<noteq> PNone"
  obtains j where "member_cast (validate_context m) = Some j"
    and "\<And>atom items w. safe (validate_items fv j atom items w)"
proof -
  obtain j where j: "member_cast (validate_context m) = Some j"
    using member_or_none_cast [OF assms(1,3)] by blast
  have "j \<in> set (ctx_refs (validate_context m))" by (rule member_cast_refs [OF j])
  with assms(2) have "safe (validate_items fv j atom items w)" for atom items w
    by (rule validate_items_safe)
  with j show ?thesis by (rule that)
qed

lemma tuple_handler_safe:
  assumes "member_or_none (validate_context m)" and "vsafe fv (set (ctx_refs (validate_context m)))"
  shows "safe (tuple_handler fv m atom new w)"
proof (cases "validate_context m = PNone")
  case False
  then obtain j where "member_cast (validate_context m) = Some j"
    and "\<And>atom items w. safe (validate_items fv j atom items w)"
    using items_safe_ctx [OF assms] by blast
  then show ?thesis
    by (cases new) (auto simp: tuple_handler_def validate_type_fail_def intro!: safe_bindR)
qed (cases new; simp add: tuple_handler_def validate_type_fail_def)

lemma common_list_handler_safe:
  assumes "member_or_none (validate_context m)" and "vsafe fv (set (ctx_refs (validate_context m)))"
  shows "safe (common_list_handler f fv i m atom new w)"
proof (cases "validate_context m = PNone")
  case False
  then obtain j where "member_cast (validate_context m) = Some j"
    and "\<And>atom items w. safe (validate_items fv j atom items w)"
    using items_safe_ctx [OF assms] by blast
  then show ?thesis
    by (cases new) (auto simp: common_list_handler_def validate_type_fail_def intro!: safe_bindR)
qed (cases new; simp add: common_list_handler_def validate_type_fail_def)

lemma set_item_safe: "safe (set_item w acc k v)"
  by (simp add: set_item_def PyDict_SetItem_def unhashable_error_def split: option.split)

lemma dict_loops_safe:
  assumes "vsafe fv S"
  shows "km \<in> S \<Longrightarrow> vm \<in> S \<Longrightarrow> safe (validate_dict_key_value fv km vm atom d w)"
    and "vm \<in> S \<Longrightarrow> safe (validate_dict_value fv vm atom d w)"
    and "km \<in> S \<Longrightarrow> safe (validate_dict_key fv km atom d w)"
  unfolding validate_dict_key_value_def validate_dict_value_def validate_dict_key_def as_dict_def
  subgoal by (rule safe_bindR, rule safe_foldR)
                (auto split: prod.split intro!: safe_bindR set_item_safe vsafeD [OF assms])
  subgoal by (rule safe_bindR, rule safe_foldR)
                (auto split: prod.split intro!: safe_bindR set_item_safe vsafeD [OF assms])
  subgoal by (rule safe_bindR, rule safe_foldR)
                (auto split: prod.split intro!: safe_bindR set_item_safe vsafeD [OF assms])
  done

lemma dict_handler_safe:
  assumes "check_pair (validate_context m) s (\<lambda>k v. member_or_none k \<and> member_or_none v) = Inr ()"
    and v: "vsafe fv (set (ctx_refs (validate_context m)))"
  shows "safe (dict_handler fv m atom new w)"
proof -
  from assms(1) obtain a b where ctx: "validate_context m = PTuple [a, b]"
    and ab: "member_or_none a" "member_or_none b"
    by (rule check_pairE) blast
  have refs: "member_cast x = Some j \<Longrightarrow> x \<in> {a, b} \<Longrightarrow> j \<in> set (ctx_refs (validate_context m))"
    for x j by (auto simp: ctx map_filter_def)
  show ?thesis
  proof (cases new)
    case (PDict d)
    have "safe (validate_dict_key_value fv km vm atom d w)"
      if "member_cast a = Some km" "member_cast b = Some vm" for km vm
      using that by (intro dict_loops_safe(1) [OF v] refs) auto
    moreover have "safe (validate_dict_value fv vm atom d w)" if "member_cast b = Some vm" for vm
      using that by (intro dict_loops_safe(2) [OF v] refs) auto
    moreover have "safe (validate_dict_key fv km atom d w)" if "member_cast a = Some km" for km
      using that by (intro dict_loops_safe(3) [OF v] refs) auto
    ultimately show ?thesis
      using member_or_none_cast [OF ab(1)] member_or_none_cast [OF ab(2)]
      by (auto simp: dict_handler_def ctx PDict)
  qed (simp_all add: dict_handler_def validate_type_fail_def)
qed

lemma delegate_handler_safe:
  assumes "Member_TypeCheck (validate_context m)" and "vsafe vd (set (ctx_refs (validate_context m)))"
  shows "safe (delegate_handler vd m atom old new w)"
proof -
  obtain t j where ctx: "validate_context m = PMember t j"
    using assms(1) by (cases "validate_context m") simp_all
  show ?thesis
    using vsafeD [OF assms(2), of j] by (simp add: delegate_handler_def ctx)
qed

lemma full_validate_with_safe:
  assumes "vsafe vd S" and "\<forall>j\<in>S. member_of env j \<noteq> None" and "hooks_safe env"
  shows "vsafe (full_validate_with vd env) S"
  unfolding vsafe_def
proof (intro ballI allI)
  fix j a ov nv w
  assume j: "j \<in> S"
  then obtain m where m: "member_of env j = Some m" using assms(2) by blast
  have "safe (if validate_mode m \<noteq> 0 then vd j a ov nv w else Some (w, Inr nv))"
    using vsafeD [OF assms(1) j] by simp
  then show "safe (full_validate_with vd env j a ov nv w)"
    unfolding full_validate_with_def m
    by (auto intro!: safe_bindR simp: safe_Some hooks_safeD(4) [OF assms(3)])
qed

lemma run_handler_safe:
  assumes v: "vsafe vd (set (ctx_refs (validate_context m)))"
    and closed: "\<forall>j\<in>set (ctx_refs (validate_context m)). member_of env j \<noteq> None"
    and h: "hooks_safe env"
    and mode: "mode_of (validate_mode m) = Some md"
    and ck: "check_context (classes env) (validate_mode m) (validate_context m) = Inr ()"
  shows "safe (run_handler vd env i m (mode_handler md) atom old new w)"
proof -
  have fv: "vsafe (full_validate_with vd env) (set (ctx_refs (validate_context m)))"
    using v closed h by (rule full_validate_with_safe)
  note ok = ck [unfolded check_context_def mode check_if_def]
  show ?thesis
  proof (cases md)
    case VTuple
    with ok show ?thesis
      by (simp add: run_handler_def tuple_handler_safe [OF _ fv] split: if_splits)
  next
    case VList
    with ok show ?thesis
      by (simp add: run_handler_def list_handler_def common_list_handler_safe [OF _ fv] split: if_splits)
  next
    case VContainerList
    with ok show ?thesis
      by (simp add: run_handler_def container_list_handler_def common_list_handler_safe [OF _ fv]
                split: if_splits)
  next
    case VDict
    with ok show ?thesis by (simp add: run_handler_def dict_handler_safe [OF _ fv])
  next
    case VTyped
    with ok show ?thesis by (simp add: run_handler_def typed_handler_safe split: if_splits)
  next
    case VFloatRange
    with ok show ?thesis by (simp add: run_handler_def float_range_handler_safe)
  next
    case VRange
    with ok show ?thesis by (simp add: run_handler_def range_handler_safe)
  next
    case VCoerced
    with ok show ?thesis by (simp add: run_handler_def safe_Some coerced_handler_safe [OF h])
  next
    case VDelegate
    with ok show ?thesis
      by (simp add: run_handler_def delegate_handler_safe [OF _ v] split: if_splits)
  next
    case VEnum
    then show ?thesis by (simp add: run_handler_def safe_Some enum_handler_safe [OF h])
  qed (simp add: run_handler_def safe_Some safe_simps call_method_safe [OF h]
                     object_method_old_new_handler_def object_method_name_old_new_handler_def
                     member_method_object_old_new_handler_def)+
qed

lemma wf_env_member:
  "wf_env env \<Longrightarrow> member_of env i = Some m \<Longrightarrow> member_ok env m"
  unfolding wf_env_def member_of_def
  by (drule map_of_SomeD) (fastforce simp: list_all_iff)

text \<open>
  C20.  No undefined behaviour: on a store of members declared through
  \<open>check_context\<close>, with modes of the catalog and contexts naming members of the store,
  and with user code that raises only Python exceptions, \<open>Member::validate\<close> never
  reaches an unchecked cast, an out-of-range tuple read or a read past the handler
  table, whatever the fuel.
\<close>

theorem validate_defined:
  assumes wf: "wf_env env" and h: "hooks_safe env" and i: "member_of env i \<noteq> None"
  shows "safe (validate env n i atom old new w)"
  using i
proof (induction n arbitrary: i atom old new w)
  case 0
  then show ?case by simp
next
  case (Suc n)
  then obtain m where m: "member_of env i = Some m" by blast
  then have ok: "member_ok env m" by (rule wf_env_member [OF wf])
  then obtain md where md: "mode_of (validate_mode m) = Some md"
    and ck: "check_context (classes env) (validate_mode m) (validate_context m) = Inr ()"
    and closed: "\<forall>j\<in>set (ctx_refs (validate_context m)). member_of env j \<noteq> None"
    by (auto simp: member_ok_def list_all_iff)
  have "vsafe (validate env n) (set (ctx_refs (validate_context m)))"
    using closed Suc.IH by (simp add: vsafe_def)
  then have "safe (run_handler (validate env n) env i m (mode_handler md) atom old new w)"
    using closed h md ck by (rule run_handler_safe)
  with m md show ?case by (simp add: select_handler_mode_of)
qed

end
