(* ===== verification/Dicts.thy ===== *)
theory Dicts
  imports Dispatch
begin

text \<open>
  The dict handler against the spec's description of the mapping validator
  (\<open>spec.md\<close> 4.3): one loop over the input in order, the key through the key
  validator if there is one, then the value through the value validator if there is
  one, each pair stored in a new dict.  The three loops of \<open>validatebehavior.cpp\<close> and
  the \<open>PyDict_Copy\<close> branch are the four instances of that loop; every result is a
  well-formed dict no longer than the input, and two keys the key validator maps to
  equal keys merge.
\<close>

section \<open>The reference loop\<close>

definition opt_validate :: "'w validator \<Rightarrow> mid option \<Rightarrow> pyval \<Rightarrow> pyval \<Rightarrow> 'w \<Rightarrow> ('w, exc, pyval) fstep" where
  "opt_validate fv vm atom x w = (case vm of None \<Rightarrow> Some (w, Inr x) | Some j \<Rightarrow> fv j atom PNone x w)"

definition dict_loop ::
  "'w validator \<Rightarrow> mid option \<Rightarrow> mid option \<Rightarrow> pyval \<Rightarrow> (pyval \<times> pyval) list \<Rightarrow> 'w
     \<Rightarrow> ('w, exc, (pyval \<times> pyval) list) fstep" where
  "dict_loop fv km vm atom d w =
     foldR (\<lambda>acc (k, v) w.
              bindR (opt_validate fv km atom k w) (\<lambda>w1 k'.
              bindR (opt_validate fv vm atom v w1) (\<lambda>w2 v'. set_item w2 acc k' v'))) [] d w"

text \<open>\<open>None\<close> for a context item that is \<open>None\<close>, the Member otherwise.\<close>

definition ctx_member :: "pyval \<Rightarrow> mid option" where
  "ctx_member x = (if x = PNone then None else member_cast x)"

section \<open>Lemmas\<close>

lemma dict_wf_append:
  "dict_wf (xs @ ys) \<longleftrightarrow>
     dict_wf xs \<and> dict_wf ys \<and> list_all (\<lambda>(k, _). list_all (\<lambda>(k', _). \<not> py_eq k k') ys) xs"
  by (induction xs) auto

lemma dict_assign_fresh:
  "list_all (\<lambda>(k', _). \<not> py_eq k' k) d \<Longrightarrow> dict_assign k v d = d @ [(k, v)]"
  by (induction d) auto

lemma dict_assign_keys:
  "map fst (dict_assign k v d) =
     (if list_ex (\<lambda>(k', _). py_eq k' k) d then map fst d else map fst d @ [k])"
  by (induction d) auto

lemma list_all_fst: "list_all (\<lambda>(k, _). P k) d = list_all P (map fst d)"
  by (induction d) auto

lemma dict_wf_keys: "map fst d = map fst d' \<Longrightarrow> dict_wf d \<longleftrightarrow> dict_wf d'"
proof (induction d arbitrary: d')
  case Nil
  then show ?case by simp
next
  case (Cons p d)
  then obtain q d'' where "d' = q # d''" "fst p = fst q" "map fst d = map fst d''"
    by (cases d') auto
  with Cons.IH [of d''] show ?case
    by (cases p, cases q) (simp add: list_all_fst)
qed

lemma dict_wf_assign: "dict_wf d \<Longrightarrow> unhashable k = None \<Longrightarrow> dict_wf (dict_assign k v d)"
proof (induction d)
  case Nil
  then show ?case by simp
next
  case (Cons p d)
  obtain k' v' where p: "p = (k', v')" by (cases p)
  show ?case
  proof (cases "py_eq k' k")
    case True
    with Cons.prems p show ?thesis by simp
  next
    case False
    have "list_all (\<lambda>k''. \<not> py_eq k' k'') (map fst (dict_assign k v d))"
      using Cons.prems p False by (simp add: dict_assign_keys list_all_fst)
    with Cons False p show ?thesis by (simp add: list_all_fst)
  qed
qed

lemma length_dict_assign: "length (dict_assign k v d) \<le> Suc (length d)"
  by (induction d) auto

lemma set_item_wf:
  "set_item w acc k v = Some (w', Inr acc') \<Longrightarrow> dict_wf acc \<Longrightarrow>
     dict_wf acc' \<and> length acc' \<le> Suc (length acc)"
  by (auto simp: set_item_def PyDict_SetItem_def dict_wf_assign length_dict_assign
           split: option.splits)

text \<open>Storing the pairs of a well-formed dict, in order, into a dict rebuilds it.\<close>

lemma rebuild_dict:
  "dict_wf (acc @ d) \<Longrightarrow>
     foldR (\<lambda>acc (k, v) w. set_item w acc k v) acc d w = Some (w, Inr (acc @ d))"
proof (induction d arbitrary: acc)
  case Nil
  then show ?case by simp
next
  case (Cons p d)
  obtain k v where p: "p = (k, v)" by (cases p)
  have wf: "dict_wf (acc @ [(k, v)] @ d)" using Cons.prems p by simp
  then have "list_all (\<lambda>(k', _). \<not> py_eq k' k) acc" and "unhashable k = None"
    by (auto simp: dict_wf_append list_all_iff)
  then have "set_item w acc k v = Some (w, Inr (acc @ [(k, v)]))"
    by (simp add: set_item_def PyDict_SetItem_def dict_assign_fresh)
  with Cons.IH [of "acc @ [(k, v)]"] wf p show ?case by simp
qed

lemma opt_validate_simps [simp]:
  "opt_validate fv None atom x w = Some (w, Inr x)"
  "opt_validate fv (Some j) atom x w = fv j atom PNone x w"
  by (simp_all add: opt_validate_def)

lemma ctx_member_simps:
  "ctx_member PNone = None" "member_or_none x \<Longrightarrow> x \<noteq> PNone \<Longrightarrow> ctx_member x = member_cast x"
  "member_or_none x \<Longrightarrow> x \<noteq> PNone \<Longrightarrow> \<exists>j. member_cast x = Some j"
  by (auto simp: ctx_member_def member_or_none_def elim: Member_TypeCheck.elims)

text \<open>Each of the three C loops is the reference loop with its validators.\<close>

lemma dict_loops_reference:
  "validate_dict_key_value fv km vm atom d w = as_dict (dict_loop fv (Some km) (Some vm) atom d w)"
  "validate_dict_value fv vm atom d w = as_dict (dict_loop fv None (Some vm) atom d w)"
  "validate_dict_key fv km atom d w = as_dict (dict_loop fv (Some km) None atom d w)"
  by (simp_all add: validate_dict_key_value_def validate_dict_value_def validate_dict_key_def
                    dict_loop_def)

lemma dict_copy_reference: "dict_wf d \<Longrightarrow> dict_loop fv None None atom d w = Some (w, Inr d)"
  using rebuild_dict [of "[]" d w] by (simp add: dict_loop_def)

lemma foldR_bound:
  assumes "foldR f acc xs w = Some (w', Inr acc')" and "P acc"
    and "\<And>acc x w w1 acc1. P acc \<Longrightarrow> f acc x w = Some (w1, Inr acc1) \<Longrightarrow>
           P acc1 \<and> \<mu> acc1 \<le> Suc (\<mu> acc)"
  shows "P acc' \<and> \<mu> acc' \<le> \<mu> acc + length xs"
  using assms(1,2)
proof (induction xs arbitrary: acc w)
  case Nil
  then show ?case by simp
next
  case (Cons x xs)
  from Cons.prems(1) obtain w1 acc1 where s: "f acc x w = Some (w1, Inr acc1)"
      and r: "foldR f acc1 xs w1 = Some (w', Inr acc')"
    by (auto elim: bindR_Some_cases)
  from assms(3) [OF Cons.prems(2) s] Cons.IH [OF r] show ?case by simp
qed

lemma dict_loop_step:
  assumes "bindR (opt_validate fv km atom k w) (\<lambda>w1 k'.
             bindR (opt_validate fv vm atom v w1) (\<lambda>w2 v'. set_item w2 acc k' v')) = Some (w1, Inr acc1)"
    and "dict_wf acc"
  shows "dict_wf acc1 \<and> length acc1 \<le> Suc (length acc)"
proof -
  from assms(1) obtain k' v' w2 where si: "set_item w2 acc k' v' = Some (w1, Inr acc1)"
    by (auto elim!: bindR_Some_cases)
  show ?thesis by (rule set_item_wf [OF si assms(2)])
qed

lemma dict_loop_wf:
  assumes "dict_loop fv km vm atom d w = Some (w', Inr acc')"
  shows "dict_wf acc' \<and> length acc' \<le> length d"
proof -
  have "dict_wf acc' \<and> length acc' \<le> length ([] :: (pyval \<times> pyval) list) + length d"
    by (rule foldR_bound [where P = dict_wf and \<mu> = length, OF assms [unfolded dict_loop_def]])
       (auto split: prod.splits dest: dict_loop_step)
  then show ?thesis by simp
qed

text \<open>
  C21.  The dict handler is the spec's single loop: for a context of two Members or
  Nones (as \<open>check_context\<close> requires) and a well-formed input dict, each of its four
  branches returns what the reference loop returns, the \<open>PyDict_Copy\<close> branch
  included.
\<close>

theorem dict_handler_reference:
  assumes ctx: "validate_context m = PTuple [k, v]"
    and mk: "member_or_none k" and mv: "member_or_none v" and wf: "dict_wf d"
  shows "dict_handler fv m atom (PDict d) w = as_dict (dict_loop fv (ctx_member k) (ctx_member v) atom d w)"
  using ctx_member_simps(3) [OF mk] ctx_member_simps(3) [OF mv] wf
  by (auto simp: dict_handler_def ctx ctx_member_def dict_loops_reference dict_copy_reference
                 as_dict_def)

text \<open>
  Every dict the dict handler returns for a well-formed input is well formed
  (hashable keys, no two equal) and has at most as many entries as the input.
\<close>

lemma dict_handler_wf:
  assumes "dict_handler fv m atom (PDict d) w = Some (w', Inr r)" and "dict_wf d"
  shows "case r of PDict d' \<Rightarrow> dict_wf d' \<and> length d' \<le> length d | _ \<Rightarrow> False"
  using assms
  by (auto simp: dict_handler_def dict_loops_reference as_dict_def
           split: option.splits if_splits elim!: bindR_Some_cases dest!: dict_loop_wf)

text \<open>
  C23.  Key collisions: when the key validator maps two different keys of the input
  to keys that compare equal, the result keeps one entry, at the first key's place,
  with the second value; the input's size is not kept.
\<close>

theorem dict_key_collision:
  assumes "fv km atom PNone k1 w = Some (w1, Inr k1')"
    and "fv km atom PNone k2 w1 = Some (w2, Inr k2')"
    and "py_eq k1' k2'" and "unhashable k1' = None" and "unhashable k2' = None"
  shows "validate_dict_key fv km atom [(k1, v1), (k2, v2)] w = Some (w2, Inr (PDict [(k1', v2)]))"
  using assms
  by (simp add: validate_dict_key_def as_dict_def set_item_def PyDict_SetItem_def)

text \<open>
  C2.  The dict loop stops at the first key that fails: when the key validator rejects
  a key after the entries before it went through, the handler returns that error
  with the interpreter state it left, builds no dict, and validates neither that
  key's value nor anything after it (spec 4.3: no partial mapping).
\<close>

theorem dict_handler_abort:
  assumes ctx: "validate_context m = PTuple [PMember c j, vc]" and mv: "member_or_none vc"
    and pre: "dict_loop fv (Some j) (ctx_member vc) atom d1 w = Some (w1, Inr acc)"
    and fail: "fv j atom PNone k w1 = Some (w2, Inl e)"
  shows "dict_handler fv m atom (PDict (d1 @ (k, x) # d2)) w = Some (w2, Inl e)"
proof -
  have "dict_loop fv (Some j) (ctx_member vc) atom (d1 @ (k, x) # d2) w = Some (w2, Inl e)"
    using pre fail by (simp add: dict_loop_def foldR_append)
  moreover have "dict_handler fv m atom (PDict (d1 @ (k, x) # d2)) w =
                   as_dict (dict_loop fv (Some j) (ctx_member vc) atom (d1 @ (k, x) # d2) w)"
    using ctx_member_simps(3) [OF mv]
    by (cases "vc = PNone")
       (auto simp: dict_handler_def ctx ctx_member_def dict_loops_reference)
  ultimately show ?thesis by (simp add: as_dict_def)
qed

end
