(* ===== verification/Results.thy ===== *)
theory Results
  imports Dispatch
begin

text \<open>
  What a member's mode promises of the value a successful validation returns: the
  kind the spec names for the mode (sections 4.2 to 4.4), read from the catalog.
\<close>

definition result_type :: "classtab \<Rightarrow> member \<Rightarrow> vmode \<Rightarrow> pyval \<Rightarrow> bool" where
  "result_type ct m md v =
     (case md of
        VBool \<Rightarrow> (case v of PBool _ \<Rightarrow> True | _ \<Rightarrow> False)
      | VInt \<Rightarrow> PyLong_Check v | VLong \<Rightarrow> PyLong_Check v
      | VIntPromote \<Rightarrow> PyLong_Check v | VLongPromote \<Rightarrow> PyLong_Check v
      | VFloat \<Rightarrow> PyFloat_Check v | VFloatPromote \<Rightarrow> PyFloat_Check v
      | VBytes \<Rightarrow> PyBytes_Check v | VBytesPromote \<Rightarrow> PyBytes_Check v
      | VStr \<Rightarrow> PyUnicode_Check v | VStrPromote \<Rightarrow> PyUnicode_Check v
      | VUnicode \<Rightarrow> PyUnicode_Check v | VUnicodePromote \<Rightarrow> PyUnicode_Check v
      | VTuple \<Rightarrow> PyTuple_Check v
      | VList \<Rightarrow> (case v of PList (LAtom _ _) _ \<Rightarrow> True | _ \<Rightarrow> False)
      | VContainerList \<Rightarrow> (case v of PList (LAtomC _ _ _) _ \<Rightarrow> True | _ \<Rightarrow> False)
      | VDict \<Rightarrow> PyDict_Check v
      | VInstance \<Rightarrow> v = PNone \<or> PyObject_IsInstance ct v (validate_context m) = Inr True
      | VTyped \<Rightarrow> v = PNone \<or>
                   (case validate_context m of PType t \<Rightarrow> PyObject_TypeCheck ct v t | _ \<Rightarrow> False)
      | VSubclass \<Rightarrow> PyObject_IsSubclass ct v (validate_context m) = Inr True
      | VCallable \<Rightarrow> v = PNone \<or> PyCallable_Check ct v
      | VFloatRange \<Rightarrow> PyFloat_Check v
      | VRange \<Rightarrow> PyLong_Check v
      | _ \<Rightarrow> True)"

section \<open>Lemmas\<close>

lemma tuple_handler_type:
  "tuple_handler fv m atom new w = Some (w', Inr v) \<Longrightarrow> PyTuple_Check v"
  by (auto simp: tuple_handler_def split: pyval.splits if_splits option.splits
           elim!: bindR_Some_cases)

lemma common_list_handler_type:
  "common_list_handler f fv i m atom new w = Some (w', Inr v) \<Longrightarrow>
     \<exists>k items. v = make_list f i atom k items"
  by (auto simp: common_list_handler_def split: pyval.splits if_splits option.splits
           elim!: bindR_Some_cases)

lemma dict_handler_type:
  "dict_handler fv m atom new w = Some (w', Inr v) \<Longrightarrow> PyDict_Check v"
  by (auto simp: dict_handler_def validate_dict_key_value_def validate_dict_value_def
                 validate_dict_key_def as_dict_def
           split: pyval.splits if_splits option.splits prod.splits elim!: bindR_Some_cases)

lemma scalar_handlers_type:
  "bool_handler m atom new = Inr v \<Longrightarrow> (case v of PBool _ \<Rightarrow> True | _ \<Rightarrow> False)"
  "long_handler m atom new = Inr v \<Longrightarrow> PyLong_Check v"
  "long_promote_handler m atom new = Inr v \<Longrightarrow> PyLong_Check v"
  "float_handler m atom new = Inr v \<Longrightarrow> PyFloat_Check v"
  "float_promote_handler m atom new = Inr v \<Longrightarrow> PyFloat_Check v"
  "bytes_handler m atom new = Inr v \<Longrightarrow> PyBytes_Check v"
  "bytes_promote_handler m atom new = Inr v \<Longrightarrow> PyBytes_Check v"
  "str_handler m atom new = Inr v \<Longrightarrow> PyUnicode_Check v"
  "str_promote_handler m atom new = Inr v \<Longrightarrow> PyUnicode_Check v"
  by (auto simp: bool_handler_def long_handler_def long_promote_handler_def float_handler_def
                 float_promote_handler_def bytes_handler_def bytes_promote_handler_def str_handler_def
                 str_promote_handler_def PyLong_FromDouble_def PyUnicode_AsUTF8String_def
                 PyUnicode_FromString_def
           split: pyval.splits if_splits option.splits sum.splits pyfloat.splits)

lemma constraint_handlers_type:
  "instance_handler ct m new = Inr v \<Longrightarrow>
     v = PNone \<or> PyObject_IsInstance ct v (validate_context m) = Inr True"
  "typed_handler ct m atom new = Inr v \<Longrightarrow>
     v = PNone \<or> (case validate_context m of PType t \<Rightarrow> PyObject_TypeCheck ct v t | _ \<Rightarrow> False)"
  "subclass_handler ct m new = Inr v \<Longrightarrow> PyObject_IsSubclass ct v (validate_context m) = Inr True"
  "callable_handler ct m atom new = Inr v \<Longrightarrow> v = PNone \<or> PyCallable_Check ct v"
  "float_range_handler m atom new = Inr v \<Longrightarrow> PyFloat_Check v"
  "range_handler m atom new = Inr v \<Longrightarrow> PyLong_Check v"
  by (auto simp: instance_handler_def typed_handler_def subclass_handler_def callable_handler_def
                 float_range_handler_def range_handler_def
           split: pyval.splits if_splits option.splits sum.splits bool.splits prod.splits)

text \<open>
  C24.  Result types: when \<open>Member::validate\<close> accepts a value for a member whose mode
  is in the catalog, the value it returns has the kind the mode names: an int (or
  bool) for the integer modes, a float for the float modes, bytes, str, a tuple, an
  atom list or container list of the right factory, a dict, an instance of the
  configured type, and so on.
\<close>

theorem validate_result_type:
  assumes m: "member_of env i = Some m" and md: "mode_of (validate_mode m) = Some md"
    and r: "validate env (Suc n) i atom old new w = Some (w', Inr v)"
  shows "result_type (classes env) m md v"
proof -
  have run: "run_handler (validate env n) env i m (mode_handler md) atom old new w = Some (w', Inr v)"
    using r m md by (simp add: select_handler_mode_of)
  show ?thesis
  proof (cases md)
    case VList
    with run show ?thesis
      by (auto simp: run_handler_def list_handler_def result_type_def make_list_def dest!: common_list_handler_type)
  next
    case VContainerList
    with run show ?thesis
      by (auto simp: run_handler_def container_list_handler_def result_type_def make_list_def
               dest!: common_list_handler_type)
  qed (use run in \<open>auto simp: run_handler_def result_type_def
       dest: scalar_handlers_type constraint_handlers_type tuple_handler_type dict_handler_type\<close>)
qed

text \<open>
  C25.  The tuple loop stops at the first item that fails: the handler returns that
  item's error with the interpreter state it left, builds no tuple, and runs no user
  code for the items after it.
\<close>

theorem tuple_handler_abort:
  assumes "validate_context m = PMember c j"
    and "validate_items fv j atom xs w = Some (w1, Inr ys)"
    and "fv j atom PNone y w1 = Some (w2, Inl e)"
  shows "tuple_handler fv m atom (PTuple (xs @ y # zs)) w = Some (w2, Inl e)"
  using assms
  by (simp add: tuple_handler_def validate_items_def mapR_append)

text \<open>
  C33.  The list loop stops at the first item that fails, for atom lists and container
  lists alike: the handler returns that item's error with the interpreter state it
  left, and no list is built.
\<close>

theorem list_handler_abort:
  assumes "validate_context m = PMember c j"
    and "validate_items fv j atom xs w = Some (w1, Inr ys)"
    and "fv j atom PNone y w1 = Some (w2, Inl e)"
  shows "list_handler fv i m atom (PList k (xs @ y # zs)) w = Some (w2, Inl e) \<and>
         container_list_handler fv i m atom (PList k (xs @ y # zs)) w = Some (w2, Inl e)"
  using assms
  by (simp add: list_handler_def container_list_handler_def common_list_handler_def
                validate_items_def mapR_append)

text \<open>
  C14.  The dispatcher hands the container loops \<open>Member::full_validate\<close>, not
  \<open>Member::validate\<close>: for a Tuple member whose item member has a validate mode and a
  post-validate mode, \<open>Member::validate\<close> validates each item with the item member
  and then passes it to the item member's post-validation hook, one item at a time
  and in order, and stores what the hook returns.
\<close>

theorem tuple_items_post_validate:
  assumes m: "member_of env i = Some m" and md: "validate_mode m = mode_byte VTuple"
    and ctx: "validate_context m = PMember c j" and mj: "member_of env j = Some mj"
    and v: "validate_mode mj \<noteq> 0" and p: "post_validate_mode mj \<noteq> 0"
  shows "validate env (Suc n) i atom old (PTuple xs) w =
           bindR (mapR (\<lambda>x w. bindR (validate env n j atom PNone x w)
                                   (\<lambda>w1 y. Some (post_validate env w1 j atom PNone y))) xs w)
                 (\<lambda>w' ys. Some (w', Inr (PTuple ys)))"
proof -
  have "full_validate_with (validate env n) env j atom PNone =
          (\<lambda>x w. bindR (validate env n j atom PNone x w)
                          (\<lambda>w1 y. Some (post_validate env w1 j atom PNone y)))"
    using mj v p by (simp add: full_validate_with_def fun_eq_iff)
  then show ?thesis
    using m md ctx by (simp add: select_mode_byte run_handler_def tuple_handler_def validate_items_def)
qed

text \<open>
  C22.  The promotion modes are idempotent on values of their target kind (section 8
  of the spec): an int (or bool) for IntPromote, a float for FloatPromote, bytes for
  BytesPromote and a str for StrPromote come back unchanged, with the interpreter
  state unchanged.
\<close>

theorem validate_promote_idempotent:
  assumes "member_of env i = Some m"
  shows "(validate_mode m \<in> {mode_byte VIntPromote, mode_byte VLongPromote} \<longrightarrow> PyLong_Check new \<longrightarrow>
            validate env (Suc n) i atom old new w = Some (w, Inr new)) \<and>
         (validate_mode m = mode_byte VFloatPromote \<longrightarrow> PyFloat_Check new \<longrightarrow>
            validate env (Suc n) i atom old new w = Some (w, Inr new)) \<and>
         (validate_mode m = mode_byte VBytesPromote \<longrightarrow> PyBytes_Check new \<longrightarrow>
            validate env (Suc n) i atom old new w = Some (w, Inr new)) \<and>
         (validate_mode m \<in> {mode_byte VStrPromote, mode_byte VUnicodePromote} \<longrightarrow> PyUnicode_Check new \<longrightarrow>
            validate env (Suc n) i atom old new w = Some (w, Inr new))"
  using assms
  by (auto simp: select_mode_byte run_handler_def long_promote_handler_def float_promote_handler_def
                 bytes_promote_handler_def str_promote_handler_def)

end
