(* ===== verification/Escapes.thy ===== *)
theory Escapes
  imports Dispatch
begin

text \<open>
  The constraint and escape-hatch modes seen through the dispatcher: \<open>Enum\<close>
  (\<open>enum_handler\<close>, lines 502--511), \<open>Coerced\<close> (\<open>coerced_handler\<close>, lines 568--593),
  the three callback modes (lines 603--651), a delegation cycle, and the modes that
  accept \<open>None\<close>.  Each is stated of
  \<open>Member::validate\<close> itself, so the lemmas also cover the table lookup and the
  argument plumbing of \<open>run_handler\<close>.
\<close>

section \<open>Lemmas\<close>

lemma isinstance_type: "PyObject_IsInstance ct v (PType t) = Inr (is_subtype ct (type_of v) t)"
  by (simp add: PyObject_IsInstance_def)

text \<open>
  C26.  Enum membership over a tuple or list of allowed values: the value is accepted
  unchanged exactly when it compares equal to one of them, and otherwise the write
  fails with the \<open>ValueError\<close> \<open>invalid enum value\<close>; no user code runs and the
  interpreter state is unchanged.
\<close>

theorem validate_enum_sequence:
  assumes "member_of env i = Some m" and "validate_mode m = mode_byte VEnum"
    and "validate_context m = PTuple xs \<or> validate_context m = PList f xs"
  shows "validate env (Suc n) i atom old new w =
           Some (w, if list_ex (\<lambda>x. py_eq x new) xs then Inr new
                    else Inl (PyExc ValueError (ustr ''invalid enum value'')))"
  using assms
  by (auto simp: select_mode_byte run_handler_def enum_handler_def PySequence_Contains_def
                 seq_contains_def)

text \<open>
  C27.  Enum over a str: \<open>PySequence_Contains\<close> on a str tests for a substring, so a
  str context accepts every substring of it (the empty string among them), not only
  its characters, and any non-str value fails with a \<open>TypeError\<close> rather than the
  \<open>ValueError\<close> of a non-member.
\<close>

theorem validate_enum_str:
  assumes "member_of env i = Some m" and "validate_mode m = mode_byte VEnum"
    and "validate_context m = PStr s"
  shows "validate env (Suc n) i atom old (PStr t) w =
           Some (w, if is_substr t s then Inr (PStr t)
                    else Inl (PyExc ValueError (ustr ''invalid enum value''))) \<and>
         (\<not> PyUnicode_Check new \<longrightarrow>
           (\<exists>msg. validate env (Suc n) i atom old new w = Some (w, Inl (PyExc TypeError msg))))"
  using assms
  by (auto simp: select_mode_byte run_handler_def enum_handler_def PySequence_Contains_def
                 seq_contains_def split: pyval.splits)

text \<open>
  C28.  Coercion: a value that is already an instance of the configured type is
  accepted unchanged without calling the coercer; otherwise the coercer is called once
  with the value, its exception is propagated unchanged, its result is accepted when
  it is an instance of the type, and otherwise the write fails with the
  \<open>TypeError\<close> \<open>could not coerce value to an appropriate type\<close>.
\<close>

theorem validate_coerced:
  assumes "member_of env i = Some m" and "validate_mode m = mode_byte VCoerced"
    and "validate_context m = PTuple [PType t, c]"
  shows "validate env (Suc n) i atom old new w =
           Some (if is_subtype (classes env) (type_of new) t then (w, Inr new)
                 else case py_call env w c [new] of
                        (w1, Inl e) \<Rightarrow> (w1, Inl e)
                      | (w1, Inr v) \<Rightarrow>
                          (w1, if is_subtype (classes env) (type_of v) t then Inr v
                               else Inl (PyExc TypeError
                                      (ustr ''could not coerce value to an appropriate type''))))"
  using assms
  by (simp add: select_mode_byte run_handler_def coerced_handler_def isinstance_type
           split: prod.split sum.split)

text \<open>
  C29.  The callback modes look the method up by name at every write, in the current
  interpreter state, on the atom (the two object modes) or on the member (the member
  mode), and call it with \<open>(old, new)\<close>, \<open>(name, old, new)\<close> and \<open>(atom, old, new)\<close>
  respectively; the result of the call, value or exception, is the result of the
  write, and a failed lookup is propagated without a call.
\<close>

theorem validate_callbacks:
  assumes "member_of env i = Some m" and "validate_context m = PStr s"
  shows "(validate_mode m = mode_byte VObjectMethod_OldNew \<longrightarrow>
           validate env (Suc n) i atom old new w =
             Some (case py_getattr env w atom s of
                     (w1, Inl e) \<Rightarrow> (w1, Inl e) | (w1, Inr f) \<Rightarrow> py_call env w1 f [old, new])) \<and>
         (validate_mode m = mode_byte VObjectMethod_NameOldNew \<longrightarrow>
           validate env (Suc n) i atom old new w =
             Some (case py_getattr env w atom s of
                     (w1, Inl e) \<Rightarrow> (w1, Inl e)
                   | (w1, Inr f) \<Rightarrow> py_call env w1 f [PStr (m_name m), old, new])) \<and>
         (validate_mode m = mode_byte VMemberMethod_ObjectOldNew \<longrightarrow>
           validate env (Suc n) i atom old new w =
             Some (case py_getattr env w (member_obj m i) s of
                     (w1, Inl e) \<Rightarrow> (w1, Inl e) | (w1, Inr f) \<Rightarrow> py_call env w1 f [atom, old, new]))"
  using assms
  by (simp add: select_mode_byte run_handler_def object_method_old_new_handler_def
                    object_method_name_old_new_handler_def member_method_object_old_new_handler_def
                    call_method_def get_method_def)

text \<open>
  C39.  A delegation cycle is accepted and never returns: \<open>check_context\<close> accepts a
  Delegate member whose context is the member itself, and \<open>Member::validate\<close> on it
  recurses until the fuel, the C stack, runs out, whatever the value.
\<close>

theorem validate_delegate_cycle:
  assumes "member_of env i = Some m" and "validate_mode m = mode_byte VDelegate"
    and "validate_context m = PMember c i"
  shows "check_context (classes env) (validate_mode m) (validate_context m) = Inr () \<and>
         validate env n i atom old new w = None"
proof
  show "check_context (classes env) (validate_mode m) (validate_context m) = Inr ()"
    using assms(2,3) by (simp add: check_context_Inr)
  show "validate env n i atom old new w = None"
  proof (induction n)
    case 0
    then show ?case by simp
  next
    case (Suc n)
    with assms show ?case
      by (simp add: select_mode_byte run_handler_def delegate_handler_def)
  qed
qed

text \<open>
  C40.  The nullable constraint modes: Instance, Typed and Callable accept \<open>None\<close>
  unchanged whatever their context, as section 4.4 of the spec says, while Subclass,
  which the spec does not make nullable, fails on \<open>None\<close> with the \<open>TypeError\<close> of
  \<open>issubclass\<close> when its context is a type (with the empty tuple as context,
  \<open>issubclass(None, ())\<close> is false and the write fails as an invalid subclass).
\<close>

theorem validate_none_constraints:
  assumes "member_of env i = Some m"
  shows "(validate_mode m \<in> {mode_byte VInstance, mode_byte VTyped, mode_byte VCallable} \<longrightarrow>
            validate env (Suc n) i atom old PNone w = Some (w, Inr PNone)) \<and>
         (validate_mode m = mode_byte VSubclass \<longrightarrow> PyType_Check (validate_context m) \<longrightarrow>
            validate env (Suc n) i atom old PNone w = Some (w, Inl issubclass_arg1_error))"
  using assms
  by (auto simp: select_mode_byte run_handler_def instance_handler_def typed_handler_def
                 callable_handler_def subclass_handler_def PyObject_IsSubclass_def
           elim: PyType_Check.elims)

end
