(* ===== verification/Config.thy ===== *)
theory Config
  imports Dispatch
begin

text \<open>
  The declaration-time contract of \<open>Member::check_context\<close> (lines 14--164) against
  the shapes section 4.1 of the spec requires, and what the shapes the code leaves
  unchecked do at the first write.
\<close>

section \<open>The shapes the spec requires\<close>

text \<open>
  \<open>context_shape ct md ctx\<close>: the context shape section 4.1 requires of mode \<open>md\<close>.  A
  "finite sequence supporting membership testing" is what \<open>PySequence_Check\<close>
  accepts; modes the section does not list require nothing.
\<close>

definition context_shape :: "classtab \<Rightarrow> vmode \<Rightarrow> pyval \<Rightarrow> bool" where
  "context_shape ct md ctx =
     (case md of
        VTuple \<Rightarrow> member_or_none ctx
      | VList \<Rightarrow> member_or_none ctx
      | VContainerList \<Rightarrow> member_or_none ctx
      | VDict \<Rightarrow> (case ctx of PTuple [k, v] \<Rightarrow> member_or_none k \<and> member_or_none v | _ \<Rightarrow> False)
      | VTyped \<Rightarrow> PyType_Check ctx
      | VSubclass \<Rightarrow> PyType_Check ctx
      | VEnum \<Rightarrow> PySequence_Check ct ctx
      | VFloatRange \<Rightarrow>
          (case ctx of PTuple [l, h] \<Rightarrow> (l = PNone \<or> PyFloat_Check l) \<and> (h = PNone \<or> PyFloat_Check h)
           | _ \<Rightarrow> False)
      | VRange \<Rightarrow>
          (case ctx of PTuple [l, h] \<Rightarrow> (l = PNone \<or> PyLong_Check l) \<and> (h = PNone \<or> PyLong_Check h)
           | _ \<Rightarrow> False)
      | VCoerced \<Rightarrow> (case ctx of PTuple [t, c] \<Rightarrow> PyType_Check t \<and> PyCallable_Check ct c | _ \<Rightarrow> False)
      | VDelegate \<Rightarrow> Member_TypeCheck ctx
      | VObjectMethod_OldNew \<Rightarrow> PyUnicode_Check ctx
      | VObjectMethod_NameOldNew \<Rightarrow> PyUnicode_Check ctx
      | VMemberMethod_ObjectOldNew \<Rightarrow> PyUnicode_Check ctx
      | _ \<Rightarrow> True)"

text \<open>
  The name each mode's shape goes by in the rejection message: the second argument of
  \<open>cppy::type_error( context, ... )\<close> that describes the shape of section 4.1.
\<close>

definition shape_name :: "vmode \<Rightarrow> string" where
  "shape_name md =
     (case md of
        VTuple \<Rightarrow> ''Member or None''
      | VList \<Rightarrow> ''Member or None''
      | VContainerList \<Rightarrow> ''Member or None''
      | VDict \<Rightarrow> ''2-tuple of Member or None''
      | VTyped \<Rightarrow> ''type''
      | VEnum \<Rightarrow> ''sequence''
      | VFloatRange \<Rightarrow> ''2-tuple of float or None''
      | VRange \<Rightarrow> ''2-tuple of int or None''
      | VCoerced \<Rightarrow> ''2-tuple of (type, callable)''
      | VDelegate \<Rightarrow> ''Member''
      | VObjectMethod_OldNew \<Rightarrow> ''str''
      | VObjectMethod_NameOldNew \<Rightarrow> ''str''
      | VMemberMethod_ObjectOldNew \<Rightarrow> ''str''
      | _ \<Rightarrow> [])"

section \<open>Lemmas\<close>

text \<open>
  C34.  \<open>check_context\<close> accepts every context of the shape section 4.1 of the spec
  requires: a member declared as the spec says is always usable.
\<close>

theorem check_context_sound:
  assumes "context_shape ct md ctx"
  shows "check_context ct (mode_byte md) ctx = Inr ()"
  using assms
  by (cases md) (auto simp: check_context_Inr context_shape_def split: pyval.splits list.splits)

text \<open>
  C35.  Conversely, every context \<open>check_context\<close> accepts has the required shape,
  except for the two modes whose type slot the code leaves unchecked: Subclass (the
  spec records the gap) and the type of a Coerced pair.
\<close>

theorem check_context_complete:
  assumes "check_context ct (mode_byte md) ctx = Inr ()" and "md \<noteq> VSubclass" and "md \<noteq> VCoerced"
  shows "context_shape ct md ctx"
  using assms
  by (cases md) (auto simp: check_context_Inr context_shape_def split: pyval.splits list.splits)

text \<open>
  C36.  Every rejection is the \<open>TypeError\<close> of \<open>cppy::type_error( context, expected )\<close>
  with the one description of the mode's shape, whichever test of the mode failed
  (for a pair: not a tuple, not two items, or a wrong item), and the type of the
  context that was given.
\<close>

theorem check_context_error:
  assumes "check_context ct (mode_byte md) ctx = Inl e"
  shows "e = ctx_type_error ctx (shape_name md)"
  using assms
  by (cases md) (auto simp: check_context_def check_pair_def check_if_def shape_name_def
                      split: option.splits if_splits prod.splits)

text \<open>
  C37.  The type slot of a Coerced context is never checked: \<open>check_context\<close> accepts
  \<open>(t, c)\<close> for any \<open>t\<close> once \<open>c\<close> is callable, and when \<open>t\<close> is neither a type nor a
  tuple nor an object of a user class that could answer \<open>isinstance\<close> (an int, a
  str, \<open>None\<close>, ...), every write then fails with the \<open>TypeError\<close> of
  \<open>isinstance\<close>, before the coercer is called.
\<close>

theorem coerced_type_unchecked:
  assumes "PyCallable_Check (classes env) c" and "\<not> PyType_Check t" and "\<not> PyTuple_Check t"
    and "\<forall>s k. t \<noteq> PObj (TUser s) k" and "member_of env i = Some m" and "validate_mode m = mode_byte VCoerced"
    and "validate_context m = PTuple [t, c]"
  shows "check_context (classes env) (validate_mode m) (validate_context m) = Inr () \<and>
         validate env (Suc n) i atom old new w = Some (w, Inl isinstance_arg_error)"
proof
  show "check_context (classes env) (validate_mode m) (validate_context m) = Inr ()"
    using assms(1,6,7) by (simp add: check_context_Inr)
  have "PyObject_IsInstance (classes env) new t = Inl isinstance_arg_error"
    using assms(2-4) by (rule isinstance_non_class)
  then show "validate env (Suc n) i atom old new w = Some (w, Inl isinstance_arg_error)"
    using assms(5-7)
    by (simp add: select_handler_mode_of run_handler_def coerced_handler_def)
qed

end
