(* ===== verification/MemberChange.thy ===== *)
theory MemberChange
  imports Member
begin

text \<open>
  The change-record builder of \<open>src/atom/src/memberchange.cpp\<close>.  Ten static globals
  of namespace \<open>MemberChange\<close> hold the interned strs used as the keys and type tags
  of the records; \<open>import_memberchange\<close> fills them once, guarded by the static flag
  \<open>alloced\<close>.  The five constructors \<open>created\<close>, \<open>updated\<close>, \<open>deleted\<close>, \<open>event\<close> and
  \<open>property\<close> build a fresh dict by successive \<open>cppy::ptr::setitem\<close> calls, returning
  \<open>NULL\<close> at the first failure.
\<close>

section \<open>State: the interned strings\<close>

text \<open>The ten globals, named after their C variables without the \<open>str\<close> suffix.\<close>

datatype mc_key = KCreate | KUpdate | KDelete | KEvent | KProperty
  | KType | KObject | KName | KValue | KOldValue

fun key_text :: "mc_key \<Rightarrow> string" where
  "key_text KCreate = ''create''"
| "key_text KUpdate = ''update''"
| "key_text KDelete = ''delete''"
| "key_text KEvent = ''event''"
| "key_text KProperty = ''property''"
| "key_text KType = ''type''"
| "key_text KObject = ''object''"
| "key_text KName = ''name''"
| "key_text KValue = ''value''"
| "key_text KOldValue = ''oldvalue''"

text \<open>
  The module state: the flag \<open>alloced\<close> (a function-local static of
  \<open>import_memberchange\<close>) and the ten pointers, \<open>None\<close> for \<open>NULL\<close>.
\<close>

record mcstate =
  alloced :: bool
  strs :: "mc_key \<Rightarrow> pyval option"

definition mc_init :: mcstate where
  "mc_init = \<lparr>alloced = False, strs = (\<lambda>_. None)\<rparr>"

definition interned :: "mc_key \<Rightarrow> pyval" where
  "interned k = PStr (ustr (key_text k))"

section \<open>import_memberchange\<close>

text \<open>The order of the interning calls in \<open>import_memberchange\<close>.\<close>

definition intern_order :: "mc_key list" where
  "intern_order = [KCreate, KUpdate, KDelete, KEvent, KProperty, KType, KObject, KName, KValue,
                   KOldValue]"

text \<open>
  The sequence of \<open>X = PyUnicode_InternFromString( "..." ); if( !X ) return -1;\<close>.
  \<open>ok k\<close> is the outcome of the allocation for global \<open>k\<close>: a failed call stores
  \<open>NULL\<close> in the global and stops the sequence.
\<close>

fun intern_all :: "(mc_key \<Rightarrow> bool) \<Rightarrow> mc_key list \<Rightarrow> (mc_key \<Rightarrow> pyval option)
                     \<Rightarrow> (mc_key \<Rightarrow> pyval option) \<times> bool" where
  "intern_all ok [] s = (s, True)"
| "intern_all ok (k # ks) s =
     (if ok k then intern_all ok ks (s(k := Some (interned k))) else (s(k := None), False))"

definition import_memberchange :: "(mc_key \<Rightarrow> bool) \<Rightarrow> mcstate \<Rightarrow> mcstate \<times> int" where
  "import_memberchange ok st =
     (if alloced st then (st, 0)
      else (case intern_all ok intern_order (strs st) of
              (s, True) \<Rightarrow> (st\<lparr>strs := s, alloced := True\<rparr>, 0)
            | (s, False) \<Rightarrow> (st\<lparr>strs := s\<rparr>, -1)))"

section \<open>The record constructors\<close>

definition null_item :: exc where
  "null_item = PyExc SystemError (ustr ''null argument to internal routine'')"

text \<open>
  \<open>cppy::ptr dict( PyDict_New() )\<close> followed by \<open>if( !dict.setitem( k, v ) ) return 0;\<close>
  for each pair in turn; \<open>setitem\<close> is \<open>PyObject_SetItem\<close>, which raises
  \<open>SystemError("null argument to internal routine")\<close> on a \<open>NULL\<close> key or value (a global
  that was never interned).
\<close>

fun build_dict :: "(pyval \<times> pyval) list \<Rightarrow> (pyval option \<times> pyval option) list \<Rightarrow> pyval pyres" where
  "build_dict d [] = Inr (PDict d)"
| "build_dict d ((Some k, Some v) # kvs) =
     (case PyDict_SetItem d k v of Inl e \<Rightarrow> Inl e | Inr d' \<Rightarrow> build_dict d' kvs)"
| "build_dict d (_ # kvs) = Inl null_item"

definition created :: "mcstate \<Rightarrow> pyval \<Rightarrow> member \<Rightarrow> pyval \<Rightarrow> pyval pyres" where
  "created st atom member value =
     build_dict [] [(strs st KType, strs st KCreate), (strs st KObject, Some atom),
                    (strs st KName, Some (PStr (m_name member))), (strs st KValue, Some value)]"

definition updated :: "mcstate \<Rightarrow> pyval \<Rightarrow> member \<Rightarrow> pyval \<Rightarrow> pyval \<Rightarrow> pyval pyres" where
  "updated st atom member oldvalue newvalue =
     build_dict [] [(strs st KType, strs st KUpdate), (strs st KObject, Some atom),
                    (strs st KName, Some (PStr (m_name member))),
                    (strs st KOldValue, Some oldvalue), (strs st KValue, Some newvalue)]"

definition deleted :: "mcstate \<Rightarrow> pyval \<Rightarrow> member \<Rightarrow> pyval \<Rightarrow> pyval pyres" where
  "deleted st atom member value =
     build_dict [] [(strs st KType, strs st KDelete), (strs st KObject, Some atom),
                    (strs st KName, Some (PStr (m_name member))), (strs st KValue, Some value)]"

definition event :: "mcstate \<Rightarrow> pyval \<Rightarrow> member \<Rightarrow> pyval \<Rightarrow> pyval pyres" where
  "event st atom member value =
     build_dict [] [(strs st KType, strs st KEvent), (strs st KObject, Some atom),
                    (strs st KName, Some (PStr (m_name member))), (strs st KValue, Some value)]"

definition property :: "mcstate \<Rightarrow> pyval \<Rightarrow> member \<Rightarrow> pyval \<Rightarrow> pyval \<Rightarrow> pyval pyres" where
  "property st atom member oldvalue newvalue =
     build_dict [] [(strs st KType, strs st KProperty), (strs st KObject, Some atom),
                    (strs st KName, Some (PStr (m_name member))),
                    (strs st KOldValue, Some oldvalue), (strs st KValue, Some newvalue)]"

section \<open>The life of the module state\<close>

text \<open>
  The states the globals pass through: the process starts with every global \<open>NULL\<close>
  and \<open>alloced\<close> false; each import attempt (module initialisation, or a retry after
  a failed one) runs \<open>import_memberchange\<close> with some allocation outcomes.  The
  record constructors read the state and do not change it.
\<close>

inductive mc_reachable :: "mcstate \<Rightarrow> bool" where
  init: "mc_reachable mc_init"
| import: "mc_reachable st \<Longrightarrow> mc_reachable (fst (import_memberchange ok st))"

text \<open>
  The invariant: a global is \<open>NULL\<close> or holds its own interned string, and once
  \<open>alloced\<close> is set every global holds it.
\<close>

definition mc_inv :: "mcstate \<Rightarrow> bool" where
  "mc_inv st \<longleftrightarrow>
     list_all (\<lambda>k. strs st k = None \<or> strs st k = Some (interned k)) intern_order \<and>
     (alloced st \<longrightarrow> list_all (\<lambda>k. strs st k = Some (interned k)) intern_order)"

section \<open>Lemmas\<close>

lemma intern_all_other: "k \<notin> set ks \<Longrightarrow> fst (intern_all ok ks s) k = s k"
  by (induction ks arbitrary: s) auto

lemma intern_all_True:
  "list_all ok ks \<Longrightarrow>
     intern_all ok ks s = ((\<lambda>k. if k \<in> set ks then Some (interned k) else s k), True)"
  by (induction ks arbitrary: s) (auto simp: fun_eq_iff)

lemma intern_all_False: "\<not> list_all ok ks \<Longrightarrow> snd (intern_all ok ks s) = False"
  by (induction ks arbitrary: s) auto

text \<open>Every global the sequence writes is left \<open>NULL\<close> or holding its string.\<close>

lemma intern_all_slot: "fst (intern_all ok ks s) k \<in> {s k, None, Some (interned k)}"
proof (induction ks arbitrary: s)
  case Nil
  then show ?case by simp
next
  case (Cons k' ks)
  show ?case
  proof (cases "ok k'")
    case True
    have "fst (intern_all ok ks (s(k' := Some (interned k')))) k \<in>
            {(s(k' := Some (interned k'))) k, None, Some (interned k)}"
      by (rule Cons.IH)
    with True show ?thesis by (auto split: if_splits)
  next
    case False
    then show ?thesis by simp
  qed
qed

lemma all_keys: "k \<in> set intern_order"
  by (cases k) (simp_all add: intern_order_def)

lemma list_all_keys: "list_all P intern_order \<longleftrightarrow> (\<forall>k. P k)"
  using all_keys by (auto simp: list_all_iff)

lemma import_memberchange_inv: "mc_inv st \<Longrightarrow> mc_inv (fst (import_memberchange ok st))"
proof -
  assume inv: "mc_inv st"
  obtain s b where ia: "intern_all ok intern_order (strs st) = (s, b)"
    by (cases "intern_all ok intern_order (strs st)")
  have slot: "s k = None \<or> s k = Some (interned k)" for k
  proof -
    have "strs st k = None \<or> strs st k = Some (interned k)"
      using inv by (simp add: mc_inv_def list_all_keys)
    moreover have "s k \<in> {strs st k, None, Some (interned k)}"
      using intern_all_slot [of ok intern_order "strs st" k] ia by simp
    ultimately show ?thesis by auto
  qed
  have full: "b \<Longrightarrow> s k = Some (interned k)" for k
    using ia intern_all_False [of ok intern_order "strs st"] intern_all_True [of ok intern_order "strs st"]
    by (cases "list_all ok intern_order") (auto simp: all_keys)
  show ?thesis
    using inv slot full ia
    by (auto simp: import_memberchange_def mc_inv_def list_all_keys split: bool.splits)
qed

lemma mc_init_inv: "mc_inv mc_init"
  by (simp add: mc_inv_def mc_init_def list_all_iff)

text \<open>Once the flag is set in a reachable state, every global holds its string.\<close>

lemma mc_reachable_strs:
  assumes "mc_reachable st" and "alloced st"
  shows "strs st k = Some (interned k)"
proof -
  have "mc_inv st"
    using assms(1) by induction (simp_all add: mc_init_inv import_memberchange_inv)
  with assms(2) show ?thesis by (simp add: mc_inv_def list_all_keys)
qed

lemma unhashable_PStr [simp]: "unhashable (PStr a) = None"
  by (simp add: unhashable.simps)

text \<open>C11.  Every reachable state of the globals satisfies the invariant.\<close>

theorem mc_reachable_inv: "mc_reachable st \<Longrightarrow> mc_inv st"
  by (induction rule: mc_reachable.induct) (simp_all add: mc_init_inv import_memberchange_inv)

text \<open>
  C12.  \<open>import_memberchange\<close> returns 0 exactly when the flag was already set or
  every interning succeeds, and then all ten globals hold their strings; otherwise it
  returns -1 and leaves the flag clear, so that a later call starts over.
\<close>

theorem import_memberchange_result:
  assumes "mc_reachable st" and "import_memberchange ok st = (st', r)"
  shows "(r = 0 \<longleftrightarrow> alloced st \<or> (\<forall>k. ok k)) \<and>
         (r = 0 \<longrightarrow> alloced st' \<and> (\<forall>k. strs st' k = Some (interned k))) \<and>
         (r \<noteq> 0 \<longrightarrow> r = -1 \<and> \<not> alloced st')"
proof (cases "alloced st")
  case True
  with assms show ?thesis by (auto simp: import_memberchange_def mc_reachable_strs)
next
  case False
  show ?thesis
  proof (cases "list_all ok intern_order")
    case True
    with False assms(2) show ?thesis
      by (auto simp: import_memberchange_def intern_all_True all_keys list_all_keys)
  next
    case nok: False
    then obtain s where "intern_all ok intern_order (strs st) = (s, False)"
      using intern_all_False [of ok intern_order "strs st"] by (cases "intern_all ok intern_order (strs st)") auto
    with False nok assms(2) show ?thesis
      by (auto simp: import_memberchange_def list_all_keys)
  qed
qed

lemma mc_strs_alloced:
  "mc_reachable st \<Longrightarrow> alloced st \<Longrightarrow> strs st = (\<lambda>k. Some (interned k))"
  by (auto simp: mc_reachable_strs)

text \<open>
  C13.  After a successful import, \<open>updated\<close> builds the record
  \<open>{type: 'update', object, name, oldvalue, value}\<close> with exactly these five keys, in
  this order.
\<close>

theorem updated_record:
  assumes "mc_reachable st" and "alloced st"
  shows "updated st atom member oldvalue newvalue =
           Inr (PDict [(PStr (ustr ''type''), PStr (ustr ''update'')), (PStr (ustr ''object''), atom),
                       (PStr (ustr ''name''), PStr (m_name member)),
                       (PStr (ustr ''oldvalue''), oldvalue), (PStr (ustr ''value''), newvalue)])"
  using mc_strs_alloced [OF assms]
  by (simp add: updated_def interned_def PyDict_SetItem_def ustr_def)

text \<open>
  C15.  After a successful import, \<open>created\<close>, \<open>deleted\<close>, \<open>event\<close> and \<open>property\<close>
  build their records with the tags \<open>'create'\<close>, \<open>'delete'\<close>, \<open>'event'\<close> and
  \<open>'property'\<close>, with the keys in the order of the setitem chain; only \<open>property\<close>
  carries an \<open>oldvalue\<close>.
\<close>

theorem records_after_import:
  assumes "mc_reachable st" and "alloced st"
  shows "created st atom member value =
           Inr (PDict [(PStr (ustr ''type''), PStr (ustr ''create'')), (PStr (ustr ''object''), atom),
                       (PStr (ustr ''name''), PStr (m_name member)), (PStr (ustr ''value''), value)]) \<and>
         deleted st atom member value =
           Inr (PDict [(PStr (ustr ''type''), PStr (ustr ''delete'')), (PStr (ustr ''object''), atom),
                       (PStr (ustr ''name''), PStr (m_name member)), (PStr (ustr ''value''), value)]) \<and>
         event st atom member value =
           Inr (PDict [(PStr (ustr ''type''), PStr (ustr ''event'')), (PStr (ustr ''object''), atom),
                       (PStr (ustr ''name''), PStr (m_name member)), (PStr (ustr ''value''), value)]) \<and>
         property st atom member oldvalue value =
           Inr (PDict [(PStr (ustr ''type''), PStr (ustr ''property'')), (PStr (ustr ''object''), atom),
                       (PStr (ustr ''name''), PStr (m_name member)),
                       (PStr (ustr ''oldvalue''), oldvalue), (PStr (ustr ''value''), value)])"
  using mc_strs_alloced [OF assms]
  by (simp add: created_def deleted_def event_def property_def interned_def PyDict_SetItem_def ustr_def)

text \<open>Import attempts in turn, each with its own allocation outcomes.\<close>

lemma import_alloced_stays: "alloced st \<Longrightarrow> import_memberchange ok st = (st, 0)"
  by (simp add: import_memberchange_def)

lemma import_all_ok: "alloced (fst (import_memberchange (\<lambda>_. True) st))"
  by (simp add: import_memberchange_def intern_all_True list_all_iff)

lemma fold_import_reachable:
  "mc_reachable st \<Longrightarrow> mc_reachable (fold (\<lambda>ok s. fst (import_memberchange ok s)) oks st)"
  by (induction oks arbitrary: st) (simp_all add: mc_reachable.import)

lemma fold_import_alloced:
  "alloced st \<Longrightarrow> fold (\<lambda>ok s. fst (import_memberchange ok s)) oks st = st"
  by (induction oks) (simp_all add: import_alloced_stays)

text \<open>
  C32.  Progress of the module state: from any reachable state, a series of import
  attempts in which one attempt gets all ten of its allocations ends in a reachable
  state with the flag set, however the other attempts fail, before or after that one.
\<close>

theorem import_eventually_alloced:
  assumes "mc_reachable st" and "\<exists>ok\<in>set oks. \<forall>k. ok k"
  shows "mc_reachable (fold (\<lambda>ok s. fst (import_memberchange ok s)) oks st) \<and>
         alloced (fold (\<lambda>ok s. fst (import_memberchange ok s)) oks st)"
proof
  show "mc_reachable (fold (\<lambda>ok s. fst (import_memberchange ok s)) oks st)"
    using assms(1) by (rule fold_import_reachable)
  show "alloced (fold (\<lambda>ok s. fst (import_memberchange ok s)) oks st)"
    using assms(2)
  proof (induction oks arbitrary: st)
    case Nil
    then show ?case by simp
  next
    case (Cons ok oks)
    show ?case
    proof (cases "\<forall>k. ok k")
      case True
      then have "ok = (\<lambda>_. True)" by auto
      then have "alloced (fst (import_memberchange ok st))" by (simp only: import_all_ok)
      then show ?thesis by (simp add: fold_import_alloced)
    next
      case False
      with Cons.prems have "\<exists>ok\<in>set oks. \<forall>k. ok k" by auto
      then show ?thesis by (simp add: Cons.IH)
    qed
  qed
qed

end
