(* ===== verification/Spec2Isabelle.thy ===== *)
theory Spec2Isabelle
  imports Safety Dicts Results Escapes Config MemberChange
begin

text \<open>
  \<^bold>\<open>A verification library for the validation engine of atom.\<close>

  The repository's sources are two files of the C++ extension of atom.
  \<^item> \<open>src/atom/src/validatebehavior.cpp\<close>: \<open>Member::check_context\<close> (the
    declaration-time check of a member's configuration), thirty validation
    handlers in a table \<open>handlers[]\<close> indexed by the member's validate mode, and the
    dispatcher \<open>Member::validate\<close>.  The container handlers (tuple, list, dict)
    re-enter the validators for their items through \<open>Member::full_validate\<close>; the
    delegate handler re-enters \<open>Member::validate\<close> of another member; the coercion
    and callback handlers run user Python code, which may itself write attributes
    and so re-enter the engine.
  \<^item> \<open>src/atom/src/memberchange.cpp\<close>: the change-record builder, five
    constructors of the dicts handed to observers, and \<open>import_memberchange\<close>, which
    interns their keys once.

  \<^bold>\<open>Theories.\<close>
  \<^item> \<open>Atom_Prelude\<close>: the result type of a step that runs Python code (the new
    interpreter state with an exception or a value, \<open>None\<close> when out of fuel), the
    loop combinators \<open>mapR\<close> (the tuple and list loops) and \<open>foldR\<close> (the dict
    loops), with their sequencing, totality and extension lemmas.
  \<^item> \<open>PyObject\<close>: the CPython objects the engine sees (\<open>pyval\<close>), their types and
    MROs, exceptions (\<open>exc\<close>; \<open>Undefined\<close> marks undefined behaviour of the C code),
    and the C-API operations the sources call: type checks, \<open>isinstance\<close>,
    \<open>issubclass\<close>, \<open>==\<close>, rich comparison, containment, and \<open>PyDict_SetItem\<close> on an
    insertion-ordered association list.
  \<^item> \<open>Conversions\<close>: \<open>PyLong_FromDouble\<close>, \<open>PyLong_AsDouble\<close> (round to 53 bits,
    ties to even, overflow when the rounded value reaches \<open>2 ^ 1024\<close>), strict UTF-8
    and the C string read by \<open>PyBytes_AS_STRING\<close>; the rounding error bound and the
    overflow threshold \<open>2 ^ 1024 - 2 ^ 970\<close> of the rounding.
  \<^item> \<open>Member\<close>: the \<open>member\<close> record, the environment \<open>'w pyenv\<close> (class table, the
    store of Member objects, and the hooks through which user code runs:
    \<open>py_call\<close>, \<open>py_getattr\<close>, \<open>py_contains\<close>, \<open>post_validate\<close>, each taking and
    returning the interpreter state \<open>'w\<close>), the mode catalog \<open>vmode\<close>, the table
    \<open>handlers\<close>, the table lookup \<open>select_handler\<close> and \<open>check_context\<close>.
  \<^item> \<open>Handlers\<close>: one definition per non-recursive handler of
    \<open>validatebehavior.cpp\<close>, under the C name.
  \<^item> \<open>Dispatch\<close>: the container handlers (\<open>tuple_handler\<close>, \<open>common_list_handler\<close>
    with its instances \<open>list_handler\<close> and \<open>container_list_handler\<close>, the dict
    loops and \<open>dict_handler\<close>), \<open>delegate_handler\<close>,
    \<open>full_validate_with\<close>, \<open>run_handler\<close> (the body of the table call) and
    \<open>validate\<close>, the dispatcher.
  \<^item> \<open>MemberChange\<close>: the ten interned-string globals of \<open>memberchange.cpp\<close> and the
    flag \<open>alloced\<close> as a record \<open>mcstate\<close>; \<open>import_memberchange\<close> as a function of
    the allocation outcomes (\<open>PyUnicode_InternFromString\<close> may fail); the five
    record constructors over \<open>build_dict\<close> (the \<open>setitem\<close> chains); and the states
    the globals reach as an inductive predicate \<open>mc_reachable\<close>.
  \<^item> \<open>Safety\<close>: what a defined outcome is (no \<open>Undefined\<close>), the well-formedness of a
    member store (\<open>wf_env\<close>: catalog modes, contexts \<open>check_context\<close> accepts, closed
    under the members they name) and of user code (\<open>hooks_safe\<close>), one safety lemma
    per handler, and the safety of the dispatcher.
  \<^item> \<open>Dicts\<close>: the spec's single mapping loop \<open>dict_loop\<close> as a reference for the
    dict handler, and the dict invariant \<open>dict_wf\<close> through the handler.
  \<^item> \<open>Results\<close>: \<open>result_type\<close>, the kind of value each mode of the catalog
    promises, the typing of the dispatcher's results, the abort of the tuple
    and list loops at the first failing item, and the item pipeline of the tuple
    loop through \<open>full_validate\<close> (validation, then post-validation).
  \<^item> \<open>Escapes\<close>: the Enum, Coerced, callback and nullable constraint modes and a
    delegation cycle, stated of \<open>validate\<close> itself, through the table and
    \<open>run_handler\<close>.
  \<^item> \<open>Config\<close>: \<open>context_shape\<close>, the context shapes section 4.1 of the spec
    requires of each mode, and \<open>check_context\<close> against it.

  \<^bold>\<open>Fuel.\<close>  \<open>validate env n\<close> spends one unit of fuel per entry into
  \<open>Member::validate\<close>.  The C code has no bound: a member whose context names itself
  (directly or through other members) recurses until the C stack overflows, and
  \<open>None\<close> is that outcome.  A member graph is \<open>ranked\<close> when every member names
  only members of lower rank; then fuel greater than the rank of the member always
  suffices (\<open>validate_enough_fuel\<close>), and more fuel never changes a result
  (\<open>validate_mono\<close>).  Item loops do not spend fuel: they are structural
  recursion over the finite container.

  \<^bold>\<open>What is proved so far.\<close>
  \<^item> Termination of the dispatcher on ranked member graphs, and monotonicity in
    the fuel (\<open>Dispatch\<close>).
  \<^item> The handler table agrees with the mode catalog, and the guard of
    \<open>Member::validate\<close> lets the mode bytes 30 to 239 index past the end of the
    table, since \<open>sizeof( handlers )\<close> counts bytes (\<open>Member\<close>).
  \<^item> Handler behaviour (\<open>Handlers\<close>, \<open>Dispatch\<close>): Range on every branch; Delegate
    forwards the whole call; and four places where the code does not do what the spec
    says: an Int member accepts bool, Typed accepts subclass instances, FloatRange
    accepts NaN, and an Instance context is never checked at declaration.
  \<^item> The change records (\<open>MemberChange\<close>): the invariant of the globals by rule
    induction over \<open>mc_reachable\<close>, the result of \<open>import_memberchange\<close> on every
    branch, and the exact key set of each of the five records after a successful
    import.
  \<^item> Promotion (\<open>Handlers\<close>, \<open>Conversions\<close>): exact int to float conversion below
    \<open>2 ^ 53\<close> and overflow from \<open>2 ^ 1024\<close>, truncation toward zero, the UTF-8 round
    trip and the C-string truncation of str promotion.
  \<^item> Safety (\<open>Safety\<close>): no undefined behaviour on a well-formed store.
  \<^item> Dicts (\<open>Dicts\<close>): the four branches of the dict handler equal the reference
    loop, results are well-formed dicts no longer than the input, and keys the key
    validator maps to equal keys merge.
  \<^item> Result types (\<open>Results\<close>): every accepted value has the kind its mode names;
    tuple, atom-list and container-list loops stop at the first failing item; the
    tuple loop runs every item through \<open>Member::validate\<close> and then the item
    member's post-validation hook, which the spec does not mention.
  \<^item> Escape hatches (\<open>Escapes\<close>): Enum over a tuple or list is membership by
    \<open>==\<close> with a \<open>ValueError\<close> otherwise, but over a str it is a substring test;
    Coerced calls the coercer only for a non-instance, propagates its exception and
    rechecks its result (raising \<open>TypeError\<close>, where the spec's taxonomy says
    \<open>ValueError\<close>); the callbacks look the method up at every write and pass
    \<open>(old, new)\<close>, \<open>(name, old, new)\<close> or \<open>(atom, old, new)\<close>.
  \<^item> Rounding (\<open>Handlers\<close>): FloatPromote of an int is correctly rounded (within
    half a unit in the last place) and overflows exactly from
    \<open>2 ^ 1024 - 2 ^ 970\<close>, the tie that rounds to even at \<open>2 ^ 1024\<close>.
  \<^item> Progress of the module state (\<open>MemberChange\<close>): from every reachable state,
    any series of import attempts of which one gets all its allocations sets the
    flag.
  \<^item> Configuration (\<open>Config\<close>): \<open>check_context\<close> accepts every context of the
    shape the spec requires and, but for Subclass and the type slot of Coerced,
    nothing else; every rejection is the \<open>TypeError\<close> naming the expected shape;
    an unchecked Coerced type makes every write fail in \<open>isinstance\<close>.
  \<^item> Delegation cycles and \<open>None\<close> (\<open>Escapes\<close>): a member delegating to itself is
    accepted and never returns; Instance, Typed and Callable accept \<open>None\<close>,
    Subclass does not.
  \<^item> BytesPromote (\<open>Handlers\<close>) fails exactly on strs holding a surrogate.

  \<^bold>\<open>Re-entrancy.\<close>  User code (coercers, callbacks, user containers and the
  post-validation hook) is an arbitrary function of the interpreter state \<open>'w\<close>
  through the hooks of \<open>pyenv\<close>; it may itself write attributes and so re-enter the
  dispatcher.  Every theorem holds for every choice of the hooks, so re-entrant
  user code is covered without a model of its own; the safety theorem asks only
  that the hooks raise Python exceptions (\<open>hooks_safe\<close>).

  \<^bold>\<open>Coverage.\<close>  Every function of \<open>validatebehavior.cpp\<close> and \<open>memberchange.cpp\<close>
  has a definition; the lines outside the map are the license headers and the
  includes.

  \<^bold>\<open>Not modelled.\<close>  Reference counting, and allocation failure other than that of
  \<open>PyUnicode_InternFromString\<close> in \<open>import_memberchange\<close> (\<open>PyTuple_New\<close>,
  \<open>PyDict_New\<close> returning \<open>NULL\<close>): elsewhere the model never runs out of memory.
  \<open>__instancecheck__\<close>, \<open>__subclasscheck__\<close>, \<open>__eq__\<close> and \<open>__hash__\<close> overrides
  of user classes, and the identity shortcut of dict lookup.  Mutation of the input
  container by user code while a loop iterates over it: the input is a value.  The
  rounding of the floats users create (a float is a rational, an infinity or NaN).
  The storage layout of \<open>CAtom\<close>, the observable lists themselves and observer
  dispatch.  \<open>Member\<close> itself (\<open>member.h\<close>, \<open>member.cpp\<close>) is not among the
  sources: only the fields validation reads and \<open>full_validate\<close> are modelled, from
  the spec and from the calls the sources make, and \<open>Member::post_validate\<close> is a
  hook.

  \<^bold>\<open>Examples.\<close>  The witnesses below run the dispatcher on \<open>demo_env\<close>: member 0
  is \<open>Range(0, 10)\<close>, member 1 delegates to member 0, member 2 is a \<open>Tuple\<close> whose
  items are validated by member 1, member 3 is an \<open>Int\<close> and member 4 an
  \<open>IntPromote\<close>; \<open>dict_member\<close> is a \<open>Dict\<close> whose values member 0 validates.  The handler witnesses
  use single members: \<open>Typed(int)\<close>, \<open>FloatRange(0.0, 1.0)\<close> and an \<open>Instance\<close>
  member whose context is the int 3.  \<open>mc_loaded\<close> is the state of the globals after
  an import in which every allocation succeeds.  \<open>hook_env\<close> holds the spec's
  examples of the escape hatches (Enum of \<open>"a", "b", "c"\<close>, Enum over the str
  \<open>"abc"\<close>, Coerced with \<open>(int, str_to_int)\<close>, a \<open>(name, old, new)\<close> callback, and a
  Coerced member whose type slot is the int 3, a member delegating to itself, and
  \<open>Typed(int)\<close>, and a Tuple of \<open>Int\<close> items whose item member has a
  post-validate mode; the post-validation hook wraps its value in a tuple), with
  user code that counts its calls in the interpreter state.
\<close>

definition demo_classes :: classtab where
  "demo_classes = \<lparr>ct_mro = (\<lambda>s. [TUser s, TObject]), ct_callable = (\<lambda>s. False),
                   ct_sequence = (\<lambda>s. False), ct_instancecheck = (\<lambda>s v. Inr False),
                   ct_subclasscheck = (\<lambda>s v. Inr False)\<rparr>"

definition range_member :: member where
  "range_member = \<lparr>m_name = ustr ''x'', m_class = TMember, validate_mode = mode_byte VRange,
                   validate_context = PTuple [PInt 0, PInt 10], post_validate_mode = 0\<rparr>"

definition delegate_member :: member where
  "delegate_member = \<lparr>m_name = ustr ''y'', m_class = TMember, validate_mode = mode_byte VDelegate,
                      validate_context = PMember TMember 0, post_validate_mode = 0\<rparr>"

definition tuple_member :: member where
  "tuple_member = \<lparr>m_name = ustr ''z'', m_class = TMember, validate_mode = mode_byte VTuple,
                   validate_context = PMember TMember 1, post_validate_mode = 0\<rparr>"

definition int_member :: member where
  "int_member = \<lparr>m_name = ustr ''n'', m_class = TMember, validate_mode = mode_byte VInt,
                 validate_context = PNone, post_validate_mode = 0\<rparr>"

definition typed_int_member :: member where
  "typed_int_member = \<lparr>m_name = ustr ''t'', m_class = TMember, validate_mode = mode_byte VTyped,
                       validate_context = PType TInt, post_validate_mode = 0\<rparr>"

definition unit_range_member :: member where
  "unit_range_member = \<lparr>m_name = ustr ''f'', m_class = TMember, validate_mode = mode_byte VFloatRange,
                        validate_context = PTuple [PFloat (Fin 0), PFloat (Fin 1)],
                        post_validate_mode = 0\<rparr>"

definition int_promote_member :: member where
  "int_promote_member = \<lparr>m_name = ustr ''k'', m_class = TMember, validate_mode = mode_byte VIntPromote,
                         validate_context = PNone, post_validate_mode = 0\<rparr>"

definition dict_member :: member where
  "dict_member = \<lparr>m_name = ustr ''d'', m_class = TMember, validate_mode = mode_byte VDict,
                  validate_context = PTuple [PNone, PMember TMember 0], post_validate_mode = 0\<rparr>"

definition bad_instance_member :: member where
  "bad_instance_member = \<lparr>m_name = ustr ''i'', m_class = TMember, validate_mode = mode_byte VInstance,
                          validate_context = PInt 3, post_validate_mode = 0\<rparr>"

text \<open>The interpreter state of the examples counts the calls into user code.\<close>

definition demo_env :: "nat pyenv" where
  "demo_env = \<lparr>classes = demo_classes,
               members = [(0, range_member), (1, delegate_member), (2, tuple_member), (3, int_member),
                          (4, int_promote_member)],
               py_call = (\<lambda>w f args. (Suc w, Inl (PyExc (UserError ''demo'') []))),
               py_getattr = (\<lambda>w obj s. (w, Inl (PyExc AttributeError s))),
               py_contains = (\<lambda>w s v. (w, Inr False)),
               post_validate = (\<lambda>w j a old new. (w, Inr new))\<rparr>"

definition demo_atom :: pyval where
  "demo_atom = PObj (TUser ''Foo'') 0"

definition mc_loaded :: mcstate where
  "mc_loaded = fst (import_memberchange (\<lambda>_. True) mc_init)"

definition enum_member :: member where
  "enum_member = \<lparr>m_name = ustr ''e'', m_class = TMember, validate_mode = mode_byte VEnum,
                  validate_context = PTuple [PStr (ustr ''a''), PStr (ustr ''b''), PStr (ustr ''c'')],
                  post_validate_mode = 0\<rparr>"

definition str_enum_member :: member where
  "str_enum_member = \<lparr>m_name = ustr ''s'', m_class = TMember, validate_mode = mode_byte VEnum,
                      validate_context = PStr (ustr ''abc''), post_validate_mode = 0\<rparr>"

definition str_to_int :: pyval where
  "str_to_int = PObj TFunction 7"

definition coerced_member :: member where
  "coerced_member = \<lparr>m_name = ustr ''c'', m_class = TMember, validate_mode = mode_byte VCoerced,
                     validate_context = PTuple [PType TInt, str_to_int], post_validate_mode = 0\<rparr>"

definition bad_coerced_member :: member where
  "bad_coerced_member = \<lparr>m_name = ustr ''b'', m_class = TMember, validate_mode = mode_byte VCoerced,
                         validate_context = PTuple [PInt 3, PType TInt], post_validate_mode = 0\<rparr>"

definition cycle_member :: member where
  "cycle_member = \<lparr>m_name = ustr ''r'', m_class = TMember, validate_mode = mode_byte VDelegate,
                   validate_context = PMember TMember 10, post_validate_mode = 0\<rparr>"

definition post_int_member :: member where
  "post_int_member = \<lparr>m_name = ustr ''p'', m_class = TMember, validate_mode = mode_byte VInt,
                      validate_context = PNone, post_validate_mode = 1\<rparr>"

definition tuple_post_member :: member where
  "tuple_post_member = \<lparr>m_name = ustr ''q'', m_class = TMember, validate_mode = mode_byte VTuple,
                        validate_context = PMember TMember 13, post_validate_mode = 0\<rparr>"

definition callback_member :: member where
  "callback_member = \<lparr>m_name = ustr ''cb'', m_class = TMember,
                      validate_mode = mode_byte VObjectMethod_NameOldNew,
                      validate_context = PStr (ustr ''_validate_cb''), post_validate_mode = 0\<rparr>"

definition hook_call :: "nat \<Rightarrow> pyval \<Rightarrow> pyval list \<Rightarrow> (nat, exc, pyval) step" where
  "hook_call w f args =
     (if f = str_to_int then
        (if args = [PStr (ustr ''42'')] then (Suc w, Inr (PInt 42))
         else (Suc w, Inl (PyExc ValueError (ustr ''invalid literal for int()''))))
      else (Suc w, Inr (PTuple args)))"

text \<open>
  The interpreter of the escape-hatch examples: \<open>str_to_int\<close> parses \<open>"42"\<close> and raises
  \<open>ValueError\<close> on anything else, every other callable returns its arguments as a
  tuple, and \<open>_validate_cb\<close> is the one attribute the atom has.
\<close>

definition hook_env :: "nat pyenv" where
  "hook_env = \<lparr>classes = demo_classes,
               members = [(5, enum_member), (6, str_enum_member), (7, coerced_member),
                          (8, callback_member), (9, bad_coerced_member),
                          (10, cycle_member), (11, typed_int_member), (12, tuple_post_member),
                          (13, post_int_member)],
               py_call = hook_call,
               py_getattr = (\<lambda>w obj s. if s = ustr ''_validate_cb'' then (w, Inr (PObj (TUser ''method'') 1))
                                      else (w, Inl (PyExc AttributeError s))),
               py_contains = (\<lambda>w s v. (w, Inr False)),
               post_validate = (\<lambda>w j a old new. (Suc w, Inr (PTuple [new])))\<rparr>"

definition list_member :: member where
  "list_member = \<lparr>m_name = ustr ''l'', m_class = TMember, validate_mode = mode_byte VList,
                  validate_context = PMember TMember 1, post_validate_mode = 0\<rparr>"

definition unknown_mode_member :: member where
  "unknown_mode_member = \<lparr>m_name = ustr ''u'', m_class = TMember, validate_mode = 250,
                          validate_context = PNone, post_validate_mode = 0\<rparr>"

theorem demo_ranked: "ranked demo_env (\<lambda>i. i)"
  by code_simp

theorem demo_tuple_too_large:
  "validate demo_env 4 2 demo_atom PNone (PTuple [PInt 5, PInt 11]) 0 = Some (0, Inl too_large)"
  by code_simp

theorem validate_enough_fuel_witness:
  "ranked demo_env (\<lambda>i. i) \<and> (2::nat) < 3 \<and>
   returns (validate demo_env 3 2 demo_atom PNone (PTuple [PInt 5]) 0)"
  using demo_ranked validate_enough_fuel [OF demo_ranked, of 2 3 demo_atom PNone "PTuple [PInt 5]" 0]
  by simp

theorem range_handler_bounds_witness:
  "validate_context range_member = PTuple [PInt 0, PInt 10] \<and>
   index_of (PInt 0) = Some 0 \<and> index_of (PInt 10) = Some 10 \<and> index_of (PInt 11) = Some 11 \<and>
   range_handler range_member demo_atom (PInt 11) = Inl too_large"
  using range_handler_bounds [of range_member "PInt 0" "PInt 10" 0 10 "PInt 11" 11 demo_atom]
  by (simp add: range_member_def)

theorem validate_delegate_witness:
  "member_of demo_env 1 = Some delegate_member \<and>
   validate_mode delegate_member = mode_byte VDelegate \<and>
   validate_context delegate_member = PMember TMember 0 \<and>
   validate demo_env 5 1 demo_atom PNone (PInt 11) 0 = validate demo_env 4 0 demo_atom PNone (PInt 11) 0"
proof -
  have m: "member_of demo_env 1 = Some delegate_member"
    by (simp add: demo_env_def member_of_def)
  have v: "validate_mode delegate_member = mode_byte VDelegate"
    and c: "validate_context delegate_member = PMember TMember 0"
    by (simp_all add: delegate_member_def)
  have "validate demo_env (Suc 4) 1 demo_atom PNone (PInt 11) 0 =
        validate demo_env 4 0 demo_atom PNone (PInt 11) 0"
    by (rule validate_delegate [OF m v c])
  with m v c show ?thesis by (simp add: numeral_eq_Suc)
qed

theorem validate_int_accepts_bool_witness:
  "member_of demo_env 3 = Some int_member \<and> validate_mode int_member = mode_byte VInt \<and>
   validate demo_env 1 3 demo_atom PNone (PBool True) 0 = Some (0, Inr (PBool True))"
proof -
  have m: "member_of demo_env 3 = Some int_member"
    by (simp add: demo_env_def member_of_def)
  have v: "validate_mode int_member = mode_byte VInt"
    by (simp add: int_member_def)
  have "validate demo_env (Suc 0) 3 demo_atom PNone (PBool True) 0 = Some (0, Inr (PBool True))"
    by (rule validate_int_accepts_bool [OF m v])
  with m v show ?thesis by simp
qed

theorem typed_handler_subtype_witness:
  "validate_context typed_int_member = PType TInt \<and> PBool True \<noteq> PNone \<and>
   typed_handler demo_classes typed_int_member demo_atom (PBool True) = Inr (PBool True)"
  using typed_handler_subtype [of typed_int_member TInt "PBool True" demo_classes demo_atom]
  by (simp add: typed_int_member_def is_subtype_def)

theorem float_range_accepts_nan_witness:
  "validate_context unit_range_member = PTuple [PFloat (Fin 0), PFloat (Fin 1)] \<and>
   float_range_handler unit_range_member demo_atom (PFloat NaN) = Inr (PFloat NaN)"
  using float_range_accepts_nan [of unit_range_member "PFloat (Fin 0)" "PFloat (Fin 1)" demo_atom]
  by (simp add: unit_range_member_def)

theorem instance_context_unchecked_witness:
  "validate_context bad_instance_member = PInt 3 \<and> \<not> PyType_Check (PInt 3) \<and>
   \<not> PyTuple_Check (PInt 3) \<and> (\<forall>s k. PInt 3 \<noteq> PObj (TUser s) k) \<and>
   check_context demo_classes (mode_byte VInstance) (PInt 3) = Inr () \<and>
   instance_handler demo_classes bad_instance_member (PInt 5) = Inl isinstance_arg_error"
  using instance_context_unchecked [of bad_instance_member "PInt 3" demo_classes "PInt 5"]
  by (simp add: bad_instance_member_def)

lemma mc_loaded_reachable: "mc_reachable mc_loaded"
  unfolding mc_loaded_def by (rule mc_reachable.import [OF mc_reachable.init])

lemma mc_loaded_alloced: "alloced mc_loaded"
  by code_simp

theorem mc_reachable_inv_witness: "mc_reachable mc_loaded \<and> mc_inv mc_loaded"
  using mc_loaded_reachable mc_reachable_inv [OF mc_loaded_reachable] by simp

theorem import_memberchange_result_witness:
  "mc_reachable mc_init \<and> import_memberchange (\<lambda>k. k \<noteq> KName) mc_init =
     (fst (import_memberchange (\<lambda>k. k \<noteq> KName) mc_init), -1) \<and>
   \<not> alloced (fst (import_memberchange (\<lambda>k. k \<noteq> KName) mc_init))"
proof -
  have r: "snd (import_memberchange (\<lambda>k. k \<noteq> KName) mc_init) = -1"
    by code_simp
  have e: "import_memberchange (\<lambda>k. k \<noteq> KName) mc_init =
             (fst (import_memberchange (\<lambda>k. k \<noteq> KName) mc_init), -1)"
    using r by (metis prod.collapse)
  show ?thesis
    using import_memberchange_result [OF mc_reachable.init e] mc_reachable.init e by simp
qed

theorem updated_record_witness:
  "mc_reachable mc_loaded \<and> alloced mc_loaded \<and>
   updated mc_loaded demo_atom range_member (PInt 1) (PInt 2) =
     Inr (PDict [(PStr (ustr ''type''), PStr (ustr ''update'')), (PStr (ustr ''object''), demo_atom),
                 (PStr (ustr ''name''), PStr (ustr ''x'')),
                 (PStr (ustr ''oldvalue''), PInt 1), (PStr (ustr ''value''), PInt 2)])"
  using updated_record [OF mc_loaded_reachable mc_loaded_alloced, of demo_atom range_member "PInt 1" "PInt 2"]
        mc_loaded_reachable mc_loaded_alloced
  by (simp add: range_member_def)

theorem records_after_import_witness:
  "mc_reachable mc_loaded \<and> alloced mc_loaded \<and>
   created mc_loaded demo_atom range_member (PInt 5) =
     Inr (PDict [(PStr (ustr ''type''), PStr (ustr ''create'')), (PStr (ustr ''object''), demo_atom),
                 (PStr (ustr ''name''), PStr (ustr ''x'')), (PStr (ustr ''value''), PInt 5)]) \<and>
   deleted mc_loaded demo_atom range_member (PInt 5) =
     Inr (PDict [(PStr (ustr ''type''), PStr (ustr ''delete'')), (PStr (ustr ''object''), demo_atom),
                 (PStr (ustr ''name''), PStr (ustr ''x'')), (PStr (ustr ''value''), PInt 5)])"
  using records_after_import [OF mc_loaded_reachable mc_loaded_alloced, of demo_atom range_member "PInt 5"]
        mc_loaded_reachable mc_loaded_alloced
  by (simp add: range_member_def)

theorem float_promote_int_witness:
  "float_promote_handler range_member demo_atom (PFloat NaN) = Inr (PFloat NaN) \<and>
   (\<bar>5::int\<bar> < 2 ^ 53 \<and> float_promote_handler range_member demo_atom (PInt 5) = Inr (PFloat (Fin 5))) \<and>
   (2 ^ 1024 \<le> \<bar>2 ^ 1024 :: int\<bar> \<and>
    float_promote_handler range_member demo_atom (PInt (2 ^ 1024)) =
      Inl (PyExc OverflowError (ustr ''int too large to convert to float'')))"
  using float_promote_int [of range_member demo_atom NaN 5]
        float_promote_int [of range_member demo_atom NaN "2 ^ 1024"]
  by simp

theorem long_promote_float_witness:
  "long_promote_handler range_member demo_atom (PFloat (Fin (-5/2))) = Inr (PInt (-2))"
  using long_promote_float [of range_member demo_atom "-5/2" "-2"]
  by simp

theorem str_promote_roundtrip_witness:
  "bytes_promote_handler range_member demo_atom (PStr (ustr ''ab'')) = Inr (PBytes [97, 98]) \<and>
   0 \<notin> set (ustr ''ab'') \<and>
   str_promote_handler range_member demo_atom (PBytes [97, 98]) = Inr (PStr (ustr ''ab''))"
proof -
  have e: "bytes_promote_handler range_member demo_atom (PStr (ustr ''ab'')) = Inr (PBytes [97, 98])"
    by code_simp
  have z: "0 \<notin> set (ustr ''ab'')"
    by code_simp
  show ?thesis using e z str_promote_roundtrip [OF e z] by simp
qed

theorem str_promote_truncates_witness:
  "0 \<notin> set [97, 98 :: byte] \<and>
   str_promote_handler range_member demo_atom (PBytes [97, 98, 0, 99]) =
     str_promote_handler range_member demo_atom (PBytes [97, 98])"
  using str_promote_truncates [of "[97, 98]" range_member demo_atom "[99]"]
  by simp

theorem validate_defined_witness:
  "wf_env demo_env \<and> hooks_safe demo_env \<and> member_of demo_env 2 \<noteq> None \<and>
   safe (validate demo_env 4 2 demo_atom PNone (PTuple [PInt 5, PInt 11]) 0)"
proof -
  have wf: "wf_env demo_env" by code_simp
  have h: "hooks_safe demo_env" by (simp add: hooks_safe_def demo_env_def)
  have i: "member_of demo_env 2 \<noteq> None" by code_simp
  show ?thesis using wf h i validate_defined [OF wf h i] by simp
qed

theorem dict_handler_reference_witness:
  "validate_context dict_member = PTuple [PNone, PMember TMember 0] \<and>
   member_or_none PNone \<and> member_or_none (PMember TMember 0) \<and>
   dict_wf [(PStr (ustr ''a''), PInt 5)] \<and>
   dict_handler (full_validate demo_env 3) dict_member demo_atom (PDict [(PStr (ustr ''a''), PInt 5)]) 0 =
     as_dict (dict_loop (full_validate demo_env 3) (ctx_member PNone) (ctx_member (PMember TMember 0))
                demo_atom [(PStr (ustr ''a''), PInt 5)] 0)"
proof -
  have c: "validate_context dict_member = PTuple [PNone, PMember TMember 0]"
    by (simp add: dict_member_def)
  have k: "member_or_none PNone" and v: "member_or_none (PMember TMember 0)"
    by (simp_all add: member_or_none_def)
  have wf: "dict_wf [(PStr (ustr ''a''), PInt 5)]" by code_simp
  show ?thesis using c k v wf dict_handler_reference [OF c k v wf] by simp
qed

text \<open>
  A key collision: IntPromote keys turn the distinct float keys 1.5 and 1.2 into the
  int 1, and the two entries merge.
\<close>

theorem dict_key_collision_witness:
  "full_validate demo_env 3 4 demo_atom PNone (PFloat (Fin (3/2))) 0 = Some (0, Inr (PInt 1)) \<and>
   full_validate demo_env 3 4 demo_atom PNone (PFloat (Fin (6/5))) 0 = Some (0, Inr (PInt 1)) \<and>
   validate_dict_key (full_validate demo_env 3) 4 demo_atom
     [(PFloat (Fin (3/2)), PStr (ustr ''a'')), (PFloat (Fin (6/5)), PStr (ustr ''b''))] 0 =
     Some (0, Inr (PDict [(PInt 1, PStr (ustr ''b''))]))"
proof -
  have a: "full_validate demo_env 3 4 demo_atom PNone (PFloat (Fin (3/2))) 0 = Some (0, Inr (PInt 1))"
    by code_simp
  have b: "full_validate demo_env 3 4 demo_atom PNone (PFloat (Fin (6/5))) 0 = Some (0, Inr (PInt 1))"
    by code_simp
  have e: "py_eq (PInt 1) (PInt 1)" "unhashable (PInt 1) = None" by code_simp+
  show ?thesis
    using a b dict_key_collision [where fv = "full_validate demo_env 3" and km = 4,
                                  OF a b e(1) e(2) e(2), of "PStr (ustr ''a'')" "PStr (ustr ''b'')"]
    by simp
qed

theorem validate_result_type_witness:
  "member_of demo_env 4 = Some int_promote_member \<and> mode_of (validate_mode int_promote_member) = Some VIntPromote \<and>
   validate demo_env 1 4 demo_atom PNone (PFloat (Fin (-7/2))) 0 = Some (0, Inr (PInt (-3))) \<and>
   result_type demo_classes int_promote_member VIntPromote (PInt (-3))"
proof -
  have m: "member_of demo_env 4 = Some int_promote_member" by (simp add: demo_env_def member_of_def)
  have md: "mode_of (validate_mode int_promote_member) = Some VIntPromote"
    by (simp add: int_promote_member_def)
  have r: "validate demo_env (Suc 0) 4 demo_atom PNone (PFloat (Fin (-7/2))) 0 = Some (0, Inr (PInt (-3)))"
    by code_simp
  have "result_type (classes demo_env) int_promote_member VIntPromote (PInt (-3))"
    by (rule validate_result_type [OF m md r])
  with m md r show ?thesis by (simp add: demo_env_def)
qed

theorem tuple_handler_abort_witness:
  "validate_context tuple_member = PMember TMember 1 \<and>
   validate_items (full_validate demo_env 3) 1 demo_atom [PInt 5] 0 = Some (0, Inr [PInt 5]) \<and>
   full_validate demo_env 3 1 demo_atom PNone (PInt 11) 0 = Some (0, Inl too_large) \<and>
   tuple_handler (full_validate demo_env 3) tuple_member demo_atom (PTuple [PInt 5, PInt 11, PInt 3]) 0 =
     Some (0, Inl too_large)"
proof -
  have c: "validate_context tuple_member = PMember TMember 1" by (simp add: tuple_member_def)
  have a: "validate_items (full_validate demo_env 3) 1 demo_atom [PInt 5] 0 = Some (0, Inr [PInt 5])"
    by code_simp
  have b: "full_validate demo_env 3 1 demo_atom PNone (PInt 11) 0 = Some (0, Inl too_large)"
    by code_simp
  show ?thesis using c a b tuple_handler_abort [OF c a b, of "[PInt 3]"] by simp
qed

theorem validate_enum_sequence_witness:
  "validate hook_env 1 5 PNone PNone (PStr (ustr ''b'')) 0 = Some (0, Inr (PStr (ustr ''b''))) \<and>
   validate hook_env 1 5 PNone PNone (PStr (ustr ''z'')) 0 =
     Some (0, Inl (PyExc ValueError (ustr ''invalid enum value'')))"
proof -
  have m: "member_of hook_env 5 = Some enum_member" by (simp add: hook_env_def member_of_def)
  have md: "validate_mode enum_member = mode_byte VEnum" by (simp add: enum_member_def)
  have c: "validate_context enum_member = PTuple [PStr (ustr ''a''), PStr (ustr ''b''), PStr (ustr ''c'')] \<or>
           validate_context enum_member = PList LPlain [PStr (ustr ''a''), PStr (ustr ''b''), PStr (ustr ''c'')]"
    by (simp add: enum_member_def)
  show ?thesis
    using validate_enum_sequence [OF m md c, where n = 0 and atom = PNone and old = PNone and w = 0] by (simp add: ustr_def)
qed

theorem validate_enum_str_witness:
  "validate hook_env 1 6 PNone PNone (PStr (ustr ''ab'')) 0 = Some (0, Inr (PStr (ustr ''ab''))) \<and>
   validate hook_env 1 6 PNone PNone (PStr []) 0 = Some (0, Inr (PStr [])) \<and>
   (\<exists>msg. validate hook_env 1 6 PNone PNone (PInt 1) 0 = Some (0, Inl (PyExc TypeError msg)))"
proof -
  have m: "member_of hook_env 6 = Some str_enum_member" by (simp add: hook_env_def member_of_def)
  have md: "validate_mode str_enum_member = mode_byte VEnum" by (simp add: str_enum_member_def)
  have c: "validate_context str_enum_member = PStr (ustr ''abc'')" by (simp add: str_enum_member_def)
  show ?thesis
    using validate_enum_str [OF m md c, where n = 0 and atom = PNone and old = PNone and w = 0] by (simp add: ustr_def is_substr_def)
qed

theorem validate_coerced_witness:
  "validate hook_env 1 7 PNone PNone (PStr (ustr ''42'')) 0 = Some (1, Inr (PInt 42)) \<and>
   validate hook_env 1 7 PNone PNone (PStr (ustr ''x'')) 0 =
     Some (1, Inl (PyExc ValueError (ustr ''invalid literal for int()''))) \<and>
   validate hook_env 1 7 PNone PNone (PInt 5) 0 = Some (0, Inr (PInt 5))"
proof -
  have m: "member_of hook_env 7 = Some coerced_member" by (simp add: hook_env_def member_of_def)
  have md: "validate_mode coerced_member = mode_byte VCoerced" by (simp add: coerced_member_def)
  have c: "validate_context coerced_member = PTuple [PType TInt, str_to_int]"
    by (simp add: coerced_member_def)
  show ?thesis
    using validate_coerced [OF m md c, where n = 0 and atom = PNone and old = PNone and w = 0] 
    by (simp add: hook_env_def hook_call_def is_subtype_def str_to_int_def ustr_def)
qed

theorem validate_callbacks_witness:
  "validate hook_env 1 8 PNone (PInt 1) (PInt 2) 0 =
     Some (1, Inr (PTuple [PStr (ustr ''cb''), PInt 1, PInt 2]))"
proof -
  have m: "member_of hook_env 8 = Some callback_member" by (simp add: hook_env_def member_of_def)
  have c: "validate_context callback_member = PStr (ustr ''_validate_cb'')"
    by (simp add: callback_member_def)
  have md: "validate_mode callback_member = mode_byte VObjectMethod_NameOldNew"
    by (simp add: callback_member_def)
  show ?thesis
    using validate_callbacks [OF m c, where n = 0 and atom = PNone and old = "PInt 1" and new = "PInt 2" and w = 0]
      md
    by (simp add: hook_env_def hook_call_def str_to_int_def callback_member_def)
qed

theorem import_eventually_alloced_witness:
  "mc_reachable (fold (\<lambda>ok s. fst (import_memberchange ok s))
                  [\<lambda>_. False, \<lambda>k. k \<noteq> KName, \<lambda>_. True, \<lambda>_. False] mc_init) \<and>
   alloced (fold (\<lambda>ok s. fst (import_memberchange ok s))
              [\<lambda>_. False, \<lambda>k. k \<noteq> KName, \<lambda>_. True, \<lambda>_. False] mc_init)"
proof -
  have e: "\<exists>ok\<in>set [\<lambda>_::mc_key. False, \<lambda>k. k \<noteq> KName, \<lambda>_. True, \<lambda>_. False]. \<forall>k. ok k"
    by simp
  show ?thesis by (rule import_eventually_alloced [OF mc_reachable.init e])
qed

theorem list_handler_abort_witness:
  "validate_context list_member = PMember TMember 1 \<and>
   validate_items (full_validate demo_env 3) 1 demo_atom [PInt 5] 0 = Some (0, Inr [PInt 5]) \<and>
   full_validate demo_env 3 1 demo_atom PNone (PInt 11) 0 = Some (0, Inl too_large) \<and>
   list_handler (full_validate demo_env 3) 9 list_member demo_atom
     (PList LPlain [PInt 5, PInt 11, PInt 3]) 0 = Some (0, Inl too_large) \<and>
   container_list_handler (full_validate demo_env 3) 9 list_member demo_atom
     (PList LPlain [PInt 5, PInt 11, PInt 3]) 0 = Some (0, Inl too_large)"
proof -
  have c: "validate_context list_member = PMember TMember 1" by (simp add: list_member_def)
  have a: "validate_items (full_validate demo_env 3) 1 demo_atom [PInt 5] 0 = Some (0, Inr [PInt 5])"
    by code_simp
  have b: "full_validate demo_env 3 1 demo_atom PNone (PInt 11) 0 = Some (0, Inl too_large)"
    by code_simp
  show ?thesis using c a b list_handler_abort [OF c a b, of 9 LPlain "[PInt 3]"] by simp
qed

theorem float_promote_nearest_witness:
  "float_promote_handler range_member demo_atom (PInt (2 ^ 53 + 1)) = Inr (PFloat (Fin (2 ^ 53))) \<and>
   (\<exists>q. PFloat (Fin (2 ^ 53)) = PFloat (Fin (of_int q * 2 ^ (bitlen (nat \<bar>2 ^ 53 + 1\<bar>) - 53))) \<and>
        \<bar>of_int q * 2 ^ (bitlen (nat \<bar>2 ^ 53 + 1\<bar>) - 53) - of_int (2 ^ 53 + 1)\<bar>
          \<le> (2 ^ (bitlen (nat \<bar>2 ^ 53 + 1\<bar>) - 53) / 2 :: rat))"
proof -
  have "bitlen (2 ^ 53 + 1) = Suc 53" by (rule bitlen_eq) simp_all
  then have "round_mag (2 ^ 53 + 1) = 2 ^ 53" by (simp add: round_mag_def)
  then have h: "float_promote_handler range_member demo_atom (PInt (2 ^ 53 + 1)) = Inr (PFloat (Fin (2 ^ 53)))"
    by (simp add: float_promote_handler_def PyLong_AsDouble_def nat_add_distrib nat_power_eq)
  show ?thesis by (rule conjI [OF h float_promote_nearest [OF h]])
qed

theorem check_context_sound_witness:
  "context_shape demo_classes VDict (PTuple [PNone, PMember TMember 0]) \<and>
   check_context demo_classes (mode_byte VDict) (PTuple [PNone, PMember TMember 0]) = Inr ()"
proof -
  have s: "context_shape demo_classes VDict (PTuple [PNone, PMember TMember 0])"
    by (simp add: context_shape_def member_or_none_def)
  show ?thesis using s check_context_sound [OF s] by simp
qed

theorem check_context_complete_witness:
  "check_context demo_classes (mode_byte VRange) (PTuple [PInt 0, PBool True]) = Inr () \<and>
   VRange \<noteq> VSubclass \<and> VRange \<noteq> VCoerced \<and>
   context_shape demo_classes VRange (PTuple [PInt 0, PBool True])"
proof -
  have c: "check_context demo_classes (mode_byte VRange) (PTuple [PInt 0, PBool True]) = Inr ()"
    by (simp add: check_context_def check_pair_def)
  have a: "VRange \<noteq> VSubclass" and b: "VRange \<noteq> VCoerced" by simp_all
  show ?thesis using c a b check_context_complete [OF c a b] by simp
qed

theorem check_context_error_witness:
  "check_context demo_classes (mode_byte VRange) (PTuple [PInt 0]) =
     Inl (ctx_type_error (PTuple [PInt 0]) ''2-tuple of int or None'') \<and>
   ctx_type_error (PTuple [PInt 0]) ''2-tuple of int or None'' = ctx_type_error (PTuple [PInt 0]) (shape_name VRange)"
proof -
  have c: "check_context demo_classes (mode_byte VRange) (PTuple [PInt 0]) =
             Inl (ctx_type_error (PTuple [PInt 0]) ''2-tuple of int or None'')"
    by (simp add: check_context_def check_pair_def)
  show ?thesis using c check_context_error [OF c] by simp
qed

theorem coerced_type_unchecked_witness:
  "check_context (classes hook_env) (validate_mode bad_coerced_member)
     (validate_context bad_coerced_member) = Inr () \<and>
   validate hook_env 1 9 PNone PNone (PStr (ustr ''42'')) 0 = Some (0, Inl isinstance_arg_error)"
proof -
  have c: "PyCallable_Check (classes hook_env) (PType TInt)" by (simp add: hook_env_def)
  have t: "\<not> PyType_Check (PInt 3)" and u: "\<not> PyTuple_Check (PInt 3)"
    and o: "\<forall>s k. PInt 3 \<noteq> PObj (TUser s) k" by simp_all
  have m: "member_of hook_env 9 = Some bad_coerced_member" by (simp add: hook_env_def member_of_def)
  have md: "validate_mode bad_coerced_member = mode_byte VCoerced" by (simp add: bad_coerced_member_def)
  have ctx: "validate_context bad_coerced_member = PTuple [PInt 3, PType TInt]"
    by (simp add: bad_coerced_member_def)
  show ?thesis
    using coerced_type_unchecked [OF c t u o m md ctx, where n = 0 and atom = PNone and old = PNone
                                    and new = "PStr (ustr ''42'')" and w = 0]
    by simp
qed

theorem bytes_promote_surrogates_witness:
  "bytes_promote_handler range_member demo_atom (PStr [0x41, 0xD800]) =
     Inl (PyExc UnicodeEncodeError (ustr ''surrogates not allowed'')) \<and>
   bytes_promote_handler range_member demo_atom (PStr [0x41, 0xE9]) = Inr (PBytes [0x41, 0xC3, 0xA9])"
proof -
  have a: "\<forall>c\<in>set [0x41, 0xD800]. c < (0x110000::nat)" by simp
  have b: "\<forall>c\<in>set [0x41, 0xE9]. c < (0x110000::nat)" by simp
  show ?thesis
    using bytes_promote_surrogates [OF a, of range_member demo_atom]
          bytes_promote_surrogates [OF b, of range_member demo_atom]
    by (simp add: utf8_encode_cp_def cont_byte_def)
qed

theorem validate_delegate_cycle_witness:
  "check_context demo_classes (mode_byte VDelegate) (PMember TMember 10) = Inr () \<and>
   validate hook_env 7 10 PNone PNone (PInt 1) 0 = None"
proof -
  have m: "member_of hook_env 10 = Some cycle_member" by (simp add: hook_env_def member_of_def)
  have md: "validate_mode cycle_member = mode_byte VDelegate" by (simp add: cycle_member_def)
  have c: "validate_context cycle_member = PMember TMember 10" by (simp add: cycle_member_def)
  show ?thesis
    using validate_delegate_cycle [OF m md c, where n = 7 and atom = PNone and old = PNone
                                     and new = "PInt 1" and w = 0]
    by (simp add: hook_env_def cycle_member_def)
qed

theorem validate_none_constraints_witness:
  "validate hook_env 1 11 PNone PNone PNone 0 = Some (0, Inr PNone)"
proof -
  have m: "member_of hook_env 11 = Some typed_int_member" by (simp add: hook_env_def member_of_def)
  have md: "validate_mode typed_int_member \<in> {mode_byte VInstance, mode_byte VTyped, mode_byte VCallable}"
    by (simp add: typed_int_member_def)
  have "validate hook_env (Suc 0) 11 PNone PNone PNone 0 = Some (0, Inr PNone)"
    using mp [OF conjunct1 [OF validate_none_constraints [OF m, where n = 0 and atom = PNone
                                                               and old = PNone and w = 0]] md] .
  then show ?thesis by (simp only: One_nat_def)
qed

theorem tuple_items_post_validate_witness:
  "validate hook_env (Suc (Suc 0)) 12 PNone PNone (PTuple [PInt 1, PInt 2]) 0 =
     Some (2, Inr (PTuple [PTuple [PInt 1], PTuple [PInt 2]]))"
proof -
  have m: "member_of hook_env 12 = Some tuple_post_member" by (simp add: hook_env_def member_of_def)
  have md: "validate_mode tuple_post_member = mode_byte VTuple" by (simp add: tuple_post_member_def)
  have c: "validate_context tuple_post_member = PMember TMember 13" by (simp add: tuple_post_member_def)
  have mj: "member_of hook_env 13 = Some post_int_member" by (simp add: hook_env_def member_of_def)
  have v: "validate_mode post_int_member \<noteq> 0" by (simp add: post_int_member_def mode_byte_def modes_def)
  have p: "post_validate_mode post_int_member \<noteq> 0" by (simp add: post_int_member_def)
  have i: "validate hook_env (Suc 0) 13 PNone PNone (PInt k) w = Some (w, Inr (PInt k))" for k w
    by (simp add: member_of_def hook_env_def post_int_member_def select_handler_mode_of
                  run_handler_def long_handler_def)
  have pv: "post_validate hook_env w j a old y = (Suc w, Inr (PTuple [y]))" for w j a old y
    by (simp add: hook_env_def)
  have "validate hook_env (Suc (Suc 0)) 12 PNone PNone (PTuple [PInt 1, PInt 2]) 0 =
          bindR (mapR (\<lambda>x w. bindR (validate hook_env (Suc 0) 13 PNone PNone x w)
                                  (\<lambda>w1 y. Some (post_validate hook_env w1 13 PNone PNone y)))
                      [PInt 1, PInt 2] 0)
                (\<lambda>w' ys. Some (w', Inr (PTuple ys)))"
    by (rule tuple_items_post_validate [OF m md c mj v p])
  also have "\<dots> = Some (2, Inr (PTuple [PTuple [PInt 1], PTuple [PInt 2]]))"
    by (simp del: validate.simps add: i pv)
  finally show ?thesis .
qed

theorem validate_unknown_mode_noop_witness:
  "validate (demo_env\<lparr>members := [(0, unknown_mode_member)]\<rparr>) (Suc 0) 0 demo_atom PNone (PInt 7) 0 =
     Some (0, Inr (PInt 7))"
proof -
  have m: "member_of (demo_env\<lparr>members := [(0, unknown_mode_member)]\<rparr>) 0 = Some unknown_mode_member"
    by (simp add: member_of_def)
  have u: "240 \<le> unat (validate_mode unknown_mode_member)" by (simp add: unknown_mode_member_def)
  show ?thesis using validate_unknown_mode_noop [OF m u, where n = 0 and atom = demo_atom and old = PNone
                                                and new = "PInt 7" and w = 0] .
qed

theorem validate_promote_idempotent_witness:
  "validate demo_env (Suc 0) 4 demo_atom PNone (PInt 7) 0 = Some (0, Inr (PInt 7))"
proof -
  have m: "member_of demo_env 4 = Some int_promote_member" by (simp add: demo_env_def member_of_def)
  have md: "validate_mode int_promote_member \<in> {mode_byte VIntPromote, mode_byte VLongPromote}"
    by (simp add: int_promote_member_def)
  have l: "PyLong_Check (PInt 7)" by simp
  show ?thesis
    using mp [OF mp [OF conjunct1 [OF validate_promote_idempotent [OF m, where n = 0 and atom = demo_atom
                                                 and old = PNone and new = "PInt 7" and w = 0]] md] l] .
qed

theorem dict_handler_abort_witness:
  "dict_handler (full_validate demo_env 3) (dict_member\<lparr>validate_context := PTuple [PMember TMember 0, PNone]\<rparr>)
     demo_atom (PDict [(PInt 11, PInt 1)]) 0 = Some (0, Inl too_large)"
proof -
  have c: "validate_context (dict_member\<lparr>validate_context := PTuple [PMember TMember 0, PNone]\<rparr>) =
             PTuple [PMember TMember 0, PNone]" by simp
  have mv: "member_or_none PNone" by (simp add: member_or_none_def)
  have pre: "dict_loop (full_validate demo_env 3) (Some 0) (ctx_member PNone) demo_atom [] 0 = Some (0, Inr [])"
    by (simp add: dict_loop_def)
  have f: "full_validate demo_env 3 0 demo_atom PNone (PInt 11) 0 = Some (0, Inl too_large)"
    by code_simp
  have "dict_handler (full_validate demo_env 3)
          (dict_member\<lparr>validate_context := PTuple [PMember TMember 0, PNone]\<rparr>)
          demo_atom (PDict ([] @ (PInt 11, PInt 1) # [])) 0 = Some (0, Inl too_large)"
    by (rule dict_handler_abort [OF c mv pre f])
  then show ?thesis by (simp only: append_Nil)
qed

end
